(* ===== verification/Prelude.thy ===== *)
theory Prelude
  imports Main
begin

text \<open>
  Shared vocabulary of the development: the Python exceptions the two modules can raise,
  the effect combinators that thread the remote device through the code (an action returns
  an exception or a value together with the device after its side effects, so an exception
  never undoes a remote change), Python's \<open>str.split\<close> on one separator, and decimal
  printing and parsing of naturals (used by the device for the identifiers it assigns and by
  the IPv4 address syntax).
\<close>

section \<open>Python exceptions\<close>

datatype py_error =
    KeyError
  | IndexError
  | TypeError
  | AttributeError
  | ValueError
  | ZeroDivisionError
  | SystemExit int

named_theorems act_simps "unfolding rules of the effect combinators"
named_theorems preserves_intros "closure rules of preserves"

section \<open>Fallible values\<close>

definition bind_r :: "'e + 'a \<Rightarrow> ('a \<Rightarrow> 'e + 'b) \<Rightarrow> 'e + 'b" where
  "bind_r m f = (case m of Inl e \<Rightarrow> Inl e | Inr a \<Rightarrow> f a)"

section \<open>Actions on a state\<close>

text \<open>
  An action on a state of type \<open>'s\<close> returns an exception or a value, and the state after
  it. A partial action may also run forever (\<open>None\<close>), as the deployment poll loop does.
\<close>

type_synonym ('s, 'a) act = "'s \<Rightarrow> (py_error + 'a) \<times> 's"
type_synonym ('s, 'a) pact = "'s \<Rightarrow> ((py_error + 'a) \<times> 's) option"

definition ok :: "'a \<Rightarrow> ('s, 'a) act" where
  "ok a s = (Inr a, s)"

definition throw :: "py_error \<Rightarrow> ('s, 'a) act" where
  "throw e s = (Inl e, s)"

definition lift :: "py_error + 'a \<Rightarrow> ('s, 'a) act" where
  "lift r s = (r, s)"

definition bind_act :: "('s, 'a) act \<Rightarrow> ('a \<Rightarrow> ('s, 'b) act) \<Rightarrow> ('s, 'b) act" where
  "bind_act m f s = (case m s of (Inl e, s') \<Rightarrow> (Inl e, s') | (Inr a, s') \<Rightarrow> f a s')"

text \<open>\<open>try: m except E: h\<close>: the handler runs from the state \<open>m\<close> left behind.\<close>

definition catch_act :: "py_error \<Rightarrow> ('s, 'a) act \<Rightarrow> ('s, 'a) act \<Rightarrow> ('s, 'a) act" where
  "catch_act e m h s = (case m s of (Inl e', s') \<Rightarrow> if e' = e then h s' else (Inl e', s')
                                  | (Inr a, s') \<Rightarrow> (Inr a, s'))"

text \<open>A terminating action followed by one that may run forever.\<close>

definition bind_pact :: "('s, 'a) act \<Rightarrow> ('a \<Rightarrow> ('s, 'b) pact) \<Rightarrow> ('s, 'b) pact" where
  "bind_pact m f s = (case m s of (Inl e, s') \<Rightarrow> Some (Inl e, s') | (Inr a, s') \<Rightarrow> f a s')"

definition total :: "('s, 'a) act \<Rightarrow> ('s, 'a) pact" where
  "total m s = Some (m s)"

text \<open>Two actions in sequence, either of which may run forever.\<close>

definition bind_pp :: "('s, 'a) pact \<Rightarrow> ('a \<Rightarrow> ('s, 'b) pact) \<Rightarrow> ('s, 'b) pact" where
  "bind_pp m f s = (case m s of None \<Rightarrow> None | Some (Inl e, s') \<Rightarrow> Some (Inl e, s')
                                | Some (Inr a, s') \<Rightarrow> f a s')"

section \<open>Invariants of actions\<close>

definition preserves :: "('s \<Rightarrow> bool) \<Rightarrow> ('s, 'a) act \<Rightarrow> bool" where
  "preserves P m \<longleftrightarrow> (\<forall>s. P s \<longrightarrow> P (snd (m s)))"

section \<open>Python's \<open>str.split\<close> with a one-character separator\<close>

fun py_split :: "char \<Rightarrow> string \<Rightarrow> string list" where
  "py_split c [] = [[]]"
| "py_split c (x # xs) =
     (if x = c then [] # py_split c xs
      else (case py_split c xs of w # ws \<Rightarrow> (x # w) # ws | [] \<Rightarrow> [[x]]))"

text \<open>Joining the parts with the separator gives the string back.\<close>

fun py_join :: "char \<Rightarrow> string list \<Rightarrow> string" where
  "py_join c [] = []"
| "py_join c [w] = w"
| "py_join c (w # ws) = w @ c # py_join c ws"

section \<open>Decimal numerals\<close>

definition digit_char :: "nat \<Rightarrow> char" where
  "digit_char d = char_of (48 + d)"

definition is_digit :: "char \<Rightarrow> bool" where
  "is_digit c \<longleftrightarrow> 48 \<le> (of_char c :: nat) \<and> (of_char c :: nat) \<le> 57"

definition digit_val :: "char \<Rightarrow> nat" where
  "digit_val c = of_char c - 48"

text \<open>\<open>str(n)\<close> for a natural number.\<close>

fun dec_str :: "nat \<Rightarrow> string" where
  "dec_str n = (if n < 10 then [digit_char n] else dec_str (n div 10) @ [digit_char (n mod 10)])"

declare dec_str.simps [simp del]

text \<open>\<open>int(s)\<close> for a string of ASCII digits.\<close>

definition dec_val :: "string \<Rightarrow> nat" where
  "dec_val s = foldl (\<lambda>a c. 10 * a + digit_val c) 0 s"

section \<open>Lemmas\<close>

lemma bind_r_simps [simp]:
  "bind_r (Inl e) f = Inl e"
  "bind_r (Inr a) f = f a"
  by (simp_all add: bind_r_def)

text \<open>For evaluation: simplify the first computation only, the rest once it is known.\<close>

lemma bind_r_weak_cong: "m = m' \<Longrightarrow> bind_r m f = bind_r m' f"
  by simp

lemma bind_r_Inr_iff:
  "bind_r m f = Inr b \<longleftrightarrow> (\<exists>a. m = Inr a \<and> f a = Inr b)"
  by (cases m) simp_all

lemmas [act_simps] = ok_def throw_def lift_def bind_act_def catch_act_def bind_pact_def total_def
  bind_pp_def

lemma bind_act_Inr [simp]:
  "m s = (Inr a, s') \<Longrightarrow> bind_act m f s = f a s'"
  by (simp add: bind_act_def)

lemma bind_act_Inl [simp]:
  "m s = (Inl e, s') \<Longrightarrow> bind_act m f s = (Inl e, s')"
  by (simp add: bind_act_def)

lemma bind_pact_Inr [simp]:
  "m s = (Inr a, s') \<Longrightarrow> bind_pact m f s = f a s'"
  by (simp add: bind_pact_def)

lemma bind_pact_Inl [simp]:
  "m s = (Inl e, s') \<Longrightarrow> bind_pact m f s = Some (Inl e, s')"
  by (simp add: bind_pact_def)

lemma bind_pp_Some_Inr [simp]:
  "m s = Some (Inr a, s') \<Longrightarrow> bind_pp m f s = f a s'"
  by (simp add: bind_pp_def)

lemma ok_apply [simp]: "ok a s = (Inr a, s)"
  and throw_apply [simp]: "throw e s = (Inl e, s)"
  and lift_apply [simp]: "lift r s = (r, s)"
  and total_apply [simp]: "total m s = Some (m s)"
  by (simp_all add: ok_def throw_def lift_def total_def)

lemma preservesD: "preserves P m \<Longrightarrow> P s \<Longrightarrow> m s = (r, s') \<Longrightarrow> P s'"
  unfolding preserves_def by (metis snd_conv)

lemma preserves_ok [preserves_intros]: "preserves P (ok a)"
  and preserves_throw [preserves_intros]: "preserves P (throw e)"
  and preserves_lift [preserves_intros]: "preserves P (lift r)"
  by (simp_all add: preserves_def)

lemma preserves_bind [preserves_intros]:
  assumes "preserves P m" and "\<And>a. preserves P (f a)"
  shows "preserves P (bind_act m f)"
  unfolding preserves_def
proof (intro allI impI)
  fix s assume "P s"
  obtain r s' where m: "m s = (r, s')" by fastforce
  with assms(1) \<open>P s\<close> have "P s'" by (rule preservesD)
  with m assms(2) show "P (snd (bind_act m f s))"
    by (cases r) (auto simp: preserves_def)
qed

lemma preserves_catch [preserves_intros]:
  assumes "preserves P m" and "preserves P h"
  shows "preserves P (catch_act e m h)"
  unfolding preserves_def
proof (intro allI impI)
  fix s assume "P s"
  obtain r s' where m: "m s = (r, s')" by fastforce
  with assms(1) \<open>P s\<close> have "P s'" by (rule preservesD)
  with m assms(2) show "P (snd (catch_act e m h s))"
    by (cases r) (auto simp: preserves_def catch_act_def)
qed

lemma preserves_if [preserves_intros]:
  "preserves P a \<Longrightarrow> preserves P b \<Longrightarrow> preserves P (if c then a else b)"
  by simp

lemma preserves_case_option [preserves_intros]:
  "preserves P a \<Longrightarrow> (\<And>x. preserves P (b x)) \<Longrightarrow> preserves P (case v of None \<Rightarrow> a | Some x \<Rightarrow> b x)"
  by (cases v) simp_all

lemma find_unique:
  "length (filter P xs) \<le> 1 \<Longrightarrow> find P xs = Some r \<Longrightarrow> x \<in> set xs \<Longrightarrow> P x \<Longrightarrow> x = r"
proof (induction xs)
  case Nil
  then show ?case by simp
next
  case (Cons y ys)
  then show ?case
    by (cases "P y") (auto simp: filter_empty_conv split: if_splits)
qed

lemma length_filter_filter_le: "length (filter P (filter Q xs)) \<le> length (filter P xs)"
  by (induction xs) auto

lemma py_split_not_Nil [simp]: "py_split c s \<noteq> []"
  by (induction s) (auto split: list.split)

text \<open>\<open>s.split(c)[0]\<close> always exists: it is the text before the first separator.\<close>

lemma hd_py_split: "hd (py_split c s) = takeWhile (\<lambda>x. x \<noteq> c) s"
  by (induction s) (auto split: list.split)

lemma py_split_no_sep: "c \<notin> set s \<Longrightarrow> py_split c s = [s]"
  by (induction s) auto

lemma py_join_Cons: "py_join c (w # ws) = (if ws = [] then w else w @ c # py_join c ws)"
  by (cases ws) simp_all

lemma py_join_py_split: "py_join c (py_split c s) = s"
proof (induction s)
  case Nil
  then show ?case by simp
next
  case (Cons x xs)
  then show ?case
    by (cases "py_split c xs") (auto simp: py_join_Cons split: if_splits)
qed

lemma digit_val_digit_char [simp]: "d < 10 \<Longrightarrow> digit_val (digit_char d) = d"
  by (simp add: digit_val_def digit_char_def)

lemma is_digit_digit_char [simp]: "d < 10 \<Longrightarrow> is_digit (digit_char d)"
  by (simp add: is_digit_def digit_char_def)

lemma dec_val_snoc: "dec_val (s @ [c]) = 10 * dec_val s + digit_val c"
  by (simp add: dec_val_def)

lemma dec_val_dec_str [simp]: "dec_val (dec_str n) = n"
proof (induction n rule: dec_str.induct)
  case (1 n)
  then show ?case
    by (subst dec_str.simps) (simp add: dec_val_snoc dec_val_def)
qed

lemma dec_str_inj: "dec_str m = dec_str n \<longleftrightarrow> m = n"
  by (metis dec_val_dec_str)

lemma dec_str_digits: "list_all is_digit (dec_str n)"
proof (induction n rule: dec_str.induct)
  case (1 n)
  then show ?case by (subst dec_str.simps) simp
qed

lemma dec_str_not_Nil [simp]: "dec_str n \<noteq> []"
  by (subst dec_str.simps) simp

end
