(* ===== verification/Json.thy ===== *)
theory Json
  imports Prelude
begin

text \<open>
  The remote API speaks JSON, and the code handles every payload as the dictionary that
  \<open>json.loads\<close> returns, reading it with chains of subscripts such as
  \<open>json.loads(netobj)['error']['messages'][0]['code']\<close>. This theory gives JSON values a
  datatype and writes out what Python does on each subscript, iteration and string
  concatenation, including the exception it raises when the value has the wrong shape.
\<close>

datatype json =
    JNull
  | JBool bool
  | JNum int
  | JStr string
  | JArr "json list"
  | JObj "(string \<times> json) list"

section \<open>Subscripts\<close>

text \<open>
  \<open>d[k]\<close> with a string key. A dictionary built by \<open>json.loads\<close> keeps the last value of a
  repeated key, hence the lookup in the reversed association list.
\<close>

fun getitem :: "json \<Rightarrow> string \<Rightarrow> py_error + json" where
  "getitem (JObj kvs) k = (case map_of (rev kvs) k of Some v \<Rightarrow> Inr v | None \<Rightarrow> Inl KeyError)"
| "getitem _ k = Inl TypeError"

text \<open>\<open>l[i]\<close> with a non-negative integer index.\<close>

fun index :: "json \<Rightarrow> nat \<Rightarrow> py_error + json" where
  "index (JArr xs) i = (if i < length xs then Inr (xs ! i) else Inl IndexError)"
| "index (JStr s) i = (if i < length s then Inr (JStr [s ! i]) else Inl IndexError)"
| "index (JObj kvs) i = Inl KeyError"
| "index _ i = Inl TypeError"

datatype sel = K string | I nat

fun sub :: "json \<Rightarrow> sel \<Rightarrow> py_error + json" where
  "sub j (K k) = getitem j k"
| "sub j (I i) = index j i"

text \<open>A chain of subscripts \<open>j[s1][s2]...\<close>, evaluated left to right.\<close>

fun subs :: "json \<Rightarrow> sel list \<Rightarrow> py_error + json" where
  "subs j [] = Inr j"
| "subs j (s # ss) = bind_r (sub j s) (\<lambda>j'. subs j' ss)"

section \<open>Other Python operations on JSON values\<close>

text \<open>\<open>json.loads(text)\<close>: the HTTP helpers return the body or \<open>None\<close>, and \<open>json.loads(None)\<close> raises \<open>TypeError\<close>.\<close>

fun loads :: "json option \<Rightarrow> py_error + json" where
  "loads None = Inl TypeError"
| "loads (Some j) = Inr j"

text \<open>\<open>"literal" + x\<close>: only a string can be concatenated to a string.\<close>

fun py_str :: "json \<Rightarrow> py_error + string" where
  "py_str (JStr s) = Inr s"
| "py_str _ = Inl TypeError"

text \<open>\<open>for x in v\<close>: a list yields its elements, a dictionary its keys, a string its characters.\<close>

fun py_iter :: "json \<Rightarrow> py_error + json list" where
  "py_iter (JArr xs) = Inr xs"
| "py_iter (JObj kvs) = Inr (map JStr (remdups (map fst kvs)))"
| "py_iter (JStr s) = Inr (map (\<lambda>c. JStr [c]) s)"
| "py_iter _ = Inl TypeError"

text \<open>Truth value of \<open>if v:\<close>.\<close>

fun truthy :: "json \<Rightarrow> bool" where
  "truthy JNull = False"
| "truthy (JBool b) = b"
| "truthy (JNum n) = (n \<noteq> 0)"
| "truthy (JStr s) = (s \<noteq> [])"
| "truthy (JArr xs) = (xs \<noteq> [])"
| "truthy (JObj kvs) = (kvs \<noteq> [])"

text \<open>\<open>v.split(c)\<close>: only a string has the method.\<close>

fun py_str_split :: "char \<Rightarrow> json \<Rightarrow> py_error + string list" where
  "py_str_split c (JStr s) = Inr (py_split c s)"
| "py_str_split c _ = Inl AttributeError"

text \<open>A dictionary with one entry per key, in the order the code builds it.\<close>

definition item :: "string \<Rightarrow> string \<Rightarrow> string \<times> json" where
  "item k v = (k, JStr v)"

section \<open>Lemmas\<close>

lemma subs_append: "subs j (xs @ ys) = bind_r (subs j xs) (\<lambda>j'. subs j' ys)"
  by (induction xs arbitrary: j) (auto simp: bind_r_def split: sum.split)

lemma getitem_JObj_distinct:
  "getitem (JObj kvs) k = Inr v" if "distinct (map fst kvs)" and "map_of kvs k = Some v"
proof -
  have "distinct (map fst (rev kvs))"
    using that(1) by (simp only: rev_map [symmetric] distinct_rev)
  moreover have "(k, v) \<in> set (rev kvs)"
    using that(2) by (simp only: set_rev) (rule map_of_SomeD)
  ultimately have "map_of (rev kvs) k = Some v"
    by (rule map_of_is_SomeI)
  then show ?thesis by simp
qed

lemma getitem_Inr_JObj: "getitem j k = Inr v \<Longrightarrow> \<exists>kvs. j = JObj kvs \<and> (k, v) \<in> set kvs"
  by (cases j) (auto split: option.splits dest: map_of_SomeD)

lemma py_str_Inr_iff [simp]: "py_str j = Inr s \<longleftrightarrow> j = JStr s"
  by (cases j) simp_all

lemma py_str_Inl_iff [simp]: "py_str j = Inl e \<longleftrightarrow> TypeError = e \<and> (\<forall>s. j \<noteq> JStr s)"
  by (cases j) simp_all

lemma loads_Inr_iff [simp]: "loads b = Inr j \<longleftrightarrow> b = Some j"
  by (cases b) simp_all

lemmas json_simps = getitem.simps index.simps subs.simps sub.simps loads.simps py_str.simps
  py_iter.simps item_def

end
