(* ===== verification/Remote.thy ===== *)
theory Remote
  imports Json "HOL-Library.Monad_Syntax"
begin

text \<open>
  The remote side: the firewall's management API (FDM) that \<open>src/firepower.py\<close> talks to.
  It is not code of the repository; it is modelled from the spec (sections 3, 4.1, 4.4 and
  6) as a state of the device and a function \<open>http\<close> that answers one request with a
  status code and a JSON body and returns the device after the request.

  The device keeps its virtual routers, network objects, static route entries (tagged with
  the virtual router they belong to), physical interfaces, a counter from which it assigns
  identifiers, and the deployment tasks. The states a deployment task goes through are not
  under the code's control: the device holds a feed \<open>dev_feed\<close>, the task list it answers
  to the \<open>k\<close>-th poll of \<open>/operational/deploy\<close> (\<open>None\<close>: the poll is answered with a
  server error), and a clock counting the polls. \<open>dev_fail m u\<close> marks the requests the
  device answers with a server error, so that every failure branch of the code is reachable.
\<close>

section \<open>Requests\<close>

datatype http_method = GET | POST | DELETE

text \<open>The resource paths the code builds (spec section 6), one constructor per path shape.\<close>

datatype url =
    U_Token                   \<comment> \<open>\<open>/fdm/token\<close>\<close>
  | U_VRouters                \<comment> \<open>\<open>/devices/default/routing/virtualrouters\<close>\<close>
  | U_Routes string           \<comment> \<open>\<open>.../virtualrouters/<vr>/staticrouteentries\<close>\<close>
  | U_Route string string     \<comment> \<open>\<open>.../virtualrouters/<vr>/staticrouteentries/<id>\<close>\<close>
  | U_Objects                 \<comment> \<open>\<open>/object/networks\<close>\<close>
  | U_Object string           \<comment> \<open>\<open>/object/networks/<id>\<close>\<close>
  | U_ObjectsNamed string     \<comment> \<open>\<open>/object/networks?filter=name%3A<name>\<close>\<close>
  | U_Interfaces              \<comment> \<open>\<open>/devices/default/interfaces\<close>\<close>
  | U_Deploy                  \<comment> \<open>\<open>/operational/deploy\<close>\<close>

section \<open>The device\<close>

record netobj =
  no_id :: string
  no_name :: string
  no_subtype :: string
  no_value :: string

record iface =
  if_id :: string
  if_name :: string
  if_hw :: string

record vrouter =
  vr_id :: string
  vr_name :: string

record sroute =
  sr_id :: string
  sr_name :: string
  sr_iface :: string
  sr_networks :: "string list"
  sr_gateway :: string
  sr_metric :: int

record device =
  dev_user :: string
  dev_password :: string
  dev_token :: string
  dev_vrouters :: "vrouter list"
  dev_objects :: "netobj list"
  dev_routes :: "(string \<times> sroute) list"
  dev_ifaces :: "iface list"
  dev_next :: nat
  dev_deploys :: nat
  dev_feed :: "nat \<Rightarrow> json option"
  dev_clock :: nat
  dev_fail :: "http_method \<Rightarrow> url \<Rightarrow> bool"

definition mk_id :: "string \<Rightarrow> nat \<Rightarrow> string" where
  "mk_id p n = p @ dec_str n"

section \<open>JSON the device sends\<close>

definition ref_json :: "string \<Rightarrow> json" where
  "ref_json i = JObj [item ''id'' i]"

definition obj_json :: "netobj \<Rightarrow> json" where
  "obj_json ob = JObj [item ''id'' (no_id ob), item ''name'' (no_name ob),
     item ''subType'' (no_subtype ob), item ''value'' (no_value ob), item ''type'' ''networkobject'']"

definition route_json :: "sroute \<Rightarrow> json" where
  "route_json r = JObj [item ''id'' (sr_id r), item ''name'' (sr_name r),
     (''iface'', ref_json (sr_iface r)), (''networks'', JArr (map ref_json (sr_networks r))),
     (''gateway'', ref_json (sr_gateway r)), (''metricValue'', JNum (sr_metric r)),
     item ''type'' ''staticrouteentry'']"

definition iface_json :: "iface \<Rightarrow> json" where
  "iface_json i = JObj [item ''id'' (if_id i), item ''name'' (if_name i),
     item ''hardwareName'' (if_hw i), item ''type'' ''physicalinterface'']"

definition vr_json :: "vrouter \<Rightarrow> json" where
  "vr_json v = JObj [item ''id'' (vr_id v), item ''name'' (vr_name v)]"

definition items :: "json list \<Rightarrow> json" where
  "items xs = JObj [(''items'', JArr xs)]"

definition err_json :: "string \<Rightarrow> json" where
  "err_json c = JObj [(''error'', JObj [(''messages'', JArr [JObj [item ''code'' c]])])]"

section \<open>JSON the device accepts\<close>

definition str_at :: "json \<Rightarrow> string \<Rightarrow> string option" where
  "str_at j k = (case getitem j k of Inr (JStr s) \<Rightarrow> Some s | _ \<Rightarrow> None)"

definition ref_at :: "json \<Rightarrow> string \<Rightarrow> string option" where
  "ref_at j k = (case getitem j k of Inr r \<Rightarrow> str_at r ''id'' | Inl _ \<Rightarrow> None)"

text \<open>A static route entry as posted: name, interface, networks, gateway, metric.\<close>

definition decode_route :: "json \<Rightarrow> (string \<times> string \<times> string list \<times> string \<times> int) option" where
  "decode_route j = do {
     n \<leftarrow> str_at j ''name'';
     i \<leftarrow> ref_at j ''iface'';
     nets \<leftarrow> (case getitem j ''networks'' of Inr (JArr xs) \<Rightarrow> those (map (\<lambda>x. str_at x ''id'') xs)
              | _ \<Rightarrow> None);
     g \<leftarrow> ref_at j ''gateway'';
     m \<leftarrow> (case getitem j ''metricValue'' of Inr (JNum m) \<Rightarrow> Some m | _ \<Rightarrow> None);
     Some (n, i, nets, g, m)
   }"

section \<open>Answers\<close>

definition obj_ids :: "device \<Rightarrow> string list" where
  "obj_ids d = map no_id (dev_objects d)"

definition routes_of :: "device \<Rightarrow> string \<Rightarrow> sroute list" where
  "routes_of d v = map snd (filter (\<lambda>(v', r). v' = v) (dev_routes d))"

definition known_vr :: "device \<Rightarrow> string \<Rightarrow> bool" where
  "known_vr d v \<longleftrightarrow> v \<in> set (map vr_id (dev_vrouters d))"

definition token_req :: "json \<Rightarrow> device \<Rightarrow> (nat \<times> json) \<times> device" where
  "token_req p d =
     (if str_at p ''grant_type'' = Some ''password'' \<and> str_at p ''username'' = Some (dev_user d)
         \<and> str_at p ''password'' = Some (dev_password d)
      then ((200, JObj [item ''access_token'' (dev_token d), item ''token_type'' ''Bearer'']), d)
      else ((400, err_json ''invalidCredentials''), d))"

definition create_object :: "json \<Rightarrow> device \<Rightarrow> (nat \<times> json) \<times> device" where
  "create_object p d =
     (case (str_at p ''name'', str_at p ''subType'', str_at p ''value'') of
        (Some n, Some st, Some v) \<Rightarrow>
          if n \<in> set (map no_name (dev_objects d)) then ((422, err_json ''duplicateName''), d)
          else (let ob = \<lparr>no_id = mk_id ''obj'' (dev_next d), no_name = n, no_subtype = st, no_value = v\<rparr>
                in ((200, obj_json ob),
                    d\<lparr>dev_objects := dev_objects d @ [ob], dev_next := Suc (dev_next d)\<rparr>))
      | _ \<Rightarrow> ((422, err_json ''invalidField''), d))"

definition create_route :: "string \<Rightarrow> json \<Rightarrow> device \<Rightarrow> (nat \<times> json) \<times> device" where
  "create_route v p d =
     (if \<not> known_vr d v then ((404, err_json ''notFound''), d)
      else case decode_route p of
        None \<Rightarrow> ((422, err_json ''invalidField''), d)
      | Some (n, i, nets, g, m) \<Rightarrow>
          if i \<notin> set (map if_id (dev_ifaces d)) \<or> nets = [] \<or> \<not> set nets \<subseteq> set (obj_ids d)
             \<or> g \<notin> set (obj_ids d)
          then ((422, err_json ''invalidReference''), d)
          else (let r = \<lparr>sr_id = mk_id ''rt'' (dev_next d), sr_name = n, sr_iface = i,
                         sr_networks = nets, sr_gateway = g, sr_metric = m\<rparr>
                in ((200, route_json r),
                    d\<lparr>dev_routes := dev_routes d @ [(v, r)], dev_next := Suc (dev_next d)\<rparr>)))"

definition delete_route :: "string \<Rightarrow> string \<Rightarrow> device \<Rightarrow> (nat \<times> json) \<times> device" where
  "delete_route v i d =
     (if (\<exists>r \<in> set (routes_of d v). sr_id r = i)
      then ((204, JNull), d\<lparr>dev_routes := filter (\<lambda>(v', r). \<not> (v' = v \<and> sr_id r = i)) (dev_routes d)\<rparr>)
      else ((404, err_json ''notFound''), d))"

definition new_deploy :: "device \<Rightarrow> (nat \<times> json) \<times> device" where
  "new_deploy d = ((200, JObj [item ''id'' (mk_id ''dep'' (dev_deploys d)), item ''state'' ''QUEUED'']),
                   d\<lparr>dev_deploys := Suc (dev_deploys d)\<rparr>)"

definition poll_deploy :: "device \<Rightarrow> (nat \<times> json) \<times> device" where
  "poll_deploy d =
     ((case dev_feed d (dev_clock d) of Some j \<Rightarrow> (200, j) | None \<Rightarrow> (500, err_json ''serverError'')),
      d\<lparr>dev_clock := Suc (dev_clock d)\<rparr>)"

fun serve :: "http_method \<Rightarrow> url \<Rightarrow> json option \<Rightarrow> device \<Rightarrow> (nat \<times> json) \<times> device" where
  "serve POST U_Token (Some p) d = token_req p d"
| "serve GET U_VRouters _ d = ((200, items (map vr_json (dev_vrouters d))), d)"
| "serve GET (U_Routes v) _ d =
     (if known_vr d v then ((200, items (map route_json (routes_of d v))), d)
      else ((404, err_json ''notFound''), d))"
| "serve POST (U_Routes v) (Some p) d = create_route v p d"
| "serve DELETE (U_Route v i) _ d = delete_route v i d"
| "serve POST U_Objects (Some p) d = create_object p d"
| "serve GET (U_Object i) _ d =
     (case find (\<lambda>ob. no_id ob = i) (dev_objects d) of
        Some ob \<Rightarrow> ((200, obj_json ob), d)
      | None \<Rightarrow> ((404, err_json ''notFound''), d))"
| "serve GET (U_ObjectsNamed n) _ d =
     ((200, items (map obj_json (filter (\<lambda>ob. no_name ob = n) (dev_objects d)))), d)"
| "serve GET U_Interfaces _ d = ((200, items (map iface_json (dev_ifaces d))), d)"
| "serve POST U_Deploy _ d = new_deploy d"
| "serve GET U_Deploy _ d = poll_deploy d"
| "serve _ _ _ d = ((405, err_json ''methodNotAllowed''), d)"

text \<open>
  A request carries the bearer token (\<open>None\<close> for the token request itself). Injected
  failures and a wrong token are answered before the request is served.
\<close>

definition http :: "http_method \<Rightarrow> url \<Rightarrow> string option \<Rightarrow> json option \<Rightarrow> device \<Rightarrow> (nat \<times> json) \<times> device" where
  "http m u tok p d =
     (if dev_fail d m u then ((500, err_json ''serverError''), d)
      else if u \<noteq> U_Token \<and> tok \<noteq> Some (dev_token d) then ((401, err_json ''unauthorized''), d)
      else serve m u p d)"

section \<open>Lemmas\<close>

lemma mk_id_inj [simp]: "mk_id p m = mk_id p n \<longleftrightarrow> m = n"
  by (simp add: mk_id_def dec_str_inj)

lemma http_served:
  "\<not> dev_fail d m u \<Longrightarrow> u = U_Token \<or> tok = Some (dev_token d) \<Longrightarrow> http m u tok p d = serve m u p d"
  by (auto simp: http_def)

end
