(* ===== verification/Session.thy ===== *)
theory Session
  imports Remote
begin

text \<open>
  The session layer of \<open>src/firepower.py\<close>: the options the module loads at import
  (passed here as an explicit \<open>config\<close> record instead of module globals), the state of a
  \<open>FirePower\<close> object (its bearer token and the id of the Global virtual router), the three
  HTTP helpers \<open>getData\<close>, \<open>deleteData\<close>, \<open>postData\<close>, and the constructor, which
  authenticates (\<open>authRequest\<close>) and looks up the virtual router (\<open>getGlobalVR\<close>).
\<close>

record config =
  cfg_username :: string
  cfg_password :: string
  cfg_route :: string
  cfg_gateway :: string
  cfg_fo_interface :: string

text \<open>\<open>self.token\<close> is whatever \<open>authRequest\<close> returned (\<open>None\<close> after a failed login, as
  \<open>JNull\<close>); \<open>self.globalVR\<close> is only set when the first virtual router is the Global one.\<close>

record fp =
  fp_token :: json
  fp_globalVR :: "string option"

definition oauth_data :: "config \<Rightarrow> json" where
  "oauth_data cfg = JObj [item ''grant_type'' ''password'', item ''username'' (cfg_username cfg),
                          item ''password'' (cfg_password cfg)]"

text \<open>Reading \<open>self.globalVR\<close> before it was assigned raises \<open>AttributeError\<close>.\<close>

definition globalVR :: "fp \<Rightarrow> py_error + string" where
  "globalVR f = (case fp_globalVR f of Some v \<Rightarrow> Inr v | None \<Rightarrow> Inl AttributeError)"

section \<open>HTTP helpers\<close>

text \<open>Each helper first builds the header \<open>"Bearer " + self.token\<close>, which raises
  \<open>TypeError\<close> when the token is not a string.\<close>

definition getData :: "fp \<Rightarrow> url \<Rightarrow> (device, json option) act" where
  "getData f u = bind_act (lift (py_str (fp_token f))) (\<lambda>tok d.
     (case http GET u (Some tok) None d of
        ((st, body), d') \<Rightarrow> (Inr (if st = 200 then Some body else None), d')))"

definition deleteData :: "fp \<Rightarrow> url \<Rightarrow> (device, bool) act" where
  "deleteData f u = bind_act (lift (py_str (fp_token f))) (\<lambda>tok d.
     (case http DELETE u (Some tok) None d of ((st, body), d') \<Rightarrow> (Inr (st = 204), d')))"

definition postData :: "fp \<Rightarrow> url \<Rightarrow> json option \<Rightarrow> (device, json option) act" where
  "postData f u payload = bind_act (lift (py_str (fp_token f))) (\<lambda>tok d.
     (case http POST u (Some tok) payload d of
        ((st, body), d') \<Rightarrow>
          (Inr (if st = 200 then Some body else if st = 422 then Some body else None), d')))"

section \<open>Construction\<close>

definition authRequest :: "config \<Rightarrow> (device, json) act" where
  "authRequest cfg d =
     (case http POST U_Token None (Some (oauth_data cfg)) d of
        ((st, body), d') \<Rightarrow> if st = 200 then (getitem body ''access_token'', d') else (Inr JNull, d'))"

definition getGlobalVR :: "fp \<Rightarrow> (device, fp) act" where
  "getGlobalVR f = bind_act (getData f U_VRouters) (\<lambda>resp.
     bind_act (lift (bind_r (loads resp) (\<lambda>j. subs j [K ''items'', I 0]))) (\<lambda>vrouters.
       bind_act (lift (getitem vrouters ''name'')) (\<lambda>name.
         if name = JStr ''Global'' then
           bind_act (lift (getitem vrouters ''id'')) (\<lambda>i.
             bind_act (lift (py_str i)) (\<lambda>s. ok (f\<lparr>fp_globalVR := Some s\<rparr>)))
         else ok f)))"

definition FirePower :: "config \<Rightarrow> (device, fp) act" where
  "FirePower cfg = bind_act (authRequest cfg) (\<lambda>tok.
     getGlobalVR \<lparr>fp_token = tok, fp_globalVR = None\<rparr>)"

text \<open>The observation the component lemmas are stated in: the session's token is the device's
  and none of the listed requests is answered with an injected server error.\<close>

definition answers :: "fp \<Rightarrow> device \<Rightarrow> (http_method \<times> url) list \<Rightarrow> bool" where
  "answers f d reqs \<longleftrightarrow> fp_token f = JStr (dev_token d) \<and> list_all (\<lambda>(m, u). \<not> dev_fail d m u) reqs"

section \<open>A demonstration device\<close>

text \<open>The concrete device and session the witnesses run on: one Global virtual router, one
  physical interface, no objects or routes yet, and a deployment feed in which task
  \<open>dep0\<close> is listed as \<open>PENDING\<close> at the first two polls and \<open>DEPLOYED\<close> from the third.\<close>

definition task_json :: "string \<Rightarrow> string \<Rightarrow> json" where
  "task_json i st = JObj [item ''id'' i, item ''state'' st]"

definition demo_feed :: "nat \<Rightarrow> json option" where
  "demo_feed k = Some (items [task_json ''dep0'' (if k < 2 then ''PENDING'' else ''DEPLOYED'')])"

definition demo_device :: device where
  "demo_device = \<lparr>dev_user = ''admin'', dev_password = ''secret'', dev_token = ''tok'',
     dev_vrouters = [\<lparr>vr_id = ''vr1'', vr_name = ''Global''\<rparr>], dev_objects = [], dev_routes = [],
     dev_ifaces = [\<lparr>if_id = ''if1'', if_name = ''outside2'', if_hw = ''GigabitEthernet0/1''\<rparr>],
     dev_next = 0, dev_deploys = 0, dev_feed = demo_feed, dev_clock = 0, dev_fail = (\<lambda>_ _. False)\<rparr>"

definition demo_config :: config where
  "demo_config = \<lparr>cfg_username = ''admin'', cfg_password = ''secret'', cfg_route = ''10.10.0.0/16'',
     cfg_gateway = ''192.168.1.1'', cfg_fo_interface = ''GigabitEthernet0/1''\<rparr>"

definition demo_fp :: fp where
  "demo_fp = \<lparr>fp_token = JStr ''tok'', fp_globalVR = Some ''vr1''\<rparr>"

section \<open>Lemmas\<close>

text \<open>A property of the device that every request keeps is kept by the three helpers.\<close>

lemma getData_preserves [preserves_intros]:
  "(\<And>m u tok p d. P d \<Longrightarrow> P (snd (http m u tok p d))) \<Longrightarrow> preserves P (getData f u)"
  unfolding getData_def
  by (intro preserves_intros) (auto simp: preserves_def split: prod.split; metis snd_conv)

lemma postData_preserves [preserves_intros]:
  "(\<And>m u tok p d. P d \<Longrightarrow> P (snd (http m u tok p d))) \<Longrightarrow> preserves P (postData f u j)"
  unfolding postData_def
  by (intro preserves_intros) (auto simp: preserves_def split: prod.split; metis snd_conv)

lemma deleteData_preserves [preserves_intros]:
  "(\<And>m u tok p d. P d \<Longrightarrow> P (snd (http m u tok p d))) \<Longrightarrow> preserves P (deleteData f u)"
  unfolding deleteData_def
  by (intro preserves_intros) (auto simp: preserves_def split: prod.split; metis snd_conv)

lemma answers_append: "answers f d (xs @ ys) \<longleftrightarrow> answers f d xs \<and> answers f d ys"
  by (auto simp: answers_def)

lemmas demo_defs = demo_device_def demo_fp_def demo_config_def demo_feed_def task_json_def
  items_def item_def

end
