(* ===== verification/IPv4.thy ===== *)
theory IPv4
  imports Prelude "HOL-Library.Word"
begin

unbundle bit_operations_syntax

text \<open>
  \<open>createNetwork\<close> (\<open>src/firepower.py\<close>, lines 200--209) normalises the configured backup
  route with Python's \<open>ipaddress.IPv4Network(address)\<close> and prints the network address and
  netmask in dotted-decimal form. This theory writes out what that library call does in its
  default strict mode (CPython's \<open>_split_optional_netmask\<close>, \<open>_ip_int_from_string\<close>,
  \<open>_parse_octet\<close>, \<open>_make_netmask\<close>, \<open>_prefix_from_ip_int\<close> and the host-bit check), with
  addresses as \<open>32 word\<close>. All of the library's \<open>AddressValueError\<close> and
  \<open>NetmaskValueError\<close> are subclasses of \<open>ValueError\<close> and are modelled as \<open>ValueError\<close>.
\<close>

type_synonym ipv4addr = "32 word"

section \<open>Dotted-decimal syntax\<close>

text \<open>\<open>_parse_octet\<close>: ASCII digits only, at most three, no leading zero, at most 255.\<close>

definition parse_octet :: "string \<Rightarrow> py_error + nat" where
  "parse_octet s =
     (if s = [] then Inl ValueError
      else if \<not> list_all is_digit s then Inl ValueError
      else if 3 < length s then Inl ValueError
      else if s \<noteq> ''0'' \<and> hd s = CHR ''0'' then Inl ValueError
      else if 255 < dec_val s then Inl ValueError
      else Inr (dec_val s))"

text \<open>\<open>int.from_bytes(map(_parse_octet, octets), 'big')\<close>.\<close>

fun parse_octets :: "nat \<Rightarrow> string list \<Rightarrow> py_error + nat" where
  "parse_octets acc [] = Inr acc"
| "parse_octets acc (s # ss) = bind_r (parse_octet s) (\<lambda>b. parse_octets (256 * acc + b) ss)"

definition ip_int_from_string :: "string \<Rightarrow> py_error + ipv4addr" where
  "ip_int_from_string s =
     (if s = [] then Inl ValueError
      else let octets = py_split CHR ''.'' s in
        if length octets \<noteq> 4 then Inl ValueError
        else bind_r (parse_octets 0 octets) (\<lambda>n. Inr (of_nat n)))"

text \<open>\<open>str(IPv4Address)\<close>: the four bytes, big-endian, in decimal, joined by dots.\<close>

definition octets :: "ipv4addr \<Rightarrow> nat list" where
  "octets w = [unat w div 2 ^ 24 mod 256, unat w div 2 ^ 16 mod 256, unat w div 2 ^ 8 mod 256,
               unat w mod 256]"

definition ipv4_str :: "ipv4addr \<Rightarrow> string" where
  "ipv4_str w = py_join CHR ''.'' (map dec_str (octets w))"

section \<open>Prefixes and netmasks\<close>

definition all_ones :: ipv4addr where
  "all_ones = 4294967295"

text \<open>\<open>_ip_int_from_prefix\<close>: \<open>ALL_ONES ^ (ALL_ONES >> prefixlen)\<close>.\<close>

definition netmask :: "nat \<Rightarrow> ipv4addr" where
  "netmask p = all_ones XOR drop_bit p all_ones"

text \<open>\<open>_count_righthand_zero_bits(number, 32)\<close>: the trailing zero bits, at most 32.\<close>

fun tz :: "nat \<Rightarrow> nat \<Rightarrow> nat" where
  "tz k n = (if k = 0 \<or> odd n then 0 else Suc (tz (k - 1) (n div 2)))"

declare tz.simps [simp del]

text \<open>\<open>_prefix_from_ip_int\<close>: the prefix length of a netmask, \<open>ValueError\<close> if its ones are
  not contiguous from the top.\<close>

definition prefix_from_ip_int :: "ipv4addr \<Rightarrow> py_error + nat" where
  "prefix_from_ip_int w =
     (let t = tz 32 (unat w); p = 32 - t in
      if unat w div 2 ^ t = 2 ^ p - 1 then Inr p else Inl ValueError)"

text \<open>\<open>_prefix_from_prefix_string\<close>: ASCII digits giving a value from 0 to 32.\<close>

definition prefix_from_prefix_string :: "string \<Rightarrow> py_error + nat" where
  "prefix_from_prefix_string s =
     (if s = [] \<or> \<not> list_all is_digit s then Inl ValueError
      else if 32 < dec_val s then Inl ValueError else Inr (dec_val s))"

text \<open>\<open>_prefix_from_ip_string\<close>: a dotted netmask, or else a dotted hostmask.\<close>

definition prefix_from_ip_string :: "string \<Rightarrow> py_error + nat" where
  "prefix_from_ip_string s =
     bind_r (ip_int_from_string s) (\<lambda>w.
       case prefix_from_ip_int w of
         Inr p \<Rightarrow> Inr p
       | Inl _ \<Rightarrow> prefix_from_ip_int (w XOR all_ones))"

text \<open>\<open>_make_netmask\<close> for the text after the slash; no slash means prefix length 32.\<close>

definition make_prefix :: "string option \<Rightarrow> py_error + nat" where
  "make_prefix m =
     (case m of
        None \<Rightarrow> Inr 32
      | Some s \<Rightarrow> (case prefix_from_prefix_string s of
                    Inr p \<Rightarrow> Inr p
                  | Inl _ \<Rightarrow> prefix_from_ip_string s))"

text \<open>\<open>IPv4Network(address)\<close> with \<open>strict=True\<close>: the network address and netmask, or
  \<open>ValueError\<close> (more than one slash, a malformed address or mask, or host bits set).\<close>

definition ipv4_network :: "string \<Rightarrow> py_error + ipv4addr \<times> ipv4addr" where
  "ipv4_network s =
     (let parts = py_split CHR ''/'' s in
      if 2 < length parts then Inl ValueError
      else bind_r (ip_int_from_string (hd parts)) (\<lambda>a.
        bind_r (make_prefix (if length parts = 2 then Some (parts ! 1) else None)) (\<lambda>p.
          let m = netmask p in
          if a AND m \<noteq> a then Inl ValueError else Inr (a, m))))"

section \<open>Lemmas\<close>

lemmas ip_eval = ipv4_network_def ip_int_from_string_def parse_octet_def dec_val_def digit_val_def
  is_digit_def make_prefix_def prefix_from_prefix_string_def prefix_from_ip_string_def
  prefix_from_ip_int_def tz.simps netmask_def all_ones_def Let_def

lemma py_split_append_sep:
  "c \<notin> set x \<Longrightarrow> py_split c (x @ c # y) = x # py_split c y"
  by (induction x) auto

lemma digit_char_0: "digit_char 0 = CHR ''0''"
  by (simp add: digit_char_def char_of_def bit_0)

lemma digit_char_eq_iff: "d < 10 \<Longrightarrow> e < 10 \<Longrightarrow> digit_char d = digit_char e \<longleftrightarrow> d = e"
  by (metis digit_val_digit_char)

lemma dec_str_small: "n < 10 \<Longrightarrow> dec_str n = [digit_char n]"
  by (simp add: dec_str.simps)

lemma dec_str_large: "\<not> n < 10 \<Longrightarrow> dec_str n = dec_str (n div 10) @ [digit_char (n mod 10)]"
  by (subst dec_str.simps) simp

lemma hd_dec_str_nonzero: "0 < n \<Longrightarrow> hd (dec_str n) \<noteq> CHR ''0''"
proof (induction n rule: dec_str.induct)
  case (1 n)
  show ?case
  proof (cases "n < 10")
    case True
    with "1.prems" show ?thesis
      by (simp add: dec_str_small digit_char_eq_iff flip: digit_char_0)
  next
    case False
    then have "0 < n div 10" by simp
    with False "1.IH" show ?thesis by (simp add: dec_str_large)
  qed
qed

lemma length_dec_str: "n < 10 ^ Suc k \<Longrightarrow> length (dec_str n) \<le> Suc k"
proof (induction n arbitrary: k rule: dec_str.induct)
  case (1 n)
  show ?case
  proof (cases "n < 10")
    case True
    then show ?thesis by (simp add: dec_str_small)
  next
    case False
    then obtain k' where k: "k = Suc k'" using "1.prems" by (cases k) auto
    with "1.prems" have "n div 10 < 10 ^ Suc k'" by (simp add: less_mult_imp_div_less mult.commute)
    with False "1.IH" k show ?thesis by (simp add: dec_str_large)
  qed
qed

lemma dec_str_0: "dec_str 0 = ''0''"
  by (simp add: dec_str_small digit_char_0)

lemma dec_str_1: "dec_str (Suc 0) = ''1''"
  by (simp add: dec_str_small digit_char_def char_of_def bit_0)

lemma parse_octet_dec_str: "n < 256 \<Longrightarrow> parse_octet (dec_str n) = Inr n"
proof -
  assume n: "n < 256"
  then have "length (dec_str n) \<le> 3"
    using length_dec_str [of n 2] by simp
  moreover have "dec_str n \<noteq> ''0'' \<longrightarrow> hd (dec_str n) \<noteq> CHR ''0''"
    using hd_dec_str_nonzero [of n] dec_str_0 by (cases "n = 0") auto
  ultimately show ?thesis
    using n by (auto simp: parse_octet_def dec_str_digits)
qed

lemma div_256_step: "256 * ((n::nat) div (m * 256)) + n div m mod 256 = n div m"
  by (simp add: div_mult2_eq)

lemma bytes_recombine:
  "(n::nat) < 2 ^ 32 \<Longrightarrow>
   256 * (256 * (256 * (n div 2 ^ 24 mod 256) + n div 2 ^ 16 mod 256) + n div 2 ^ 8 mod 256) + n mod 256 = n"
proof -
  assume "n < 2 ^ 32"
  then have "n div 2 ^ 24 < 256" by (simp add: div_less_iff_less_mult)
  then have a: "n div 2 ^ 24 mod 256 = n div 2 ^ 24" by simp
  have b: "256 * (n div 2 ^ 24) + n div 2 ^ 16 mod 256 = n div 2 ^ 16"
    using div_256_step [of n "2 ^ 16"] by simp
  have c: "256 * (n div 2 ^ 16) + n div 2 ^ 8 mod 256 = n div 2 ^ 8"
    using div_256_step [of n "2 ^ 8"] by simp
  have d: "256 * (n div 2 ^ 8) + n mod 256 = n"
    using div_256_step [of n 1] by simp
  show ?thesis by (simp only: a b c d)
qed

lemma ipv4_str_split:
  "py_split CHR ''.'' (ipv4_str w) = map dec_str (octets w)"
proof -
  have nd: "CHR ''.'' \<notin> set (dec_str n)" for n
    using dec_str_digits [of n] by (auto simp: list_all_iff is_digit_def)
  show ?thesis
    by (simp add: ipv4_str_def octets_def py_split_append_sep nd py_split_no_sep)
qed

text \<open>Dotted-decimal printing and parsing are inverse: \<open>IPv4Address(str(a)) == a\<close>.\<close>

theorem ip_int_from_string_ipv4_str: "ip_int_from_string (ipv4_str w) = Inr w"
proof -
  have lt: "unat w < 2 ^ 32" using unsigned_less [of w, where ?'a = nat] by simp
  have "ipv4_str w \<noteq> []" by (simp add: ipv4_str_def octets_def)
  moreover have "parse_octets 0 (map dec_str (octets w)) = Inr (unat w)"
  proof -
    let ?n = "unat w"
    have "parse_octets 0 (map dec_str (octets w)) =
        Inr (256 * (256 * (256 * (?n div 2 ^ 24 mod 256) + ?n div 2 ^ 16 mod 256) + ?n div 2 ^ 8 mod 256)
             + ?n mod 256)"
      by (simp only: octets_def list.map parse_octets.simps parse_octet_dec_str mod_less_divisor
          zero_less_numeral bind_r_simps mult_zero_right add_0)
    then show ?thesis by (simp only: bytes_recombine [OF lt])
  qed
  ultimately show ?thesis
    by (simp add: ip_int_from_string_def ipv4_str_split octets_def Let_def)
qed

lemma dec_str_no_sep: "\<not> is_digit c \<Longrightarrow> c \<notin> set (dec_str n)"
  using dec_str_digits [of n] by (auto simp: list_all_iff)

lemma ipv4_str_eq:
  "ipv4_str w = dec_str (unat w div 2 ^ 24 mod 256) @ CHR ''.'' # dec_str (unat w div 2 ^ 16 mod 256)
     @ CHR ''.'' # dec_str (unat w div 2 ^ 8 mod 256) @ CHR ''.'' # dec_str (unat w mod 256)"
  by (simp add: ipv4_str_def octets_def)

lemma slash_not_in_ipv4_str: "CHR ''/'' \<notin> set (ipv4_str w)"
  by (simp add: ipv4_str_eq dec_str_no_sep is_digit_def)

lemma prefix_from_prefix_string_dec_str:
  "prefix_from_prefix_string (dec_str p) = (if 32 < p then Inl ValueError else Inr p)"
  by (simp add: prefix_from_prefix_string_def dec_str_digits)

lemma ip_int_from_string_dec_str: "ip_int_from_string (dec_str p) = Inl ValueError"
  by (simp add: ip_int_from_string_def py_split_no_sep dec_str_no_sep is_digit_def)

lemma make_prefix_dec_str:
  "make_prefix (Some (dec_str p)) = (if p \<le> 32 then Inr p else Inl ValueError)"
  by (simp add: make_prefix_def prefix_from_prefix_string_dec_str prefix_from_ip_string_def
      ip_int_from_string_dec_str)

text \<open>\<open>IPv4Network("a/p")\<close> in strict mode: the network address and netmask only when
  \<open>p \<le> 32\<close> and \<open>a\<close> has no host bits.\<close>

theorem ipv4_network_strict:
  "ipv4_network (ipv4_str a @ ''/'' @ dec_str p) =
     (if p \<le> 32 \<and> a AND netmask p = a then Inr (a, netmask p) else Inl ValueError)"
proof -
  have "py_split CHR ''/'' (ipv4_str a @ ''/'' @ dec_str p) = [ipv4_str a, dec_str p]"
    by (simp add: py_split_append_sep slash_not_in_ipv4_str py_split_no_sep dec_str_no_sep is_digit_def)
  then show ?thesis
    by (simp add: ipv4_network_def ip_int_from_string_ipv4_str make_prefix_dec_str Let_def)
qed
section \<open>Netmasks\<close>

lemma all_ones_eq: "all_ones = - 1"
  by (simp add: all_ones_def)

lemma unat_minus_one_32: "unat (- 1 :: 32 word) = 2 ^ 32 - 1"
  by (simp only: unsigned_minus_1_eq_mask mask_nat_def) simp

lemma unat_not_32: "unat (NOT (x :: 32 word)) = 2 ^ 32 - 1 - unat x"
proof -
  have "NOT x = - 1 - x" by (simp add: not_eq_complement)
  moreover have "x \<le> - 1" by simp
  ultimately show ?thesis by (simp add: unat_sub unat_minus_one_32)
qed

lemma unat_mask_32: "k \<le> 32 \<Longrightarrow> unat (mask k :: 32 word) = 2 ^ k - 1"
  by (simp only: unat_eq_nat_uint uint_mask_eq nat_mask_eq) (simp add: mask_nat_def min_def)

text \<open>The netmask of prefix length \<open>p\<close> is \<open>p\<close> ones followed by \<open>32 - p\<close> zeros.\<close>

lemma unat_netmask: "p \<le> 32 \<Longrightarrow> unat (netmask p) = 2 ^ (32 - p) * (2 ^ p - 1)"
proof -
  assume p: "p \<le> 32"
  have "unat (netmask p) = 2 ^ 32 - 2 ^ (32 - p)"
    using p unat_mask_32 [of "32 - p"] by (simp add: netmask_def all_ones_eq unat_not_32)
  also have "\<dots> = 2 ^ (32 - p) * (2 ^ p - 1)"
    using p by (simp add: diff_mult_distrib2 power_add [symmetric])
  finally show ?thesis .
qed

lemma tz_pow: "i \<le> j \<Longrightarrow> odd m \<or> i = j \<Longrightarrow> tz j (2 ^ i * m) = i"
proof (induction i arbitrary: j)
  case 0
  then show ?case by (subst tz.simps) auto
next
  case (Suc i)
  then have "tz (j - 1) (2 ^ i * m) = i" by (intro Suc.IH) auto
  with Suc.prems show ?case by (subst tz.simps) simp
qed

text \<open>\<open>_prefix_from_ip_int\<close> recovers the prefix length from its netmask.\<close>

lemma prefix_netmask: "p \<le> 32 \<Longrightarrow> prefix_from_ip_int (netmask p) = Inr p"
proof -
  assume p: "p \<le> 32"
  have "tz 32 (unat (netmask p)) = 32 - p"
    unfolding unat_netmask [OF p] by (rule tz_pow) (use p in \<open>auto simp: power_0_left\<close>)
  then show ?thesis
    using p by (simp add: prefix_from_ip_int_def unat_netmask Let_def)
qed

lemma prefix_from_ip_int_le: "prefix_from_ip_int w = Inr p \<Longrightarrow> p \<le> 32"
  by (auto simp: prefix_from_ip_int_def Let_def split: if_splits)

lemma prefix_from_ip_string_le: "prefix_from_ip_string s = Inr p \<Longrightarrow> p \<le> 32"
  by (cases "ip_int_from_string s")
    (auto simp: prefix_from_ip_string_def split: sum.splits dest: prefix_from_ip_int_le)

lemma make_prefix_le: "make_prefix m = Inr p \<Longrightarrow> p \<le> 32"
  by (auto simp: make_prefix_def prefix_from_prefix_string_def split: option.splits sum.splits if_splits
      dest: prefix_from_ip_string_le)

text \<open>What a successful \<open>IPv4Network\<close> returns: a netmask and an address without host bits.\<close>

lemma ipv4_network_Inr:
  "ipv4_network s = Inr (na, nm) \<Longrightarrow> \<exists>p \<le> 32. nm = netmask p \<and> na AND nm = na"
  by (auto simp: ipv4_network_def Let_def bind_r_def dest: make_prefix_le
      split: if_splits sum.splits)

lemma dot_in_ipv4_str: "CHR ''.'' \<in> set (ipv4_str w)"
  by (simp add: ipv4_str_eq)

lemma make_prefix_ipv4_str:
  "p \<le> 32 \<Longrightarrow> make_prefix (Some (ipv4_str (netmask p))) = Inr p"
  using dot_in_ipv4_str [of "netmask p"]
  by (auto simp: make_prefix_def prefix_from_prefix_string_def list_all_iff is_digit_def
      prefix_from_ip_string_def ip_int_from_string_ipv4_str prefix_netmask)

text \<open>The dotted \<open>address/netmask\<close> form parses back to the same network.\<close>

lemma ipv4_network_netmask_str:
  "p \<le> 32 \<Longrightarrow> a AND netmask p = a \<Longrightarrow>
   ipv4_network (ipv4_str a @ ''/'' @ ipv4_str (netmask p)) = Inr (a, netmask p)"
proof -
  assume p: "p \<le> 32" and a: "a AND netmask p = a"
  have "py_split CHR ''/'' (ipv4_str a @ ''/'' @ ipv4_str (netmask p)) = [ipv4_str a, ipv4_str (netmask p)]"
    by (simp add: py_split_append_sep slash_not_in_ipv4_str py_split_no_sep)
  then show ?thesis
    using p a by (simp add: ipv4_network_def ip_int_from_string_ipv4_str make_prefix_ipv4_str Let_def)
qed

section \<open>Canonical syntax\<close>

lemma digit_char_digit_val: "is_digit c \<Longrightarrow> digit_char (digit_val c) = c"
  by (simp add: is_digit_def digit_char_def digit_val_def)

lemma digit_val_lt: "is_digit c \<Longrightarrow> digit_val c < 10"
  unfolding is_digit_def digit_val_def by linarith

lemma digit_val_eq_0: "is_digit c \<Longrightarrow> digit_val c = 0 \<longleftrightarrow> c = CHR ''0''"
  by (metis digit_char_0 digit_char_digit_val digit_val_digit_char zero_less_numeral)

lemma dec_val_eq_0: "list_all is_digit s \<Longrightarrow> dec_val s = 0 \<longleftrightarrow> list_all (\<lambda>c. c = CHR ''0'') s"
proof (induction s rule: rev_induct)
  case Nil
  then show ?case by (simp add: dec_val_def)
next
  case (snoc c s)
  with digit_val_eq_0 [of c] show ?case by (simp add: dec_val_snoc)
qed

text \<open>A digit string without leading zero is the decimal form of its value.\<close>

lemma dec_str_dec_val:
  "s \<noteq> [] \<Longrightarrow> list_all is_digit s \<Longrightarrow> s = ''0'' \<or> hd s \<noteq> CHR ''0'' \<Longrightarrow> dec_str (dec_val s) = s"
proof (induction s rule: rev_induct)
  case Nil
  then show ?case by simp
next
  case (snoc c t)
  show ?case
  proof (cases "t = []")
    case True
    with snoc.prems show ?thesis
      by (simp add: dec_val_def dec_str_small digit_val_lt digit_char_digit_val)
  next
    case False
    then have ht: "hd t \<noteq> CHR ''0''" and dt: "list_all is_digit t" and dc: "is_digit c"
      using snoc.prems by auto
    have "dec_val t \<noteq> 0"
      using dec_val_eq_0 [OF dt] ht False by (cases t) auto
    then have "\<not> dec_val (t @ [c]) < 10" by (simp add: dec_val_snoc)
    moreover have "dec_str (dec_val t) = t"
      using snoc.IH False dt ht by simp
    ultimately show ?thesis
      using dc by (simp add: dec_str_large dec_val_snoc digit_val_lt digit_char_digit_val)
  qed
qed

lemma parse_octet_Inr: "parse_octet s = Inr n \<Longrightarrow> dec_str n = s \<and> n < 256"
  by (auto simp: parse_octet_def dec_str_dec_val split: if_splits)

lemma parse_octets_Inr:
  "parse_octets acc ss = Inr n \<Longrightarrow>
   \<exists>bs. map dec_str bs = ss \<and> list_all (\<lambda>b. b < 256) bs \<and> n = foldl (\<lambda>a b. 256 * a + b) acc bs"
proof (induction ss arbitrary: acc)
  case Nil
  then show ?case by simp
next
  case (Cons s ss)
  then obtain b where b: "parse_octet s = Inr b" and r: "parse_octets (256 * acc + b) ss = Inr n"
    by (auto simp: bind_r_Inr_iff)
  from Cons.IH [OF r] obtain bs where
    "map dec_str bs = ss" "list_all (\<lambda>b. b < 256) bs" "n = foldl (\<lambda>a b. 256 * a + b) (256 * acc + b) bs"
    by blast
  with parse_octet_Inr [OF b] show ?case
    by (intro exI [of _ "b # bs"]) simp
qed

lemma unat_of_nat_32: "n < 2 ^ 32 \<Longrightarrow> unat (of_nat n :: 32 word) = n"
  by (simp only: unsigned_of_nat) (simp add: take_bit_nat_eq_self)

lemma byte_of_sum: "(x::nat) < 256 \<Longrightarrow> r < m \<Longrightarrow> (r + (256 * q + x) * m) div m mod 256 = x"
  by simp

lemma octets_of_bytes:
  assumes "a < 256" "b < 256" "c < 256" "d < 256" and n: "n = 256 * (256 * (256 * a + b) + c) + d"
  shows "octets (of_nat n) = [a, b, c, d]"
proof -
  have "n < 2 ^ 32" using assms by simp
  then have u: "unat (of_nat n :: 32 word) = n" by (rule unat_of_nat_32)
  have e1: "n = (65536 * b + 256 * c + d) + (256 * 0 + a) * 2 ^ 24" using n by simp
  have e2: "n = (256 * c + d) + (256 * a + b) * 2 ^ 16" using n by simp
  have e3: "n = d + (256 * (256 * a + b) + c) * 2 ^ 8" using n by simp
  have "n div 2 ^ 24 mod 256 = a"
    by (subst e1, rule byte_of_sum) (use assms in simp_all)
  moreover have "n div 2 ^ 16 mod 256 = b"
    by (subst e2, rule byte_of_sum) (use assms in simp_all)
  moreover have "n div 2 ^ 8 mod 256 = c"
    by (subst e3, rule byte_of_sum) (use assms in simp_all)
  moreover have "n mod 256 = d"
  proof -
    have "n = d + (65536 * a + 256 * b + c) * 256" using n by simp
    then show ?thesis using assms by (simp only: mod_mult_self1) simp
  qed
  ultimately show ?thesis by (simp only: octets_def u)
qed

text \<open>Parsing then printing gives the text back: the dotted-decimal syntax is canonical.\<close>

lemma ipv4_str_ip_int_from_string: "ip_int_from_string s = Inr w \<Longrightarrow> ipv4_str w = s"
proof -
  assume p: "ip_int_from_string s = Inr w"
  then have ne: "s \<noteq> []" and l4: "length (py_split CHR ''.'' s) = 4"
    by (auto simp: ip_int_from_string_def Let_def split: if_splits)
  from p obtain n where po: "parse_octets 0 (py_split CHR ''.'' s) = Inr n" and w: "w = of_nat n"
    using ne l4 by (auto simp: ip_int_from_string_def Let_def bind_r_Inr_iff)
  from parse_octets_Inr [OF po] obtain bs where
    m: "map dec_str bs = py_split CHR ''.'' s" and bd: "list_all (\<lambda>b. b < 256) bs"
    and n: "n = foldl (\<lambda>a b. 256 * a + b) 0 bs" by blast
  from m l4 have "length bs = 4" by (metis length_map)
  then obtain a b c d where bs: "bs = [a, b, c, d]"
    by (auto simp: length_Suc_conv numeral_eq_Suc)
  have "octets w = bs"
    using bd unfolding w bs by (intro octets_of_bytes) (simp_all add: n bs)
  then show ?thesis
    by (simp add: ipv4_str_def m py_join_py_split)
qed

lemma ipv4_network_addr:
  "ipv4_network s = Inr (na, nm) \<Longrightarrow> ipv4_str na = hd (py_split CHR ''/'' s)"
  by (auto simp: ipv4_network_def Let_def bind_r_Inr_iff ipv4_str_ip_int_from_string split: if_splits)

end
