(* ===== verification/Objects.thy ===== *)
theory Objects
  imports Session IPv4
begin

text \<open>
  The Object Resolver of \<open>src/firepower.py\<close>: \<open>getNetworkObject\<close> (lines 173--177),
  \<open>getDuplicateObject\<close> (179--183), \<open>createGateway\<close> (194--198), \<open>createNetwork\<close>
  (200--209) and \<open>createNetworkObject\<close> (238--263). An object is created by name; when the
  device answers that the name exists (\<open>duplicateName\<close>), the existing object's id is looked
  up by name and reused. The \<open>try ... except KeyError\<close> of \<open>createNetworkObject\<close> is
  \<open>catch_act KeyError\<close>: it also catches a \<open>KeyError\<close> raised inside the duplicate lookup.
\<close>

section \<open>Operations\<close>

definition getNetworkObject :: "fp \<Rightarrow> json \<Rightarrow> (device, json) act" where
  "getNetworkObject f i = bind_act (lift (py_str i)) (\<lambda>s.
     bind_act (getData f (U_Object s)) (\<lambda>netobj.
       lift (bind_r (loads netobj) (\<lambda>j. getitem j ''value''))))"

definition getDuplicateObject :: "fp \<Rightarrow> string \<Rightarrow> (device, json) act" where
  "getDuplicateObject f name = bind_act (getData f (U_ObjectsNamed name)) (\<lambda>netobj.
     lift (bind_r (loads netobj) (\<lambda>j. subs j [K ''items'', I 0, K ''id''])))"

definition host_data :: "string \<Rightarrow> string \<Rightarrow> string \<Rightarrow> json" where
  "host_data name subtype address = JObj [item ''name'' name,
     item ''description'' ''Created by ISP Failover automation'', item ''subType'' subtype,
     item ''value'' address, item ''type'' ''networkobject'']"

definition createNetworkObject :: "fp \<Rightarrow> string \<Rightarrow> string \<Rightarrow> string \<Rightarrow> (device, json) act" where
  "createNetworkObject f name subtype address =
     bind_act (postData f U_Objects (Some (host_data name subtype address))) (\<lambda>netobj.
       catch_act KeyError
         (bind_act (lift (bind_r (loads netobj) (\<lambda>j. subs j [K ''error'', K ''messages'', I 0, K ''code''])))
           (\<lambda>code.
              if code = JStr ''duplicateName'' then
                bind_act (getDuplicateObject f name) (\<lambda>dupID.
                  bind_act (lift (py_str dupID)) (\<lambda>_. ok dupID))
              else
                bind_act (lift (bind_r (loads netobj) (\<lambda>j. getitem j ''id''))) (\<lambda>i.
                  bind_act (lift (py_str i)) (\<lambda>_. lift (bind_r (loads netobj) (\<lambda>j. getitem j ''id''))))))
         (lift (bind_r (loads netobj) (\<lambda>j. getitem j ''id''))))"

definition createGateway :: "fp \<Rightarrow> string \<Rightarrow> (device, json \<times> string) act" where
  "createGateway f address =
     (let host_name = ''gateway_'' @ address in
      bind_act (createNetworkObject f host_name ''HOST'' address) (\<lambda>gateway. ok (gateway, host_name)))"

text \<open>\<open>"network_" + str(address.split('/')[0])\<close>: the object name keeps only the text
  before the slash (the device accepts no special characters).\<close>

definition network_name :: "string \<Rightarrow> string" where
  "network_name address = ''network_'' @ hd (py_split CHR ''/'' address)"

text \<open>\<open>str(IPv4Network(address).network_address) + "/" + str(IPv4Network(address).netmask)\<close>:
  the value the device is given, with the full dotted netmask.\<close>

definition network_value :: "ipv4addr \<Rightarrow> ipv4addr \<Rightarrow> string" where
  "network_value na nm = ipv4_str na @ ''/'' @ ipv4_str nm"

text \<open>\<open>IPv4Network\<close> is evaluated twice in the source, with the same result; once here.\<close>

definition createNetwork :: "fp \<Rightarrow> string \<Rightarrow> (device, json \<times> string) act" where
  "createNetwork f address =
     (let host_name = network_name address in
      bind_act (lift (ipv4_network address)) (\<lambda>(na, nm).
        bind_act (createNetworkObject f host_name ''NETWORK'' (network_value na nm))
          (\<lambda>netobj. ok (netobj, host_name))))"

text \<open>The object the device creates for a fresh name, and the invariant of the spec's data
  model: at most one object with a given name.\<close>

definition new_object :: "device \<Rightarrow> string \<Rightarrow> string \<Rightarrow> string \<Rightarrow> netobj" where
  "new_object d n st v = \<lparr>no_id = mk_id ''obj'' (dev_next d), no_name = n, no_subtype = st, no_value = v\<rparr>"

definition add_object :: "device \<Rightarrow> netobj \<Rightarrow> device" where
  "add_object d ob = d\<lparr>dev_objects := dev_objects d @ [ob], dev_next := Suc (dev_next d)\<rparr>"

definition names_unique :: "device \<Rightarrow> bool" where
  "names_unique d \<longleftrightarrow> distinct (map no_name (dev_objects d))"

definition object_reqs :: "string \<Rightarrow> (http_method \<times> url) list" where
  "object_reqs n = [(POST, U_Objects), (GET, U_ObjectsNamed n)]"

text \<open>The resolver only appends objects: \<open>obj_ext d d'\<close> says that \<open>d'\<close> is \<open>d\<close> with some
  objects added at the end under fresh ids, and nothing else changed.\<close>

definition obj_ext :: "device \<Rightarrow> device \<Rightarrow> bool" where
  "obj_ext d d' \<longleftrightarrow>
     (\<exists>obs. d' = d\<lparr>dev_objects := dev_objects d @ obs, dev_next := dev_next d + length obs\<rparr>)"

section \<open>Lemmas\<close>

lemma find_Some_filter: "find P xs = Some x \<Longrightarrow> \<exists>ys. filter P xs = x # ys"
  by (induction xs) (auto split: if_splits)

lemma str_at_host_data [simp]:
  "str_at (host_data n st v) ''name'' = Some n"
  "str_at (host_data n st v) ''subType'' = Some st"
  "str_at (host_data n st v) ''value'' = Some v"
  by (simp_all add: str_at_def host_data_def item_def)

lemma answers_object_reqs:
  "answers f d (object_reqs n) \<longleftrightarrow>
     fp_token f = JStr (dev_token d) \<and> \<not> dev_fail d POST U_Objects \<and> \<not> dev_fail d GET (U_ObjectsNamed n)"
  by (simp add: answers_def object_reqs_def)

lemma post_object_fresh:
  assumes "answers f d (object_reqs n)" and "find (\<lambda>ob. no_name ob = n) (dev_objects d) = None"
  shows "postData f U_Objects (Some (host_data n st v)) d =
           (Inr (Some (obj_json (new_object d n st v))), add_object d (new_object d n st v))"
  using assms
  by (auto simp: answers_object_reqs postData_def http_served act_simps create_object_def
      find_None_iff new_object_def add_object_def Let_def)

lemma post_object_existing:
  assumes "answers f d (object_reqs n)" and "find (\<lambda>ob. no_name ob = n) (dev_objects d) = Some ob"
  shows "postData f U_Objects (Some (host_data n st v)) d = (Inr (Some (err_json ''duplicateName'')), d)"
proof -
  have "n \<in> set (map no_name (dev_objects d))"
    using assms(2) by (auto simp: find_Some_iff)
  with assms(1) show ?thesis
    by (auto simp: answers_object_reqs postData_def http_served act_simps create_object_def)
qed

lemma createNetworkObject_fresh:
  assumes "answers f d (object_reqs n)" and "find (\<lambda>ob. no_name ob = n) (dev_objects d) = None"
  shows "createNetworkObject f n st v d =
           (Inr (JStr (no_id (new_object d n st v))), add_object d (new_object d n st v))"
  using post_object_fresh [OF assms]
  by (simp add: createNetworkObject_def act_simps obj_json_def item_def)

lemma createNetworkObject_existing:
  assumes "answers f d (object_reqs n)" and "find (\<lambda>ob. no_name ob = n) (dev_objects d) = Some ob"
  shows "createNetworkObject f n st v d = (Inr (JStr (no_id ob)), d)"
proof -
  obtain ys where fl: "filter (\<lambda>ob. no_name ob = n) (dev_objects d) = ob # ys"
    using find_Some_filter [OF assms(2)] by blast
  from assms(1) have "getDuplicateObject f n d = (Inr (JStr (no_id ob)), d)"
    by (simp add: answers_object_reqs getDuplicateObject_def getData_def http_served act_simps fl
        items_def obj_json_def item_def)
  with post_object_existing [OF assms] show ?thesis
    by (simp add: createNetworkObject_def act_simps err_json_def item_def)
qed

lemma add_object_simps [simp]:
  "dev_token (add_object d ob) = dev_token d"
  "dev_fail (add_object d ob) = dev_fail d"
  "dev_objects (add_object d ob) = dev_objects d @ [ob]"
  by (simp_all add: add_object_def)

lemma answers_add_object [simp]: "answers f (add_object d ob) reqs = answers f d reqs"
  by (simp add: answers_def)

lemma find_append_fresh:
  "find P xs = None \<Longrightarrow> P x \<Longrightarrow> find P (xs @ [x]) = Some x"
  by (induction xs) auto

lemma obj_ext_refl [simp]: "obj_ext d d"
  by (auto simp: obj_ext_def intro: exI [of _ "[]"])

lemma obj_ext_add_object [simp]: "obj_ext d (add_object d ob)"
  by (auto simp: obj_ext_def add_object_def intro: exI [of _ "[ob]"])

lemma obj_ext_trans: "obj_ext d1 d2 \<Longrightarrow> obj_ext d2 d3 \<Longrightarrow> obj_ext d1 d3"
proof -
  assume "obj_ext d1 d2" "obj_ext d2 d3"
  then obtain obs1 obs2 where
    "d2 = d1\<lparr>dev_objects := dev_objects d1 @ obs1, dev_next := dev_next d1 + length obs1\<rparr>"
    "d3 = d2\<lparr>dev_objects := dev_objects d2 @ obs2, dev_next := dev_next d2 + length obs2\<rparr>"
    unfolding obj_ext_def by blast
  then show ?thesis
    unfolding obj_ext_def by (intro exI [of _ "obs1 @ obs2"]) simp
qed

lemma obj_ext_frame:
  assumes "obj_ext d d'"
  shows "dev_token d' = dev_token d" "dev_fail d' = dev_fail d" "dev_routes d' = dev_routes d"
    "dev_ifaces d' = dev_ifaces d" "dev_vrouters d' = dev_vrouters d" "dev_feed d' = dev_feed d"
    "dev_clock d' = dev_clock d" "dev_deploys d' = dev_deploys d"
    "set (dev_objects d) \<subseteq> set (dev_objects d')"
    "dev_user d' = dev_user d" "dev_password d' = dev_password d"
  using assms by (auto simp: obj_ext_def)

lemma obj_ext_answers: "obj_ext d d' \<Longrightarrow> answers f d' reqs = answers f d reqs"
  by (simp add: answers_def obj_ext_frame)

lemma find_append_Some: "find P xs = Some x \<Longrightarrow> find P (xs @ ys) = Some x"
  by (induction xs) auto

lemma obj_ext_find:
  "obj_ext d d' \<Longrightarrow> find P (dev_objects d) = Some ob \<Longrightarrow> find P (dev_objects d') = Some ob"
  by (auto simp: obj_ext_def find_append_Some)
text \<open>After one call the object is on the device under the name, with the id returned.\<close>

lemma createNetworkObject_result:
  assumes "answers f d (object_reqs n)"
  obtains ob d' where "createNetworkObject f n st v d = (Inr (JStr (no_id ob)), d')"
    and "find (\<lambda>ob. no_name ob = n) (dev_objects d') = Some ob" and "answers f d' (object_reqs n)"
    and "obj_ext d d'"
proof (cases "find (\<lambda>ob. no_name ob = n) (dev_objects d)")
  case None
  with assms show ?thesis
    by (intro that [of "new_object d n st v" "add_object d (new_object d n st v)"])
      (simp_all add: createNetworkObject_fresh find_append_fresh new_object_def)
next
  case (Some ob)
  with assms show ?thesis
    by (intro that [of ob d]) (simp_all add: createNetworkObject_existing)
qed

lemma createNetwork_result:
  assumes "answers f d (object_reqs (network_name s))" and "ipv4_network s = Inr x"
  obtains ob d' where "createNetwork f s d = (Inr (JStr (no_id ob), network_name s), d')"
    and "find (\<lambda>ob. no_name ob = network_name s) (dev_objects d') = Some ob" and "obj_ext d d'"
proof -
  obtain na nm where x: "x = (na, nm)" by fastforce
  show ?thesis
    by (rule createNetworkObject_result [OF assms(1), of "''NETWORK''" "network_value na nm"])
      (auto simp: createNetwork_def assms(2) x Let_def intro: that)
qed

lemma createGateway_result:
  assumes "answers f d (object_reqs (''gateway_'' @ a))"
  obtains ob d' where "createGateway f a d = (Inr (JStr (no_id ob), ''gateway_'' @ a), d')"
    and "find (\<lambda>ob. no_name ob = ''gateway_'' @ a) (dev_objects d') = Some ob" and "obj_ext d d'"
  by (rule createNetworkObject_result [OF assms, of "''HOST''" a])
    (auto simp: createGateway_def Let_def intro: that)

lemma network_name_cidr: "network_name (ipv4_str a @ ''/'' @ x) = ''network_'' @ ipv4_str a"
  by (simp add: network_name_def py_split_append_sep slash_not_in_ipv4_str)

text \<open>C23: The value \<open>createNetwork\<close> sends, \<open>network/netmask\<close> in dotted form, denotes the
  configured network: whenever \<open>IPv4Network(address)\<close> succeeds, parsing the value built from
  its result gives the same network address and netmask back.\<close>

theorem createNetwork_value_roundtrip:
  "ipv4_network s = Inr (na, nm) \<Longrightarrow> ipv4_network (network_value na nm) = Inr (na, nm)"
proof -
  assume "ipv4_network s = Inr (na, nm)"
  then obtain p where "p \<le> 32" "nm = netmask p" "na AND nm = na"
    using ipv4_network_Inr by blast
  then show ?thesis
    unfolding network_value_def using ipv4_network_netmask_str by blast
qed

text \<open>C20: \<open>createNetwork\<close> on a route \<open>a/p\<close>: when \<open>p \<le> 32\<close> and \<open>a\<close> has no host bits it
  creates (or reuses) the object \<open>network_a\<close> with value \<open>a/netmask\<close> and returns its id and
  name; otherwise \<open>IPv4Network\<close> (strict) raises \<open>ValueError\<close> before any request, so a
  route such as \<open>10.10.0.1/16\<close> is rejected, not normalised.\<close>

theorem createNetwork_cidr:
  "createNetwork f (ipv4_str a @ ''/'' @ dec_str p) d =
     (if p \<le> 32 \<and> a AND netmask p = a then
        (case createNetworkObject f (''network_'' @ ipv4_str a) ''NETWORK'' (network_value a (netmask p)) d of
           (Inr i, d') \<Rightarrow> (Inr (i, ''network_'' @ ipv4_str a), d')
         | (Inl e, d') \<Rightarrow> (Inl e, d'))
      else (Inl ValueError, d))"
  unfolding createNetwork_def Let_def network_name_cidr ipv4_network_strict
  by (simp add: bind_act_def split: prod.split sum.split)

text \<open>C10: With the device answering, \<open>createNetworkObject\<close> returns the id of
  the object named \<open>name\<close>: for a fresh name the device creates the object under its
  next id and the code returns that id; for a name already present (the
  \<open>duplicateName\<close> answer) the code looks it up and returns the existing id, and the
  device is unchanged.\<close>

lemma createNetworkObject_resolves:
  "answers f d (object_reqs n) \<Longrightarrow>
   createNetworkObject f n st v d =
     (case find (\<lambda>ob. no_name ob = n) (dev_objects d) of
        None \<Rightarrow> (Inr (JStr (mk_id ''obj'' (dev_next d))), add_object d (new_object d n st v))
      | Some ob \<Rightarrow> (Inr (JStr (no_id ob)), d))"
  by (auto simp: createNetworkObject_fresh createNetworkObject_existing new_object_def
      split: option.split)

text \<open>C19: Creating a network object twice under the same name returns the same id and
  leaves the device as the first call left it, whatever the subtype and value of the second
  call: the second call never updates the stored value.\<close>

lemma createNetworkObject_idempotent:
  "answers f d (object_reqs n) \<Longrightarrow>
   createNetworkObject f n st' v' (snd (createNetworkObject f n st v d)) = createNetworkObject f n st v d"
  by (rule createNetworkObject_result [of f d n st v]) (simp_all add: createNetworkObject_existing)

text \<open>C11: \<open>createNetwork\<close> names the object after the text before the slash
  only, so any two routes on the same network address that differ in the prefix length
  (\<open>10.10.0.0/16\<close>, then \<open>10.10.0.0/24\<close>) resolve to the same object: the second call
  returns the first call's object and name and changes nothing, so the device keeps the
  first netmask.\<close>

lemma createNetwork_prefix_collision:
  assumes "answers f d (object_reqs (''network_'' @ ipv4_str a))"
    and "ipv4_network (ipv4_str a @ ''/'' @ p) = Inr x" and "ipv4_network (ipv4_str a @ ''/'' @ p') = Inr x'"
  shows "createNetwork f (ipv4_str a @ ''/'' @ p') (snd (createNetwork f (ipv4_str a @ ''/'' @ p) d)) =
         createNetwork f (ipv4_str a @ ''/'' @ p) d"
proof -
  obtain na nm na' nm' where x: "x = (na, nm)" and x': "x' = (na', nm')" by (cases x, cases x') auto
  have a: "answers f d (object_reqs (network_name (ipv4_str a @ ''/'' @ p)))"
    using assms(1) by (simp only: network_name_cidr)
  have nn: "network_name (ipv4_str a @ ''/'' @ q) = ''network_'' @ ipv4_str a" for q
    by (rule network_name_cidr)
  show ?thesis
    by (rule createNetworkObject_result [OF a, of "''NETWORK''" "network_value na nm"])
      (simp_all add: createNetwork_def nn [simplified] assms(2-3) [simplified] x x' Let_def
        createNetworkObject_existing)
qed

text \<open>C24: When the object POST fails on the server (or the session has no token),
  \<open>postData\<close> returns \<open>None\<close> and \<open>json.loads(None)\<close> raises
  \<open>TypeError\<close>; the \<open>except KeyError\<close> does not catch it and the device
  is unchanged.\<close>

lemma createNetworkObject_server_error:
  "dev_fail d POST U_Objects \<or> fp_token f = JNull \<Longrightarrow> createNetworkObject f n st v d = (Inl TypeError, d)"
  by (auto simp: createNetworkObject_def postData_def http_def act_simps split: sum.split)

lemma createNetworkObject_resolves_witness:
  "answers demo_fp demo_device (object_reqs ''gateway_192.168.1.1'') \<and>
   createNetworkObject demo_fp ''gateway_192.168.1.1'' ''HOST'' ''192.168.1.1'' demo_device =
     (Inr (JStr ''obj0''), add_object demo_device
        \<lparr>no_id = ''obj0'', no_name = ''gateway_192.168.1.1'', no_subtype = ''HOST'', no_value = ''192.168.1.1''\<rparr>)"
proof -
  have a: "answers demo_fp demo_device (object_reqs ''gateway_192.168.1.1'')"
    by (simp add: answers_def object_reqs_def demo_defs)
  have "createNetworkObject demo_fp ''gateway_192.168.1.1'' ''HOST'' ''192.168.1.1'' demo_device =
     (Inr (JStr ''obj0''), add_object demo_device
        \<lparr>no_id = ''obj0'', no_name = ''gateway_192.168.1.1'', no_subtype = ''HOST'', no_value = ''192.168.1.1''\<rparr>)"
    using createNetworkObject_resolves [OF a, of "''HOST''" "''192.168.1.1''"]
    by (simp add: demo_device_def new_object_def mk_id_def dec_str_0)
  with a show ?thesis by simp
qed

lemma createNetwork_prefix_collision_witness:
  "answers demo_fp demo_device (object_reqs (''network_'' @ ipv4_str 0x0A0A0000)) \<and>
   ipv4_network (ipv4_str 0x0A0A0000 @ ''/'' @ ''16'') = Inr (0x0A0A0000, 0xFFFF0000) \<and>
   ipv4_network (ipv4_str 0x0A0A0000 @ ''/'' @ ''24'') = Inr (0x0A0A0000, 0xFFFFFF00) \<and>
   createNetwork demo_fp (ipv4_str 0x0A0A0000 @ ''/'' @ ''24'')
       (snd (createNetwork demo_fp (ipv4_str 0x0A0A0000 @ ''/'' @ ''16'') demo_device)) =
     createNetwork demo_fp (ipv4_str 0x0A0A0000 @ ''/'' @ ''16'') demo_device"
proof -
  have "ip_int_from_string ''10.10.0.0'' = Inr 0x0A0A0000"
    by (simp add: ip_eval cong: bind_r_weak_cong sum.case_cong_weak)
  then have s: "ipv4_str 0x0A0A0000 = ''10.10.0.0''" by (rule ipv4_str_ip_int_from_string)
  have a: "answers demo_fp demo_device (object_reqs (''network_'' @ ipv4_str 0x0A0A0000))"
    by (simp add: answers_def object_reqs_def demo_defs)
  have n1: "ipv4_network (ipv4_str 0x0A0A0000 @ ''/'' @ ''16'') = Inr (0x0A0A0000, 0xFFFF0000)"
    unfolding s by (simp add: ip_eval cong: bind_r_weak_cong sum.case_cong_weak)
  have n2: "ipv4_network (ipv4_str 0x0A0A0000 @ ''/'' @ ''24'') = Inr (0x0A0A0000, 0xFFFFFF00)"
    unfolding s by (simp add: ip_eval cong: bind_r_weak_cong sum.case_cong_weak)
  show ?thesis
    using createNetwork_prefix_collision [OF a n1 n2] a n1 n2 by simp
qed

lemma createNetworkObject_server_error_witness:
  "(dev_fail (demo_device\<lparr>dev_fail := \<lambda>_ _. True\<rparr>) POST U_Objects \<or> fp_token demo_fp = JNull) \<and>
   createNetworkObject demo_fp ''n'' ''HOST'' ''1.2.3.4'' (demo_device\<lparr>dev_fail := \<lambda>_ _. True\<rparr>) =
     (Inl TypeError, demo_device\<lparr>dev_fail := \<lambda>_ _. True\<rparr>)"
  using createNetworkObject_server_error [of "demo_device\<lparr>dev_fail := \<lambda>_ _. True\<rparr>" demo_fp] by simp

lemma createNetworkObject_idempotent_witness:
  "answers demo_fp demo_device (object_reqs ''gateway_192.168.1.1'') \<and>
   createNetworkObject demo_fp ''gateway_192.168.1.1'' ''NETWORK'' ''10.0.0.0/255.0.0.0''
     (snd (createNetworkObject demo_fp ''gateway_192.168.1.1'' ''HOST'' ''192.168.1.1'' demo_device)) =
   createNetworkObject demo_fp ''gateway_192.168.1.1'' ''HOST'' ''192.168.1.1'' demo_device"
proof -
  have a: "answers demo_fp demo_device (object_reqs ''gateway_192.168.1.1'')"
    by (simp add: answers_def object_reqs_def demo_defs)
  from createNetworkObject_idempotent [OF a] a show ?thesis by simp
qed

lemma createNetwork_value_roundtrip_witness:
  "ipv4_network ''10.10.0.0/16'' = Inr (0x0A0A0000, 0xFFFF0000) \<and>
   ipv4_network (network_value 0x0A0A0000 0xFFFF0000) = Inr (0x0A0A0000, 0xFFFF0000)"
proof -
  have n: "ipv4_network ''10.10.0.0/16'' = Inr (0x0A0A0000, 0xFFFF0000)"
    by (simp add: ip_eval cong: bind_r_weak_cong sum.case_cong_weak)
  from createNetwork_value_roundtrip [OF n] n show ?thesis by simp
qed

end
