(* ===== verification/RouteBuilder.thy ===== *)
theory RouteBuilder
  imports Objects
begin

text \<open>
  The Route Builder of \<open>src/firepower.py\<close>: \<open>getFailoverInterface\<close> (lines 185--192) finds the
  egress interface by its hardware name, and \<open>createRouteObject\<close> (211--236) resolves the
  interface, the backup network and the gateway and assembles the static-route descriptor.
  When no interface matches, \<open>getFailoverInterface\<close> falls off the end of its loop and returns
  \<open>None\<close>; the tuple unpacking in \<open>createRouteObject\<close> then raises \<open>TypeError\<close>.
\<close>

section \<open>Operations\<close>

text \<open>The loop \<open>for iface in ...['items']: if iface['hardwareName'] == failover_interface:
  return iface['id'], iface['name']\<close>; \<open>None\<close> is the loop running out.\<close>

fun find_iface :: "string \<Rightarrow> json list \<Rightarrow> py_error + (json \<times> json) option" where
  "find_iface hw [] = Inr None"
| "find_iface hw (i # is) =
     bind_r (getitem i ''hardwareName'') (\<lambda>h.
       if h = JStr hw then
         bind_r (getitem i ''id'') (\<lambda>iid. bind_r (getitem i ''name'') (\<lambda>n. Inr (Some (iid, n))))
       else find_iface hw is)"

definition getFailoverInterface :: "fp \<Rightarrow> string \<Rightarrow> (device, (json \<times> json) option) act" where
  "getFailoverInterface f failover_interface = bind_act (getData f U_Interfaces) (\<lambda>ifaceList.
     lift (bind_r (loads ifaceList) (\<lambda>j. bind_r (getitem j ''items'') (\<lambda>its.
       bind_r (py_iter its) (find_iface failover_interface)))))"

text \<open>The dictionary built field by field in \<open>createRouteObject\<close>, in insertion order.\<close>

definition route_object :: "json \<Rightarrow> json \<Rightarrow> json \<Rightarrow> string \<Rightarrow> json \<Rightarrow> string \<Rightarrow> json" where
  "route_object iface_ID iface_name net_ID net_name gw_ID gw_name =
     JObj [item ''name'' ''route_BACKUP'', item ''description'' ''Created by ISP Failover automation'',
       (''iface'', JObj [(''id'', iface_ID), item ''type'' ''physicalinterface'', (''name'', iface_name)]),
       (''networks'', JArr [JObj [(''id'', net_ID), item ''type'' ''networkobject'',
                                  item ''name'' net_name]]),
       (''gateway'', JObj [(''id'', gw_ID), item ''type'' ''networkobject'', item ''name'' gw_name]),
       (''metricValue'', JNum 1), item ''ipType'' ''IPv4'', item ''type'' ''staticrouteentry'']"

definition createRouteObject :: "fp \<Rightarrow> config \<Rightarrow> (device, json) act" where
  "createRouteObject f cfg =
     bind_act (getFailoverInterface f (cfg_fo_interface cfg)) (\<lambda>r.
       case r of
         None \<Rightarrow> throw TypeError
       | Some (iface_ID, iface_name) \<Rightarrow>
           bind_act (createNetwork f (cfg_route cfg)) (\<lambda>(net_ID, net_name).
             bind_act (createGateway f (cfg_gateway cfg)) (\<lambda>(gw_ID, gw_name).
               ok (route_object iface_ID iface_name net_ID net_name gw_ID gw_name))))"

text \<open>The requests \<open>createRouteObject\<close> makes, for the lemmas' hypotheses.\<close>

definition builder_reqs :: "config \<Rightarrow> (http_method \<times> url) list" where
  "builder_reqs cfg = [(GET, U_Interfaces)] @ object_reqs (network_name (cfg_route cfg))
                      @ object_reqs (''gateway_'' @ cfg_gateway cfg)"

section \<open>Lemmas\<close>

lemma find_iface_ifaces:
  "find_iface hw (map iface_json xs) =
     Inr (map_option (\<lambda>i. (JStr (if_id i), JStr (if_name i))) (find (\<lambda>i. if_hw i = hw) xs))"
  by (induction xs) (simp_all add: iface_json_def item_def)

lemma getFailoverInterface_ifaces:
  "answers f d [(GET, U_Interfaces)] \<Longrightarrow>
   getFailoverInterface f hw d =
     (Inr (map_option (\<lambda>i. (JStr (if_id i), JStr (if_name i))) (find (\<lambda>i. if_hw i = hw) (dev_ifaces d))), d)"
  by (simp add: answers_def getFailoverInterface_def getData_def http_served act_simps items_def
      find_iface_ifaces)

lemma createRouteObject_result:
  assumes "answers f d (builder_reqs cfg)"
    and "find (\<lambda>i. if_hw i = cfg_fo_interface cfg) (dev_ifaces d) = Some i"
    and "ipv4_network (cfg_route cfg) = Inr x"
  obtains nob gob d1 d2 where
    "createNetwork f (cfg_route cfg) d = (Inr (JStr (no_id nob), network_name (cfg_route cfg)), d1)"
    "createGateway f (cfg_gateway cfg) d1 = (Inr (JStr (no_id gob), ''gateway_'' @ cfg_gateway cfg), d2)"
    "createRouteObject f cfg d =
       (Inr (route_object (JStr (if_id i)) (JStr (if_name i)) (JStr (no_id nob))
               (network_name (cfg_route cfg)) (JStr (no_id gob)) (''gateway_'' @ cfg_gateway cfg)), d2)"
    "find (\<lambda>ob. no_name ob = network_name (cfg_route cfg)) (dev_objects d2) = Some nob"
    "find (\<lambda>ob. no_name ob = ''gateway_'' @ cfg_gateway cfg) (dev_objects d2) = Some gob"
    "obj_ext d d1" "obj_ext d1 d2"
proof -
  have ai: "answers f d [(GET, U_Interfaces)]" and an: "answers f d (object_reqs (network_name (cfg_route cfg)))"
    and ag: "answers f d (object_reqs (''gateway_'' @ cfg_gateway cfg))"
    using assms(1) unfolding builder_reqs_def answers_append by simp_all
  obtain nob d1 where n: "createNetwork f (cfg_route cfg) d = (Inr (JStr (no_id nob), network_name (cfg_route cfg)), d1)"
    and fn: "find (\<lambda>ob. no_name ob = network_name (cfg_route cfg)) (dev_objects d1) = Some nob"
    and e1: "obj_ext d d1"
    using createNetwork_result [OF an assms(3)] by blast
  have ag1: "answers f d1 (object_reqs (''gateway_'' @ cfg_gateway cfg))"
    using ag e1 by (simp add: obj_ext_answers)
  obtain gob d2 where g: "createGateway f (cfg_gateway cfg) d1 = (Inr (JStr (no_id gob), ''gateway_'' @ cfg_gateway cfg), d2)"
    and fg: "find (\<lambda>ob. no_name ob = ''gateway_'' @ cfg_gateway cfg) (dev_objects d2) = Some gob"
    and e2: "obj_ext d1 d2"
    using createGateway_result [OF ag1] by blast
  have c: "createRouteObject f cfg d =
          (Inr (route_object (JStr (if_id i)) (JStr (if_name i)) (JStr (no_id nob))
                  (network_name (cfg_route cfg)) (JStr (no_id gob)) (''gateway_'' @ cfg_gateway cfg)), d2)"
    by (simp add: createRouteObject_def getFailoverInterface_ifaces [OF ai] assms(2) n g)
  from n g c obj_ext_find [OF e2 fn] fg e1 e2 show ?thesis by (rule that)
qed

text \<open>The descriptor has the shape the device's static-route endpoint accepts.\<close>

lemma route_object_decodes:
  "decode_route (route_object (JStr i) iname (JStr nid) nn (JStr gid) gn) =
     Some (''route_BACKUP'', i, [nid], gid, 1)"
  by (simp add: decode_route_def route_object_def str_at_def ref_at_def item_def)

lemma createRouteObject_no_interface:
  "answers f d [(GET, U_Interfaces)] \<Longrightarrow>
   find (\<lambda>i. if_hw i = cfg_fo_interface cfg) (dev_ifaces d) = None \<Longrightarrow>
   createRouteObject f cfg d = (Inl TypeError, d)"
  by (simp add: createRouteObject_def getFailoverInterface_ifaces)

lemma createRouteObject_bad_route:
  "answers f d [(GET, U_Interfaces)] \<Longrightarrow>
   find (\<lambda>i. if_hw i = cfg_fo_interface cfg) (dev_ifaces d) = Some i \<Longrightarrow>
   ipv4_network (cfg_route cfg) = Inl e \<Longrightarrow> createRouteObject f cfg d = (Inl e, d)"
  by (simp add: createRouteObject_def getFailoverInterface_ifaces createNetwork_def Let_def)

text \<open>C21: With the device answering, an interface of the configured hardware name and a
  route \<open>IPv4Network\<close> accepts, \<open>createRouteObject\<close> returns the descriptor whose network and
  gateway ids are those of the objects now on the device under the names \<open>network_...\<close> and
  \<open>gateway_...\<close>, and it changes the device only by appending objects.\<close>

theorem createRouteObject_refs:
  assumes "answers f d (builder_reqs cfg)"
    and "find (\<lambda>i. if_hw i = cfg_fo_interface cfg) (dev_ifaces d) = Some i"
    and "ipv4_network (cfg_route cfg) = Inr x"
  shows "\<exists>nob gob d'. createRouteObject f cfg d =
             (Inr (route_object (JStr (if_id i)) (JStr (if_name i)) (JStr (no_id nob))
                     (network_name (cfg_route cfg)) (JStr (no_id gob)) (''gateway_'' @ cfg_gateway cfg)), d')
           \<and> find (\<lambda>ob. no_name ob = network_name (cfg_route cfg)) (dev_objects d') = Some nob
           \<and> find (\<lambda>ob. no_name ob = ''gateway_'' @ cfg_gateway cfg) (dev_objects d') = Some gob
           \<and> obj_ext d d'"
  by (rule createRouteObject_result [OF assms]) (blast intro: obj_ext_trans)

lemma createRouteObject_refs_witness:
  "answers demo_fp demo_device (builder_reqs demo_config) \<and>
   find (\<lambda>i. if_hw i = cfg_fo_interface demo_config) (dev_ifaces demo_device) =
     Some \<lparr>if_id = ''if1'', if_name = ''outside2'', if_hw = ''GigabitEthernet0/1''\<rparr> \<and>
   ipv4_network (cfg_route demo_config) = Inr (0x0A0A0000, 0xFFFF0000) \<and>
   (\<exists>nob gob d'. createRouteObject demo_fp demo_config demo_device =
       (Inr (route_object (JStr ''if1'') (JStr ''outside2'') (JStr (no_id nob))
          (network_name (cfg_route demo_config)) (JStr (no_id gob)) (''gateway_'' @ cfg_gateway demo_config)), d')
     \<and> find (\<lambda>ob. no_name ob = network_name (cfg_route demo_config)) (dev_objects d') = Some nob
     \<and> find (\<lambda>ob. no_name ob = ''gateway_'' @ cfg_gateway demo_config) (dev_objects d') = Some gob
     \<and> obj_ext demo_device d')"
proof -
  have a: "answers demo_fp demo_device (builder_reqs demo_config)"
    by (simp add: answers_def builder_reqs_def object_reqs_def demo_defs)
  have i: "find (\<lambda>i. if_hw i = cfg_fo_interface demo_config) (dev_ifaces demo_device) =
     Some \<lparr>if_id = ''if1'', if_name = ''outside2'', if_hw = ''GigabitEthernet0/1''\<rparr>"
    by (simp add: demo_defs)
  have n: "ipv4_network (cfg_route demo_config) = Inr (0x0A0A0000, 0xFFFF0000)"
    by (simp add: demo_config_def ip_eval cong: bind_r_weak_cong sum.case_cong_weak)
  show ?thesis using createRouteObject_refs [OF a i n] a i n by simp
qed

end
