(* ===== verification/Deploy.thy ===== *)
theory Deploy
  imports Session
begin

text \<open>
  The Deployment Waiter, \<open>FirePower.deployPolicy\<close> (\<open>src/firepower.py\<close>, lines 127--154):
  it posts a deployment, reads the task id from the answer, and then polls the task list
  until it finds the task in state \<open>DEPLOYED\<close>. The loop has no bound: it is modelled as a
  \<open>partial_function (option)\<close>, \<open>None\<close> being the run that never returns. The
  \<open>sleep(8)\<close> between polls has no effect on the model's state and is left out.

  Next to it, \<open>deploy_bounded\<close> is the hardened waiter the spec (section 4.4) requires:
  at most \<open>n\<close> polls, \<open>DeploymentTimeout\<close> when they run out, \<open>DeploymentLost\<close> when a task
  that was listed disappears.
\<close>

section \<open>One poll\<close>

text \<open>The inner \<open>for task in taskList['items']\<close> loop: \<open>Inr True\<close> is \<open>return True\<close>,
  \<open>Inr False\<close> is "not deployed yet, poll again".\<close>

fun scan_tasks :: "string \<Rightarrow> json list \<Rightarrow> py_error + bool" where
  "scan_tasks did [] = Inr False"
| "scan_tasks did (task # ts) =
     bind_r (getitem task ''id'') (\<lambda>tid.
       if tid = JStr did then
         bind_r (getitem task ''state'') (\<lambda>st.
           if st = JStr ''DEPLOYED'' then Inr True
           else bind_r (py_str st) (\<lambda>_. scan_tasks did ts))
       else scan_tasks did ts)"

text \<open>\<open>taskList = json.loads(self.getData(url))\<close> and the iteration over its items.\<close>

definition poll_tasks :: "fp \<Rightarrow> (device, json list) act" where
  "poll_tasks f = bind_act (getData f U_Deploy) (\<lambda>resp.
     lift (bind_r (loads resp) (\<lambda>taskList.
       bind_r (getitem taskList ''items'') py_iter)))"

definition poll_once :: "fp \<Rightarrow> string \<Rightarrow> (device, bool) act" where
  "poll_once f did = bind_act (poll_tasks f) (\<lambda>tasks. lift (scan_tasks did tasks))"

section \<open>The poll loop and \<open>deployPolicy\<close>\<close>

partial_function (option) deploy_loop :: "fp \<Rightarrow> string \<Rightarrow> (device, bool) pact" where
  "deploy_loop f did d =
     (case poll_once f did d of
        (Inl e, d') \<Rightarrow> Some (Inl e, d')
      | (Inr b, d') \<Rightarrow> if b then Some (Inr True, d') else deploy_loop f did d')"

text \<open>\<open>deploymentID = json.loads(self.postData(url))['id']\<close>, then the concatenation in
  \<open>print("... Deployment ID: " + deploymentID)\<close>, which only a string survives.\<close>

definition deployPolicy :: "fp \<Rightarrow> (device, bool) pact" where
  "deployPolicy f = bind_pact (postData f U_Deploy None) (\<lambda>r.
     bind_pact (lift (bind_r (loads r) (\<lambda>j. getitem j ''id''))) (\<lambda>deploymentID.
       bind_pact (lift (py_str deploymentID)) (\<lambda>did. deploy_loop f did)))"

section \<open>The hardened waiter of the spec\<close>

datatype deploy_outcome = Deployed | DeploymentTimeout | DeploymentLost | DeployFailed py_error

definition task_listed :: "string \<Rightarrow> json list \<Rightarrow> bool" where
  "task_listed did ts \<longleftrightarrow> (\<exists>t \<in> set ts. getitem t ''id'' = Inr (JStr did))"

fun deploy_bounded :: "nat \<Rightarrow> bool \<Rightarrow> fp \<Rightarrow> string \<Rightarrow> device \<Rightarrow> deploy_outcome \<times> device" where
  "deploy_bounded 0 seen f did d = (DeploymentTimeout, d)"
| "deploy_bounded (Suc n) seen f did d =
     (case poll_tasks f d of
        (Inl e, d') \<Rightarrow> (DeployFailed e, d')
      | (Inr ts, d') \<Rightarrow>
          (case scan_tasks did ts of
             Inl e \<Rightarrow> (DeployFailed e, d')
           | Inr b \<Rightarrow>
               if b then (Deployed, d')
               else if task_listed did ts then deploy_bounded n True f did d'
               else if seen then (DeploymentLost, d')
               else deploy_bounded n seen f did d'))"

text \<open>The observations the lemmas below are stated in: the device answers the code's polls
  (its token is the device's and the poll endpoint is not failing), and what one poll makes
  of the \<open>k\<close>-th entry of the device's feed.\<close>

definition session_ok :: "fp \<Rightarrow> device \<Rightarrow> bool" where
  "session_ok f d \<longleftrightarrow> fp_token f = JStr (dev_token d) \<and> \<not> dev_fail d GET U_Deploy"

definition feed_tasks :: "json option \<Rightarrow> py_error + json list" where
  "feed_tasks fe = bind_r (loads fe) (\<lambda>taskList. bind_r (getitem taskList ''items'') py_iter)"

definition feed_step :: "string \<Rightarrow> json option \<Rightarrow> py_error + bool" where
  "feed_step did fe = bind_r (feed_tasks fe) (scan_tasks did)"

definition tick :: "device \<Rightarrow> device" where
  "tick d = d\<lparr>dev_clock := Suc (dev_clock d)\<rparr>"

definition outcome_of :: "deploy_outcome \<Rightarrow> (py_error + bool) option" where
  "outcome_of r = (case r of Deployed \<Rightarrow> Some (Inr True) | DeployFailed e \<Rightarrow> Some (Inl e) | _ \<Rightarrow> None)"

text \<open>The fields of the device a poll loop leaves alone: all but the clock and the
  deployment counter.\<close>

definition stable_fields :: "device \<Rightarrow> device \<Rightarrow> bool" where
  "stable_fields d d' \<longleftrightarrow> dev_objects d' = dev_objects d \<and> dev_routes d' = dev_routes d \<and>
     dev_next d' = dev_next d \<and> dev_user d' = dev_user d \<and> dev_password d' = dev_password d \<and>
     dev_token d' = dev_token d \<and> dev_vrouters d' = dev_vrouters d \<and> dev_ifaces d' = dev_ifaces d \<and>
     dev_fail d' = dev_fail d \<and> dev_feed d' = dev_feed d"

section \<open>Lemmas on one poll\<close>

lemma session_ok_tick [simp]: "session_ok f (tick d) = session_ok f d"
  by (simp add: session_ok_def tick_def)

lemma poll_tasks_feed:
  "session_ok f d \<Longrightarrow> poll_tasks f d = (feed_tasks (dev_feed d (dev_clock d)), tick d)"
  by (auto simp: session_ok_def poll_tasks_def getData_def http_served poll_deploy_def act_simps
      feed_tasks_def tick_def split: option.split)

lemma poll_once_split:
  "poll_once f did d = (case poll_tasks f d of (Inl e, d') \<Rightarrow> (Inl e, d')
                                          | (Inr ts, d') \<Rightarrow> (scan_tasks did ts, d'))"
  by (simp add: poll_once_def bind_act_def split: prod.split sum.split)

lemma poll_once_feed:
  "session_ok f d \<Longrightarrow> poll_once f did d = (feed_step did (dev_feed d (dev_clock d)), tick d)"
  by (simp add: poll_once_split poll_tasks_feed feed_step_def split: sum.split)

lemma dev_clock_tick_iter [simp]: "dev_clock ((tick ^^ n) d) = dev_clock d + n"
  by (induction n) (simp_all add: tick_def)

lemma dev_feed_tick_iter [simp]: "dev_feed ((tick ^^ n) d) = dev_feed d"
  by (induction n) (simp_all add: tick_def)

lemma session_ok_tick_iter [simp]: "session_ok f ((tick ^^ n) d) = session_ok f d"
  by (induction n) simp_all


section \<open>The poll loop\<close>

lemma session_ok_clock [simp]: "session_ok f (d\<lparr>dev_clock := c\<rparr>) = session_ok f d"
  by (simp add: session_ok_def)

lemma tick_simps [simp]:
  "dev_clock (tick d) = Suc (dev_clock d)" "dev_feed (tick d) = dev_feed d"
  by (simp_all add: tick_def)

lemma deploy_loop_unfold:
  "deploy_loop f did d =
     (case poll_once f did d of (Inl e, d') \<Rightarrow> Some (Inl e, d')
      | (Inr b, d') \<Rightarrow> if b then Some (Inr True, d') else deploy_loop f did d')"
  by (rule deploy_loop.simps)

text \<open>C6: Polling returns the first decisive poll. If the device answers the polls and the
  first \<open>m\<close> task lists show the deployment not yet \<open>DEPLOYED\<close>, while the next one is
  decisive (the task is \<open>DEPLOYED\<close>, or the answer is malformed), \<open>deploy_loop\<close> returns
  that poll's outcome after exactly \<open>m + 1\<close> polls.\<close>

lemma deploy_loop_first:
  assumes "session_ok f d"
    and "\<forall>i<m. feed_step did (dev_feed d (dev_clock d + i)) = Inr False"
    and "feed_step did (dev_feed d (dev_clock d + m)) \<noteq> Inr False"
  shows "deploy_loop f did d = Some (feed_step did (dev_feed d (dev_clock d + m)), (tick ^^ Suc m) d)"
  using assms
proof (induction m arbitrary: d)
  case 0
  then show ?case
    by (auto simp: deploy_loop_unfold poll_once_feed split: sum.split)
next
  case (Suc m)
  from Suc.prems(2) have first: "feed_step did (dev_feed d (dev_clock d)) = Inr False" by auto
  have "deploy_loop f did (tick d) =
      Some (feed_step did (dev_feed (tick d) (dev_clock (tick d) + m)), (tick ^^ Suc m) (tick d))"
    using Suc.prems by (intro Suc.IH) auto
  then show ?case
    using Suc.prems(1) first
    by (subst deploy_loop_unfold) (simp add: poll_once_feed funpow_Suc_right del: funpow.simps)
qed

text \<open>C7: The poll loop has no bound. If no poll is ever decisive (the task stays pending, or
  is no longer listed at all), \<open>deploy_loop\<close> never returns: the code has neither the
  \<open>DeploymentTimeout\<close> nor the \<open>DeploymentLost\<close> exit the spec requires.\<close>

lemma deploy_loop_hangs:
  assumes "session_ok f d"
    and "\<forall>i. feed_step did (dev_feed d (dev_clock d + i)) = Inr False"
  shows "deploy_loop f did d = None"
proof -
  have "\<forall>d. session_ok f d \<and> (\<forall>i. feed_step did (dev_feed d (dev_clock d + i)) = Inr False)
          \<longrightarrow> deploy_loop f did d = None"
  proof (induction rule: deploy_loop.fixp_induct)
    case 1
    show ?case by (rule ccpo.admissibleI) (auto simp: fun_lub_def flat_lub_def)
  next
    case 2
    show ?case by simp
  next
    case (3 g)
    show ?case
    proof (intro allI impI)
      fix d assume a: "session_ok f d \<and> (\<forall>i. feed_step did (dev_feed d (dev_clock d + i)) = Inr False)"
      then have "feed_step did (dev_feed d (dev_clock d)) = Inr False"
        by (metis add_0_right)
      moreover have "\<forall>i. feed_step did (dev_feed (tick d) (dev_clock (tick d) + i)) = Inr False"
      proof
        fix i
        from a have "feed_step did (dev_feed d (dev_clock d + Suc i)) = Inr False" by blast
        then show "feed_step did (dev_feed (tick d) (dev_clock (tick d) + i)) = Inr False" by simp
      qed
      ultimately show "(case poll_once f did d of (Inl e, d') \<Rightarrow> Some (Inl e, d')
          | (Inr b, d') \<Rightarrow> if b then Some (Inr True, d') else g f did d') = None"
        using a 3 by (simp add: poll_once_feed)
    qed
  qed
  with assms show ?thesis by blast
qed

lemma deploy_loop_not_False:
  assumes ret: "deploy_loop f did d = Some (r, d')"
  shows "r \<noteq> Inr False"
proof -
  have "fst (r, d') \<noteq> Inr False"
  proof (rule deploy_loop.raw_induct [where P = "\<lambda>f did d res. fst res \<noteq> Inr False", OF _ ret])
    fix g f did d res
    assume IH: "\<And>f did d res. g f did d = Some res \<Longrightarrow> fst res \<noteq> Inr False"
      and eq: "(case poll_once f did d of (Inl e, d') \<Rightarrow> Some (Inl e, d')
           | (Inr b, d') \<Rightarrow> if b then Some (Inr True, d') else g f did d') = Some res"
    obtain r0 d0 where p: "poll_once f did d = (r0, d0)" by fastforce
    show "fst res \<noteq> Inr False"
      using eq IH by (cases r0) (auto simp: p split: if_splits)
  qed
  then show ?thesis by simp
qed

text \<open>Whatever \<open>deployPolicy\<close> returns, it has only polled and counted deployments.\<close>

lemma poll_once_frame: "\<exists>c. snd (poll_once f did d) = d\<lparr>dev_clock := c\<rparr>"
proof -
  have "\<exists>c. snd (getData f U_Deploy d) = d\<lparr>dev_clock := c\<rparr>"
    by (auto simp: getData_def http_def poll_deploy_def act_simps split: sum.split prod.split
        intro: exI [of _ "dev_clock d"] exI [of _ "Suc (dev_clock d)"])
  then show ?thesis
    by (auto simp: poll_once_def poll_tasks_def bind_act_def split: prod.split sum.split)
qed

lemma deploy_loop_frame:
  assumes ret: "deploy_loop f did d = Some res"
  shows "\<exists>c. snd res = d\<lparr>dev_clock := c\<rparr>"
proof (rule deploy_loop.raw_induct [where P = "\<lambda>f did d res. \<exists>c. snd res = d\<lparr>dev_clock := c\<rparr>", OF _ ret])
  fix g f did d res
  assume IH: "\<And>f did d res. g f did d = Some res \<Longrightarrow> \<exists>c. snd res = d\<lparr>dev_clock := c\<rparr>"
    and eq: "(case poll_once f did d of (Inl e, d') \<Rightarrow> Some (Inl e, d')
         | (Inr b, d') \<Rightarrow> if b then Some (Inr True, d') else g f did d') = Some res"
  obtain r0 d0 where p: "poll_once f did d = (r0, d0)" by fastforce
  obtain c0 where d0: "d0 = d\<lparr>dev_clock := c0\<rparr>" using poll_once_frame [of f did d] p by auto
  show "\<exists>c. snd res = d\<lparr>dev_clock := c\<rparr>"
  proof (cases r0)
    case (Inl e)
    then show ?thesis using eq p d0 by auto
  next
    case (Inr b)
    show ?thesis
    proof (cases b)
      case True
      then show ?thesis using eq p d0 Inr by auto
    next
      case False
      then have "g f did d0 = Some res" using eq p Inr by simp
      then obtain c where "snd res = d0\<lparr>dev_clock := c\<rparr>" using IH by blast
      then show ?thesis using d0 by auto
    qed
  qed
qed

lemma deployPolicy_frame:
  assumes "deployPolicy f d = Some res"
  shows "stable_fields d (snd res)"
proof -
  have "\<exists>k. snd (postData f U_Deploy None d) = d\<lparr>dev_deploys := k\<rparr>"
    by (auto simp: postData_def http_def new_deploy_def act_simps split: sum.split prod.split
        intro: exI [of _ "dev_deploys d"] exI [of _ "Suc (dev_deploys d)"])
  then obtain k where pk: "snd (postData f U_Deploy None d) = d\<lparr>dev_deploys := k\<rparr>" by blast
  obtain r1 d1 where p: "postData f U_Deploy None d = (r1, d1)" by fastforce
  with pk have d1: "d1 = d\<lparr>dev_deploys := k\<rparr>" by simp
  show ?thesis
    using assms p
    by (auto simp: deployPolicy_def bind_pact_def d1 stable_fields_def split: sum.splits prod.splits
        dest!: deploy_loop_frame)
qed
text \<open>C12: \<open>deployPolicy\<close> never returns \<open>False\<close>: it returns \<open>True\<close>, raises, or does not
  return, so the "Deployment error" branches of \<open>addRoute\<close> and \<open>delRoute\<close> are dead.\<close>

lemma deployPolicy_not_False: "deployPolicy f d \<noteq> Some (Inr False, d')"
  by (auto simp: deployPolicy_def bind_pact_def split: prod.splits sum.splits
           dest: deploy_loop_not_False)

text \<open>C22: The hardened waiter of the spec refines the code's loop: whenever it reports a
  decisive outcome (deployed, or an exception), the code's unbounded loop reports the same
  outcome and leaves the device in the same state.\<close>

lemma deploy_bounded_refines:
  "deploy_bounded n seen f did d = (r, d') \<Longrightarrow> outcome_of r = Some v \<Longrightarrow>
   deploy_loop f did d = Some (v, d')"
proof (induction n arbitrary: seen d)
  case 0
  then show ?case by (simp add: outcome_of_def)
next
  case (Suc n)
  then show ?case
    by (subst deploy_loop_unfold)
       (auto simp: poll_once_split outcome_of_def split: prod.splits sum.splits if_splits)
qed

section \<open>Witnesses\<close>

lemmas deploy_demo_defs = demo_defs session_ok_def feed_step_def feed_tasks_def

theorem deploy_loop_first_witness:
  "session_ok demo_fp demo_device
   \<and> feed_step ''dep0'' (dev_feed demo_device (dev_clock demo_device + 0)) = Inr False
   \<and> feed_step ''dep0'' (dev_feed demo_device (dev_clock demo_device + 1)) = Inr False
   \<and> feed_step ''dep0'' (dev_feed demo_device (dev_clock demo_device + 2)) = Inr True
   \<and> deploy_loop demo_fp ''dep0'' demo_device = Some (Inr True, (tick ^^ 3) demo_device)"
proof -
  have h1: "session_ok demo_fp demo_device" by (simp add: deploy_demo_defs)
  have h2: "\<forall>i<2. feed_step ''dep0'' (dev_feed demo_device (dev_clock demo_device + i)) = Inr False"
    by (simp add: deploy_demo_defs)
  have h3: "feed_step ''dep0'' (dev_feed demo_device (dev_clock demo_device + 2)) = Inr True"
    by (simp add: deploy_demo_defs)
  have h4: "feed_step ''dep0'' (dev_feed demo_device (dev_clock demo_device + 2)) \<noteq> Inr False"
    using h3 by simp
  show ?thesis
    using deploy_loop_first [OF h1 h2 h4] h1 h2 h3 by (simp add: numeral_eq_Suc deploy_demo_defs)
qed

theorem deploy_loop_hangs_witness:
  "session_ok demo_fp (demo_device\<lparr>dev_feed := \<lambda>_. demo_feed 0\<rparr>)
   \<and> (\<forall>i. feed_step ''dep0'' (dev_feed (demo_device\<lparr>dev_feed := \<lambda>_. demo_feed 0\<rparr>)
            (dev_clock (demo_device\<lparr>dev_feed := \<lambda>_. demo_feed 0\<rparr>) + i)) = Inr False)
   \<and> deploy_loop demo_fp ''dep0'' (demo_device\<lparr>dev_feed := \<lambda>_. demo_feed 0\<rparr>) = None"
proof -
  have h1: "session_ok demo_fp (demo_device\<lparr>dev_feed := \<lambda>_. demo_feed 0\<rparr>)"
    by (simp add: deploy_demo_defs)
  have h2: "\<forall>i. feed_step ''dep0'' (dev_feed (demo_device\<lparr>dev_feed := \<lambda>_. demo_feed 0\<rparr>)
            (dev_clock (demo_device\<lparr>dev_feed := \<lambda>_. demo_feed 0\<rparr>) + i)) = Inr False"
    by (simp add: deploy_demo_defs)
  show ?thesis using deploy_loop_hangs [OF h1 h2] h1 h2 by simp
qed

theorem deploy_bounded_refines_witness:
  "deploy_bounded 3 False demo_fp ''dep0'' demo_device = (Deployed, (tick ^^ 3) demo_device)
   \<and> outcome_of Deployed = Some (Inr True)
   \<and> deploy_loop demo_fp ''dep0'' demo_device = Some (Inr True, (tick ^^ 3) demo_device)"
proof -
  have h1: "deploy_bounded 3 False demo_fp ''dep0'' demo_device = (Deployed, (tick ^^ 3) demo_device)"
    by (simp add: numeral_eq_Suc poll_tasks_feed deploy_demo_defs task_listed_def tick_def)
  have h2: "outcome_of Deployed = Some (Inr True)" by (simp add: outcome_of_def)
  show ?thesis using deploy_bounded_refines [OF h1 h2] h1 h2 by simp
qed

end
