(* ===== verification/Routes.thy ===== *)
theory Routes
  imports RouteBuilder Deploy
begin

text \<open>
  The Route Reconciler of \<open>src/firepower.py\<close>: \<open>getRoutes\<close> (lines 265--270) reads the static
  routes of the Global virtual router, \<open>doesRouteExist\<close> (156--171) looks for the backup route
  by the values of its gateway and network objects, \<open>addRoute\<close> (70--100) installs the backup
  route and deploys, \<open>delRoute\<close> (102--125) removes it and deploys. \<open>doesRouteExist\<close> returns
  a route or \<open>False\<close> (here \<open>Some\<close> and \<open>None\<close>); \<open>delRoute\<close> returns \<open>True\<close>, \<open>False\<close>, or
  \<open>None\<close> when the DELETE is refused (here \<open>Some True\<close>, \<open>Some False\<close>, \<open>None\<close>). Both
  operations end in \<open>deployPolicy\<close>, which may not return, so they are partial actions.
\<close>

section \<open>Operations\<close>

definition getRoutes :: "fp \<Rightarrow> (device, json) act" where
  "getRoutes f = bind_act (lift (globalVR f)) (\<lambda>vr.
     bind_act (getData f (U_Routes vr)) (\<lambda>route_data.
       lift (bind_r (loads route_data) (\<lambda>j. getitem j ''items''))))"

text \<open>The loop of \<open>doesRouteExist\<close>: the gateway value and the address part of the first
  network's value of each route, against \<open>GATEWAY\<close> and \<open>ROUTE.split('/')[0]\<close>.\<close>

fun scan_routes :: "fp \<Rightarrow> config \<Rightarrow> json list \<Rightarrow> (device, json option) act" where
  "scan_routes f cfg [] = ok None"
| "scan_routes f cfg (route # rs) =
     bind_act (lift (subs route [K ''gateway'', K ''id''])) (\<lambda>gid.
     bind_act (getNetworkObject f gid) (\<lambda>gateway.
     bind_act (lift (subs route [K ''networks'', I 0, K ''id''])) (\<lambda>nid.
     bind_act (getNetworkObject f nid) (\<lambda>nv.
     bind_act (lift (py_str_split CHR ''/'' nv)) (\<lambda>parts.
       if gateway = JStr (cfg_gateway cfg) \<and> hd parts = hd (py_split CHR ''/'' (cfg_route cfg))
       then ok (Some route)
       else scan_routes f cfg rs)))))"

definition doesRouteExist :: "fp \<Rightarrow> config \<Rightarrow> (device, json option) act" where
  "doesRouteExist f cfg = bind_act (getRoutes f) (\<lambda>current_routes.
     if current_routes = JArr [] then ok None
     else bind_act (lift (py_iter current_routes)) (scan_routes f cfg))"

text \<open>\<open>addRoute\<close>: the result of the route POST is not inspected.\<close>

definition addRoute :: "fp \<Rightarrow> config \<Rightarrow> (device, bool) pact" where
  "addRoute f cfg = bind_pact (doesRouteExist f cfg) (\<lambda>route.
     if (case route of None \<Rightarrow> False | Some r \<Rightarrow> truthy r) then total (ok False)
     else bind_pact (createRouteObject f cfg) (\<lambda>route_data.
       bind_pact (lift (globalVR f)) (\<lambda>vr.
         bind_pact (postData f (U_Routes vr) (Some route_data)) (\<lambda>_.
           bind_pp (deployPolicy f) (\<lambda>deployed. total (ok (deployed = True)))))))"

definition delRoute :: "fp \<Rightarrow> config \<Rightarrow> (device, bool option) pact" where
  "delRoute f cfg = bind_pact (doesRouteExist f cfg) (\<lambda>route.
     case route of
       None \<Rightarrow> total (ok (Some False))
     | Some r \<Rightarrow>
         bind_pact (lift (globalVR f)) (\<lambda>vr.
           bind_pact (lift (bind_r (getitem r ''id'') py_str)) (\<lambda>rid.
             bind_pact (deleteData f (U_Route vr rid)) (\<lambda>deleted.
               if deleted then bind_pp (deployPolicy f) (\<lambda>ok'. total (ok (Some (ok' = True))))
               else total (ok None)))))"

section \<open>What \<open>doesRouteExist\<close> looks for\<close>

text \<open>The value of the object with a given id; a route matches the configuration when its
  gateway object holds the configured gateway and its first network object's value, up to
  the slash, is the configured route's address. \<open>route_refs_ok\<close> is what the device checks
  when it accepts a route, and \<open>healthy\<close> a session the device answers in full.\<close>

definition obj_value :: "device \<Rightarrow> string \<Rightarrow> string option" where
  "obj_value d i = map_option no_value (find (\<lambda>ob. no_id ob = i) (dev_objects d))"

definition route_matches :: "device \<Rightarrow> config \<Rightarrow> sroute \<Rightarrow> bool" where
  "route_matches d cfg r \<longleftrightarrow>
     obj_value d (sr_gateway r) = Some (cfg_gateway cfg) \<and>
     map_option (\<lambda>v. hd (py_split CHR ''/'' v)) (obj_value d (hd (sr_networks r)))
       = Some (hd (py_split CHR ''/'' (cfg_route cfg)))"

definition route_refs_ok :: "device \<Rightarrow> sroute \<Rightarrow> bool" where
  "route_refs_ok d r \<longleftrightarrow>
     sr_gateway r \<in> set (obj_ids d) \<and> sr_networks r \<noteq> [] \<and> set (sr_networks r) \<subseteq> set (obj_ids d)"

definition routes_wf :: "device \<Rightarrow> bool" where
  "routes_wf d \<longleftrightarrow> list_all (\<lambda>(v, r). route_refs_ok d r) (dev_routes d)"

definition healthy :: "fp \<Rightarrow> device \<Rightarrow> bool" where
  "healthy f d \<longleftrightarrow> fp_token f = JStr (dev_token d) \<and> (\<forall>m u. \<not> dev_fail d m u) \<and>
     (case fp_globalVR f of Some v \<Rightarrow> known_vr d v | None \<Rightarrow> False)"

section \<open>Lemmas\<close>

lemma healthy_answers: "healthy f d \<Longrightarrow> answers f d reqs"
  by (simp add: healthy_def answers_def list_all_iff split_beta)

lemma healthy_http: "healthy f d \<Longrightarrow> http m u (Some (dev_token d)) p d = serve m u p d"
  by (simp add: healthy_def http_served)

lemma healthy_vr: "healthy f d \<Longrightarrow> \<exists>v. fp_globalVR f = Some v \<and> known_vr d v"
  by (auto simp: healthy_def split: option.splits)

lemma obj_value_Some: "i \<in> set (obj_ids d) \<Longrightarrow> \<exists>v. obj_value d i = Some v"
  by (cases "find (\<lambda>ob. no_id ob = i) (dev_objects d)") (auto simp: obj_value_def obj_ids_def find_None_iff)

lemma getNetworkObject_value:
  "healthy f d \<Longrightarrow> obj_value d i = Some v \<Longrightarrow> getNetworkObject f (JStr i) d = (Inr (JStr v), d)"
  by (auto simp: healthy_def getNetworkObject_def getData_def http_served act_simps obj_value_def
      obj_json_def item_def)

lemma route_json_gateway: "subs (route_json r) [K ''gateway'', K ''id''] = Inr (JStr (sr_gateway r))"
  by (simp add: route_json_def ref_json_def item_def)

lemma route_json_network:
  "sr_networks r \<noteq> [] \<Longrightarrow> subs (route_json r) [K ''networks'', I 0, K ''id''] = Inr (JStr (hd (sr_networks r)))"
  by (cases "sr_networks r") (simp_all add: route_json_def ref_json_def item_def)

lemma scan_routes_step:
  assumes h: "healthy f d" and ok: "route_refs_ok d r"
  shows "scan_routes f cfg (route_json r # rs) d =
           (if route_matches d cfg r then (Inr (Some (route_json r)), d) else scan_routes f cfg rs d)"
proof -
  have ne: "sr_networks r \<noteq> []" and gi: "sr_gateway r \<in> set (obj_ids d)"
    and ni: "hd (sr_networks r) \<in> set (obj_ids d)"
    using ok by (auto simp: route_refs_ok_def)
  obtain g where g: "obj_value d (sr_gateway r) = Some g" using obj_value_Some [OF gi] by blast
  obtain n where n: "obj_value d (hd (sr_networks r)) = Some n" using obj_value_Some [OF ni] by blast
  show ?thesis
    by (simp add: route_json_gateway route_json_network [OF ne] getNetworkObject_value [OF h g]
        getNetworkObject_value [OF h n] route_matches_def g n del: subs.simps)
qed

lemma scan_routes_spec:
  "healthy f d \<Longrightarrow> list_all (route_refs_ok d) rs \<Longrightarrow>
   scan_routes f cfg (map route_json rs) d = (Inr (map_option route_json (find (route_matches d cfg) rs)), d)"
  by (induction rs) (simp_all add: scan_routes_step del: scan_routes.simps(2))

lemma routes_wf_routes_of: "routes_wf d \<Longrightarrow> list_all (route_refs_ok d) (routes_of d v)"
  by (auto simp: routes_wf_def routes_of_def list_all_iff)

lemma getRoutes_spec:
  "healthy f d \<Longrightarrow> fp_globalVR f = Some v \<Longrightarrow>
   getRoutes f d = (Inr (JArr (map route_json (routes_of d v))), d)"
  by (simp add: healthy_def getRoutes_def globalVR_def getData_def http_served act_simps items_def)

lemma doesRouteExist_eq:
  "healthy f d \<Longrightarrow> routes_wf d \<Longrightarrow> fp_globalVR f = Some v \<Longrightarrow>
   doesRouteExist f cfg d = (Inr (map_option route_json (find (route_matches d cfg) (routes_of d v))), d)"
  by (simp add: doesRouteExist_def getRoutes_spec scan_routes_spec routes_wf_routes_of)
text \<open>C5: \<open>doesRouteExist\<close> implements its specification: on a device that answers and
  whose routes reference existing objects, it returns the first route of the Global virtual
  router that matches the configured gateway and destination address, as the device lists
  it, or \<open>False\<close> when none does; it changes nothing on the device.\<close>

theorem doesRouteExist_spec:
  "healthy f d \<Longrightarrow> routes_wf d \<Longrightarrow> fp_globalVR f = Some v \<Longrightarrow>
   doesRouteExist f cfg d = (Inr (map_option route_json (find (route_matches d cfg) (routes_of d v))), d)"
  by (rule doesRouteExist_eq)

lemma doesRouteExist_spec_witness:
  "healthy demo_fp demo_device \<and> routes_wf demo_device \<and> fp_globalVR demo_fp = Some ''vr1'' \<and>
   doesRouteExist demo_fp demo_config demo_device = (Inr None, demo_device)"
proof -
  have h: "healthy demo_fp demo_device" by (simp add: healthy_def known_vr_def demo_defs)
  have w: "routes_wf demo_device" by (simp add: routes_wf_def demo_defs)
  have v: "fp_globalVR demo_fp = Some ''vr1''" by (simp add: demo_defs)
  show ?thesis using doesRouteExist_spec [OF h w v, of demo_config] h w v
    by (simp add: routes_of_def demo_device_def)
qed

end
