(* ===== verification/Reconcile.thy ===== *)
theory Reconcile
  imports Routes
begin

text \<open>
  What \<open>addRoute\<close> and \<open>delRoute\<close> (\<open>src/firepower.py\<close>, lines 70--125) do to the device: the
  invariant of the device that the program's requests keep (\<open>dev_wf\<close>), the effect of one
  call on the route table when the device answers and confirms the deployment, and the
  spec's idempotence and round-trip properties (section 8) for sequences of calls.
\<close>

section \<open>The device invariant\<close>

text \<open>Object and route ids are distinct and below the device's counter; every
  \<open>gateway_X\<close> object holds \<open>X\<close> and every \<open>network_X\<close> object's value starts with \<open>X/\<close>, as
  \<open>createGateway\<close> and \<open>createNetwork\<close> make them.\<close>

definition obj_wf :: "netobj \<Rightarrow> bool" where
  "obj_wf ob \<longleftrightarrow>
     (take 8 (no_name ob) = ''gateway_'' \<longrightarrow> no_value ob = drop 8 (no_name ob)) \<and>
     (take 8 (no_name ob) = ''network_'' \<longrightarrow> hd (py_split CHR ''/'' (no_value ob)) = drop 8 (no_name ob))"

definition ids_fresh :: "device \<Rightarrow> bool" where
  "ids_fresh d \<longleftrightarrow>
     distinct (obj_ids d) \<and> set (obj_ids d) \<subseteq> set (map (mk_id ''obj'') [0..<dev_next d]) \<and>
     distinct (map (\<lambda>(v, r). sr_id r) (dev_routes d)) \<and>
     set (map (\<lambda>(v, r). sr_id r) (dev_routes d)) \<subseteq> set (map (mk_id ''rt'') [0..<dev_next d])"

definition dev_wf :: "device \<Rightarrow> bool" where
  "dev_wf d \<longleftrightarrow> names_unique d \<and> ids_fresh d \<and> routes_wf d \<and> list_all obj_wf (dev_objects d)"

text \<open>The route the device creates for the descriptor, and the device after a route is
  appended or deleted.\<close>

definition backup_route :: "nat \<Rightarrow> iface \<Rightarrow> netobj \<Rightarrow> netobj \<Rightarrow> sroute" where
  "backup_route n i nob gob = \<lparr>sr_id = mk_id ''rt'' n, sr_name = ''route_BACKUP'', sr_iface = if_id i,
     sr_networks = [no_id nob], sr_gateway = no_id gob, sr_metric = 1\<rparr>"

definition add_route :: "device \<Rightarrow> string \<Rightarrow> (nat \<Rightarrow> sroute) \<Rightarrow> device" where
  "add_route d v r = d\<lparr>dev_routes := dev_routes d @ [(v, r (dev_next d))], dev_next := Suc (dev_next d)\<rparr>"

definition drop_route :: "device \<Rightarrow> string \<Rightarrow> string \<Rightarrow> device" where
  "drop_route d v i = d\<lparr>dev_routes := filter (\<lambda>(v', r). \<not> (v' = v \<and> sr_id r = i)) (dev_routes d)\<rparr>"

text \<open>A device on which every deployment of the witnesses is confirmed at once: the
  demonstration device with a feed listing \<open>dep0\<close> and \<open>dep1\<close> as \<open>DEPLOYED\<close>.\<close>

definition done_feed :: "nat \<Rightarrow> json option" where
  "done_feed k = Some (items [task_json ''dep0'' ''DEPLOYED'', task_json ''dep1'' ''DEPLOYED''])"

definition done_device :: device where
  "done_device = demo_device\<lparr>dev_feed := done_feed\<rparr>"

section \<open>Lemmas\<close>

lemma snd_bind_ok: "snd (bind_act m (\<lambda>x. ok (g x)) s) = snd (m s)"
  by (simp add: bind_act_def split: prod.split sum.split)

lemma healthy_session_ok: "healthy f d \<Longrightarrow> session_ok f d"
  by (simp add: healthy_def session_ok_def)

lemma healthy_cong:
  "dev_token d' = dev_token d \<Longrightarrow> dev_fail d' = dev_fail d \<Longrightarrow> dev_vrouters d' = dev_vrouters d \<Longrightarrow>
   healthy f d' = healthy f d"
  by (simp add: healthy_def known_vr_def split: option.split)

text \<open>One deployment that the feed confirms at the first poll.\<close>

lemma deployPolicy_confirmed:
  assumes h: "healthy f d"
    and fe: "feed_step (mk_id ''dep'' (dev_deploys d)) (dev_feed d (dev_clock d)) = Inr True"
  shows "deployPolicy f d = Some (Inr True, tick (d\<lparr>dev_deploys := Suc (dev_deploys d)\<rparr>))"
proof -
  let ?d1 = "d\<lparr>dev_deploys := Suc (dev_deploys d)\<rparr>"
  have p: "postData f U_Deploy None d =
      (Inr (Some (JObj [item ''id'' (mk_id ''dep'' (dev_deploys d)), item ''state'' ''QUEUED''])), ?d1)"
    using h by (simp add: healthy_def postData_def http_served act_simps new_deploy_def)
  have s: "session_ok f ?d1" using healthy_session_ok [OF h] by (simp add: session_ok_def)
  have "deploy_loop f (mk_id ''dep'' (dev_deploys d)) ?d1 = Some (Inr True, tick ?d1)"
    using fe by (subst deploy_loop_unfold) (simp add: poll_once_feed [OF s])
  with p show ?thesis
    by (simp add: deployPolicy_def item_def)
qed

lemma obj_wf_gateway: "obj_wf (new_object d (''gateway_'' @ a) st a)"
  by (simp add: obj_wf_def new_object_def)

lemma obj_wf_network:
  assumes "ipv4_network s = Inr (na, nm)"
  shows "obj_wf (new_object d (network_name s) st (network_value na nm))"
proof -
  have "hd (py_split CHR ''/'' (network_value na nm)) = ipv4_str na"
    by (simp add: network_value_def py_split_append_sep slash_not_in_ipv4_str)
  then show ?thesis
    using ipv4_network_addr [OF assms] by (simp add: obj_wf_def new_object_def network_name_def)
qed

lemma route_refs_ok_ext: "obj_ext d d' \<Longrightarrow> route_refs_ok d r \<Longrightarrow> route_refs_ok d' r"
proof -
  assume e: "obj_ext d d'" and r: "route_refs_ok d r"
  have "set (obj_ids d) \<subseteq> set (obj_ids d')"
    using obj_ext_frame(9) [OF e] by (auto simp: obj_ids_def)
  with r show ?thesis by (auto simp: route_refs_ok_def)
qed

lemma routes_wf_ext: "obj_ext d d' \<Longrightarrow> routes_wf d \<Longrightarrow> routes_wf d'"
  using obj_ext_frame(3) [of d d'] route_refs_ok_ext [of d d']
  by (fastforce simp: routes_wf_def list_all_iff split_beta)

lemma dev_wf_add_object:
  assumes "dev_wf d" and "find (\<lambda>ob. no_name ob = n) (dev_objects d) = None"
    and "obj_wf (new_object d n st v)"
  shows "dev_wf (add_object d (new_object d n st v))"
proof -
  let ?ob = "new_object d n st v"
  have "mk_id ''obj'' (dev_next d) \<notin> set (obj_ids d)"
    using assms(1) by (auto simp: dev_wf_def ids_fresh_def)
  then have ids: "ids_fresh (add_object d ?ob)"
    using assms(1) by (auto simp: dev_wf_def ids_fresh_def obj_ids_def new_object_def add_object_def)
  have "names_unique (add_object d ?ob)"
    using assms(1,2) by (auto simp: dev_wf_def names_unique_def find_None_iff new_object_def)
  moreover have "routes_wf (add_object d ?ob)"
    using assms(1) by (intro routes_wf_ext [OF obj_ext_add_object]) (simp add: dev_wf_def)
  ultimately show ?thesis
    using assms(1,3) ids by (simp add: dev_wf_def)
qed

lemma createNetworkObject_dev_wf:
  "answers f d (object_reqs n) \<Longrightarrow> dev_wf d \<Longrightarrow> obj_wf (new_object d n st v) \<Longrightarrow>
   dev_wf (snd (createNetworkObject f n st v d))"
  by (cases "find (\<lambda>ob. no_name ob = n) (dev_objects d)")
    (simp_all add: createNetworkObject_fresh createNetworkObject_existing dev_wf_add_object)

lemma createGateway_dev_wf:
  "answers f d (object_reqs (''gateway_'' @ a)) \<Longrightarrow> dev_wf d \<Longrightarrow> dev_wf (snd (createGateway f a d))"
  using createNetworkObject_dev_wf [OF _ _ obj_wf_gateway, of f d a "''HOST''"]
  by (simp add: createGateway_def Let_def snd_bind_ok)

lemma createNetwork_dev_wf:
  assumes "answers f d (object_reqs (network_name s))" and "dev_wf d"
  shows "dev_wf (snd (createNetwork f s d))"
proof (cases "ipv4_network s")
  case (Inl e)
  with assms(2) show ?thesis by (simp add: createNetwork_def Let_def bind_act_def)
next
  case (Inr x)
  obtain na nm where x: "x = (na, nm)" by fastforce
  have "obj_wf (new_object d (network_name s) ''NETWORK'' (network_value na nm))"
    using Inr x by (simp add: obj_wf_network)
  with Inr x assms show ?thesis
    using createNetworkObject_dev_wf [OF assms(1,2)]
    by (simp add: createNetwork_def Let_def snd_bind_ok)
qed
lemma find_distinct_key: "distinct (map k xs) \<Longrightarrow> x \<in> set xs \<Longrightarrow> find (\<lambda>y. k y = k x) xs = Some x"
  by (induction xs) (auto simp: rev_image_eqI)

lemma obj_value_member:
  "distinct (obj_ids d) \<Longrightarrow> ob \<in> set (dev_objects d) \<Longrightarrow> obj_value d (no_id ob) = Some (no_value ob)"
  by (simp add: obj_value_def obj_ids_def find_distinct_key)

lemma obj_value_ext: "obj_ext d d' \<Longrightarrow> i \<in> set (obj_ids d) \<Longrightarrow> obj_value d' i = obj_value d i"
  by (cases "find (\<lambda>ob. no_id ob = i) (dev_objects d)")
    (auto simp: obj_value_def obj_ids_def find_None_iff obj_ext_def find_append_Some)

lemma route_matches_ext:
  "obj_ext d d' \<Longrightarrow> route_refs_ok d r \<Longrightarrow> route_matches d' cfg r = route_matches d cfg r"
  by (cases "sr_networks r") (auto simp: route_matches_def route_refs_ok_def obj_value_ext)

lemma route_matches_objects:
  "dev_objects d' = dev_objects d \<Longrightarrow> route_matches d' cfg r = route_matches d cfg r"
  by (simp add: route_matches_def obj_value_def)

lemma routes_of_add_route: "routes_of (add_route d v r) v = routes_of d v @ [r (dev_next d)]"
  by (simp add: routes_of_def add_route_def)

lemma routes_of_drop_route:
  "routes_of (drop_route d v i) v = filter (\<lambda>r. sr_id r \<noteq> i) (routes_of d v)"
  by (induction "dev_routes d" arbitrary: d) (auto simp: routes_of_def drop_route_def filter_map comp_def
      intro!: arg_cong [where f = "map snd"] filter_cong)

lemma dev_wf_drop_route: "dev_wf d \<Longrightarrow> dev_wf (drop_route d v i)"
  by (auto simp: dev_wf_def names_unique_def ids_fresh_def routes_wf_def route_refs_ok_def obj_ids_def
      drop_route_def list_all_iff distinct_map_filter split_beta)

lemma post_route:
  assumes h: "healthy f d" and v: "fp_globalVR f = Some v" and i: "i \<in> set (dev_ifaces d)"
    and n: "nob \<in> set (dev_objects d)" and g: "gob \<in> set (dev_objects d)"
  shows "postData f (U_Routes v)
           (Some (route_object (JStr (if_id i)) (JStr (if_name i)) (JStr (no_id nob)) nn (JStr (no_id gob)) gn)) d
         = (Inr (Some (route_json (backup_route (dev_next d) i nob gob))), add_route d v (\<lambda>k. backup_route k i nob gob))"
proof -
  have "known_vr d v" using h v by (simp add: healthy_def)
  with i n g show ?thesis using h
    by (simp add: healthy_def postData_def http_served act_simps create_route_def route_object_decodes
        obj_ids_def backup_route_def add_route_def Let_def)
qed

lemma dev_wf_cong:
  "dev_objects d' = dev_objects d \<Longrightarrow> dev_routes d' = dev_routes d \<Longrightarrow> dev_next d' = dev_next d \<Longrightarrow>
   dev_wf d' = dev_wf d"
  by (simp add: dev_wf_def names_unique_def ids_fresh_def routes_wf_def route_refs_ok_def obj_ids_def)

lemma dev_wf_add_route:
  assumes "dev_wf d" and "route_refs_ok d (r (dev_next d))" and "sr_id (r (dev_next d)) = mk_id ''rt'' (dev_next d)"
  shows "dev_wf (add_route d v r)"
proof -
  have "mk_id ''rt'' (dev_next d) \<notin> set (map (\<lambda>(v, r). sr_id r) (dev_routes d))"
    using assms(1) by (auto simp: dev_wf_def ids_fresh_def)
  with assms show ?thesis
    by (auto simp: dev_wf_def names_unique_def ids_fresh_def routes_wf_def route_refs_ok_def obj_ids_def
        add_route_def)
qed

lemma backup_route_matches:
  assumes "dev_wf d"
    and "nob \<in> set (dev_objects d)" "no_name nob = network_name (cfg_route cfg)"
    and "gob \<in> set (dev_objects d)" "no_name gob = ''gateway_'' @ cfg_gateway cfg"
  shows "route_matches d cfg (backup_route n i nob gob)"
proof -
  have dist: "distinct (obj_ids d)" and wf: "list_all obj_wf (dev_objects d)"
    using assms(1) by (simp_all add: dev_wf_def ids_fresh_def)
  then have "obj_wf nob" "obj_wf gob" using assms(2,4) by (simp_all add: list_all_iff)
  then have "no_value gob = cfg_gateway cfg"
    and "hd (py_split CHR ''/'' (no_value nob)) = hd (py_split CHR ''/'' (cfg_route cfg))"
    using assms(3,5) by (simp_all add: obj_wf_def network_name_def)
  then show ?thesis
    using obj_value_member [OF dist assms(2)] obj_value_member [OF dist assms(4)]
    by (simp add: route_matches_def backup_route_def)
qed

text \<open>\<open>addRoute\<close> on a device without the backup route: it creates or reuses the objects,
  appends exactly one route, deploys, and returns \<open>True\<close> after one poll.\<close>

text \<open>\<open>addRoute\<close> on a device without the backup route, up to the deployment: it creates or
  reuses the objects and appends exactly one route.\<close>

lemma addRoute_posts:
  assumes h: "healthy f d" and v: "fp_globalVR f = Some v" and wf: "dev_wf d"
    and none: "find (route_matches d cfg) (routes_of d v) = None"
    and i: "find (\<lambda>i. if_hw i = cfg_fo_interface cfg) (dev_ifaces d) = Some i"
    and x: "ipv4_network (cfg_route cfg) = Inr x"
  obtains nob gob d2 where "obj_ext d d2" "dev_wf d2"
    "nob \<in> set (dev_objects d2)" "no_name nob = network_name (cfg_route cfg)"
    "gob \<in> set (dev_objects d2)" "no_name gob = ''gateway_'' @ cfg_gateway cfg"
    "addRoute f cfg d = bind_pp (deployPolicy f) (\<lambda>deployed. total (ok (deployed = True)))
       (add_route d2 v (\<lambda>k. backup_route k i nob gob))"
proof -
  have a: "answers f d (builder_reqs cfg)" using h by (rule healthy_answers)
  obtain nob gob d1 d2 where n: "createNetwork f (cfg_route cfg) d = (Inr (JStr (no_id nob), network_name (cfg_route cfg)), d1)"
    and g: "createGateway f (cfg_gateway cfg) d1 = (Inr (JStr (no_id gob), ''gateway_'' @ cfg_gateway cfg), d2)"
    and c: "createRouteObject f cfg d =
       (Inr (route_object (JStr (if_id i)) (JStr (if_name i)) (JStr (no_id nob))
               (network_name (cfg_route cfg)) (JStr (no_id gob)) (''gateway_'' @ cfg_gateway cfg)), d2)"
    and fn: "find (\<lambda>ob. no_name ob = network_name (cfg_route cfg)) (dev_objects d2) = Some nob"
    and fg: "find (\<lambda>ob. no_name ob = ''gateway_'' @ cfg_gateway cfg) (dev_objects d2) = Some gob"
    and e1: "obj_ext d d1" and e2: "obj_ext d1 d2"
    by (rule createRouteObject_result [OF a i x])
  have e: "obj_ext d d2" using e1 e2 by (rule obj_ext_trans)
  have wf1: "dev_wf d1"
    using createNetwork_dev_wf [OF _ wf, of f "cfg_route cfg"] h n by (simp add: healthy_answers)
  have wf2: "dev_wf d2"
    using createGateway_dev_wf [OF _ wf1, of f "cfg_gateway cfg"] h e1 g
    by (simp add: healthy_answers obj_ext_answers)
  have h2: "healthy f d2" using h healthy_cong [of d2 d] by (simp add: obj_ext_frame [OF e])
  have nm: "nob \<in> set (dev_objects d2)" "no_name nob = network_name (cfg_route cfg)"
    and gm: "gob \<in> set (dev_objects d2)" "no_name gob = ''gateway_'' @ cfg_gateway cfg"
    using fn fg by (auto simp: find_Some_iff nth_mem)
  have ii: "i \<in> set (dev_ifaces d2)"
    using i by (auto simp: find_Some_iff nth_mem obj_ext_frame [OF e])
  let ?d3 = "add_route d2 v (\<lambda>k. backup_route k i nob gob)"
  have dr: "doesRouteExist f cfg d = (Inr None, d)"
    using doesRouteExist_eq [OF h _ v, of cfg] wf none by (simp add: dev_wf_def)
  have p: "postData f (U_Routes v) (Some (route_object (JStr (if_id i)) (JStr (if_name i)) (JStr (no_id nob))
               (network_name (cfg_route cfg)) (JStr (no_id gob)) (''gateway_'' @ cfg_gateway cfg))) d2
         = (Inr (Some (route_json (backup_route (dev_next d2) i nob gob))), ?d3)"
    by (rule post_route [OF h2 v ii nm(1) gm(1)])
  have gv: "globalVR f = Inr v" by (simp add: globalVR_def v)
  show ?thesis
  proof (rule that [OF e wf2 nm gm])
    show "addRoute f cfg d = bind_pp (deployPolicy f) (\<lambda>deployed. total (ok (deployed = True))) ?d3"
      unfolding addRoute_def using p by (simp add: dr c gv)
  qed
qed

lemma addRoute_adds:
  assumes h: "healthy f d" and v: "fp_globalVR f = Some v" and wf: "dev_wf d"
    and none: "find (route_matches d cfg) (routes_of d v) = None"
    and i: "find (\<lambda>i. if_hw i = cfg_fo_interface cfg) (dev_ifaces d) = Some i"
    and x: "ipv4_network (cfg_route cfg) = Inr x"
    and fe: "feed_step (mk_id ''dep'' (dev_deploys d)) (dev_feed d (dev_clock d)) = Inr True"
  obtains nob gob d2 where "obj_ext d d2" "dev_wf d2"
    "nob \<in> set (dev_objects d2)" "no_name nob = network_name (cfg_route cfg)"
    "gob \<in> set (dev_objects d2)" "no_name gob = ''gateway_'' @ cfg_gateway cfg"
    "addRoute f cfg d = Some (Inr True,
       tick ((add_route d2 v (\<lambda>k. backup_route k i nob gob))\<lparr>dev_deploys := Suc (dev_deploys d)\<rparr>))"
proof -
  obtain nob gob d2 where e: "obj_ext d d2" and wf2: "dev_wf d2"
    and nm: "nob \<in> set (dev_objects d2)" "no_name nob = network_name (cfg_route cfg)"
    and gm: "gob \<in> set (dev_objects d2)" "no_name gob = ''gateway_'' @ cfg_gateway cfg"
    and a: "addRoute f cfg d = bind_pp (deployPolicy f) (\<lambda>deployed. total (ok (deployed = True)))
       (add_route d2 v (\<lambda>k. backup_route k i nob gob))"
    by (rule addRoute_posts [OF h v wf none i x])
  let ?d3 = "add_route d2 v (\<lambda>k. backup_route k i nob gob)"
  have h3: "healthy f ?d3" using h healthy_cong [of ?d3 d] by (simp add: add_route_def obj_ext_frame [OF e])
  have fe3: "feed_step (mk_id ''dep'' (dev_deploys ?d3)) (dev_feed ?d3 (dev_clock ?d3)) = Inr True"
    using fe by (simp add: add_route_def obj_ext_frame [OF e])
  have dp: "deployPolicy f ?d3 = Some (Inr True, tick (?d3\<lparr>dev_deploys := Suc (dev_deploys d)\<rparr>))"
    using deployPolicy_confirmed [OF h3 fe3] by (simp add: add_route_def obj_ext_frame [OF e])
  show ?thesis
    by (rule that [OF e wf2 nm gm]) (simp add: a dp)
qed

lemma truthy_route_json [simp]: "truthy (route_json r)"
  by (simp add: route_json_def)

lemma addRoute_present:
  "healthy f d \<Longrightarrow> routes_wf d \<Longrightarrow> fp_globalVR f = Some v \<Longrightarrow>
   find (route_matches d cfg) (routes_of d v) = Some r \<Longrightarrow> addRoute f cfg d = Some (Inr False, d)"
  by (simp add: addRoute_def doesRouteExist_eq)

text \<open>C18: When no interface has the configured hardware name, \<open>getFailoverInterface\<close>
  returns \<open>None\<close> and \<open>addRoute\<close> fails with \<open>TypeError\<close> from the tuple unpacking, before it
  creates any object: the device is unchanged (the spec's \<open>InterfaceNotFound\<close> is not raised).\<close>

theorem addRoute_no_interface:
  "healthy f d \<Longrightarrow> routes_wf d \<Longrightarrow> fp_globalVR f = Some v \<Longrightarrow>
   find (route_matches d cfg) (routes_of d v) = None \<Longrightarrow>
   find (\<lambda>i. if_hw i = cfg_fo_interface cfg) (dev_ifaces d) = None \<Longrightarrow>
   addRoute f cfg d = Some (Inl TypeError, d)"
  by (simp add: addRoute_def doesRouteExist_eq createRouteObject_no_interface healthy_answers)

text \<open>C13: \<open>delRoute\<close> when no backup route exists returns \<open>False\<close> and has no effect on the
  device (spec section 8, idempotence of deletion).\<close>

theorem delRoute_absent:
  "healthy f d \<Longrightarrow> routes_wf d \<Longrightarrow> fp_globalVR f = Some v \<Longrightarrow>
   find (route_matches d cfg) (routes_of d v) = None \<Longrightarrow> delRoute f cfg d = Some (Inr (Some False), d)"
  by (simp add: delRoute_def doesRouteExist_eq)

lemma delRoute_deletes:
  assumes h: "healthy f d" and w: "routes_wf d" and v: "fp_globalVR f = Some v"
    and r: "find (route_matches d cfg) (routes_of d v) = Some r"
  shows "delRoute f cfg d =
           bind_pp (deployPolicy f) (\<lambda>ok'. total (ok (Some (ok' = True)))) (drop_route d v (sr_id r))"
proof -
  have "r \<in> set (routes_of d v)" using r by (auto simp: find_Some_iff nth_mem)
  then have del: "deleteData f (U_Route v (sr_id r)) d = (Inr True, drop_route d v (sr_id r))"
    using h by (auto simp: healthy_def deleteData_def http_served act_simps delete_route_def drop_route_def)
  show ?thesis
    unfolding delRoute_def
    by (simp add: doesRouteExist_eq [OF h w v] r globalVR_def v route_json_def item_def del)
qed

lemma delRoute_removes:
  assumes h: "healthy f d" and w: "routes_wf d" and v: "fp_globalVR f = Some v"
    and r: "find (route_matches d cfg) (routes_of d v) = Some r"
    and fe: "feed_step (mk_id ''dep'' (dev_deploys d)) (dev_feed d (dev_clock d)) = Inr True"
  shows "delRoute f cfg d =
           Some (Inr (Some True), tick ((drop_route d v (sr_id r))\<lparr>dev_deploys := Suc (dev_deploys d)\<rparr>))"
proof -
  have h1: "healthy f (drop_route d v (sr_id r))"
    using h healthy_cong [of "drop_route d v (sr_id r)" d] by (simp add: drop_route_def)
  have dp: "deployPolicy f (drop_route d v (sr_id r)) =
      Some (Inr True, tick ((drop_route d v (sr_id r))\<lparr>dev_deploys := Suc (dev_deploys d)\<rparr>))"
    using deployPolicy_confirmed [OF h1] fe by (simp add: drop_route_def)
  show ?thesis by (simp add: delRoute_deletes [OF h w v r] dp)
qed

lemma find_filter_single: "filter P xs = [r] \<Longrightarrow> find P xs = Some r"
  by (induction xs) (auto split: if_splits simp: filter_empty_conv find_None_iff)

text \<open>After the backup route is appended to a device on which no route matched, it is the
  only matching route.\<close>

lemma backup_added:
  assumes wf: "dev_wf d" and none: "find (route_matches d cfg) (routes_of d v) = None"
    and e: "obj_ext d d2" and wf2: "dev_wf d2"
    and nm: "nob \<in> set (dev_objects d2)" "no_name nob = network_name (cfg_route cfg)"
    and gm: "gob \<in> set (dev_objects d2)" "no_name gob = ''gateway_'' @ cfg_gateway cfg"
  shows "dev_wf (add_route d2 v (\<lambda>k. backup_route k i nob gob))"
    and "dev_routes (add_route d2 v (\<lambda>k. backup_route k i nob gob)) = dev_routes d @ [(v, backup_route (dev_next d2) i nob gob)]"
    and "filter (route_matches (add_route d2 v (\<lambda>k. backup_route k i nob gob)) cfg)
           (routes_of (add_route d2 v (\<lambda>k. backup_route k i nob gob)) v) = [backup_route (dev_next d2) i nob gob]"
    and "sr_id (backup_route (dev_next d2) i nob gob) \<notin> set (map (\<lambda>(v, r). sr_id r) (dev_routes d))"
proof -
  let ?r = "backup_route (dev_next d2) i nob gob" and ?d3 = "add_route d2 v (\<lambda>k. backup_route k i nob gob)"
  have refs: "route_refs_ok d2 ?r"
    using nm gm by (auto simp: route_refs_ok_def backup_route_def obj_ids_def)
  show "dev_wf ?d3"
    using dev_wf_add_route [OF wf2, of "\<lambda>k. backup_route k i nob gob" v] refs by (simp add: backup_route_def)
  show rd: "dev_routes ?d3 = dev_routes d @ [(v, ?r)]"
    by (simp add: add_route_def obj_ext_frame [OF e])
  have "list_all (route_refs_ok d) (routes_of d v)"
    using wf by (simp add: dev_wf_def routes_wf_routes_of)
  then have "\<forall>r' \<in> set (routes_of d v). route_matches ?d3 cfg r' = route_matches d cfg r'"
    using route_matches_ext [OF e] route_matches_objects [of ?d3 d2]
    by (auto simp: list_all_iff add_route_def)
  with none have old: "filter (route_matches ?d3 cfg) (routes_of d v) = []"
    by (simp add: find_None_iff filter_empty_conv)
  have "route_matches ?d3 cfg ?r"
    using backup_route_matches [OF wf2 nm gm] route_matches_objects [of ?d3 d2]
    by (simp add: add_route_def)
  with old rd show "filter (route_matches ?d3 cfg) (routes_of ?d3 v) = [?r]"
    by (simp add: routes_of_def)
  have "sr_id ?r \<notin> set (map (\<lambda>(v, r). sr_id r) (dev_routes d2))"
    using wf2 by (auto simp: dev_wf_def ids_fresh_def backup_route_def)
  then show "sr_id ?r \<notin> set (map (\<lambda>(v, r). sr_id r) (dev_routes d))"
    by (simp add: obj_ext_frame [OF e])
qed

lemma addRoute_effect:
  assumes h: "healthy f d" and v: "fp_globalVR f = Some v" and wf: "dev_wf d"
    and none: "find (route_matches d cfg) (routes_of d v) = None"
    and i: "find (\<lambda>i. if_hw i = cfg_fo_interface cfg) (dev_ifaces d) = Some i"
    and x: "ipv4_network (cfg_route cfg) = Inr x"
    and fe: "feed_step (mk_id ''dep'' (dev_deploys d)) (dev_feed d (dev_clock d)) = Inr True"
  obtains r d1 where "addRoute f cfg d = Some (Inr True, d1)" "healthy f d1" "dev_wf d1"
    "dev_routes d1 = dev_routes d @ [(v, r)]" "find (route_matches d1 cfg) (routes_of d1 v) = Some r"
    "sr_id r \<notin> set (map (\<lambda>(v, r). sr_id r) (dev_routes d))"
    "dev_deploys d1 = Suc (dev_deploys d)" "dev_clock d1 = Suc (dev_clock d)" "dev_feed d1 = dev_feed d"
proof -
  obtain nob gob d2 where e: "obj_ext d d2" and wf2: "dev_wf d2"
    and nm: "nob \<in> set (dev_objects d2)" "no_name nob = network_name (cfg_route cfg)"
    and gm: "gob \<in> set (dev_objects d2)" "no_name gob = ''gateway_'' @ cfg_gateway cfg"
    and add: "addRoute f cfg d = Some (Inr True,
       tick ((add_route d2 v (\<lambda>k. backup_route k i nob gob))\<lparr>dev_deploys := Suc (dev_deploys d)\<rparr>))"
    by (rule addRoute_adds [OF h v wf none i x fe])
  let ?r = "backup_route (dev_next d2) i nob gob" and ?d3 = "add_route d2 v (\<lambda>k. backup_route k i nob gob)"
  let ?d1 = "tick (?d3\<lparr>dev_deploys := Suc (dev_deploys d)\<rparr>)"
  note b = backup_added [OF wf none e wf2 nm gm, where i = i]
  have wf1: "dev_wf ?d1"
    using b(1) dev_wf_cong [of ?d1 ?d3] by (simp add: tick_def)
  have h1: "healthy f ?d1"
    using h healthy_cong [of ?d1 d] by (simp add: tick_def add_route_def obj_ext_frame [OF e])
  have rd: "dev_routes ?d1 = dev_routes d @ [(v, ?r)]"
    using b(2) by (simp add: tick_def)
  have "route_matches ?d1 cfg = route_matches ?d3 cfg"
    by (rule ext, rule route_matches_objects) (simp add: tick_def)
  then have "filter (route_matches ?d1 cfg) (routes_of ?d1 v) = [?r]"
    using b(3) by (simp add: tick_def routes_of_def)
  then have found: "find (route_matches ?d1 cfg) (routes_of ?d1 v) = Some ?r"
    by (rule find_filter_single)
  show ?thesis
    by (rule that [OF add h1 wf1 rd found b(4)])
      (simp_all add: tick_def add_route_def obj_ext_frame [OF e])
qed

text \<open>C3: \<open>addRoute\<close> is idempotent (spec section 8): on a well-formed device without the
  backup route, whose deployment is confirmed at the first poll, the first call returns
  \<open>True\<close>, a second call observing its result returns \<open>False\<close> and changes nothing, and the
  route table of the Global router has grown by exactly one route.\<close>

theorem addRoute_idempotent:
  assumes "healthy f d" and "fp_globalVR f = Some v" and "dev_wf d"
    and "find (route_matches d cfg) (routes_of d v) = None"
    and "find (\<lambda>i. if_hw i = cfg_fo_interface cfg) (dev_ifaces d) = Some i"
    and "ipv4_network (cfg_route cfg) = Inr x"
    and "feed_step (mk_id ''dep'' (dev_deploys d)) (dev_feed d (dev_clock d)) = Inr True"
  shows "\<exists>d1. addRoute f cfg d = Some (Inr True, d1) \<and> addRoute f cfg d1 = Some (Inr False, d1)
           \<and> length (routes_of d1 v) = Suc (length (routes_of d v)) \<and> dev_wf d1"
proof -
  obtain r d1 where a: "addRoute f cfg d = Some (Inr True, d1)" and h1: "healthy f d1" and w1: "dev_wf d1"
    and rd: "dev_routes d1 = dev_routes d @ [(v, r)]" and fd: "find (route_matches d1 cfg) (routes_of d1 v) = Some r"
    by (rule addRoute_effect [OF assms])
  have "addRoute f cfg d1 = Some (Inr False, d1)"
    using addRoute_present [OF h1 _ assms(2) fd] w1 by (simp add: dev_wf_def)
  moreover have "length (routes_of d1 v) = Suc (length (routes_of d v))"
    by (simp add: routes_of_def rd)
  ultimately show ?thesis using a w1 by blast
qed

text \<open>C4: \<open>addRoute\<close> followed by \<open>delRoute\<close> restores the route table (spec section 8):
  both return \<open>True\<close> when their deployments are confirmed, and the table afterwards is the
  one before \<open>addRoute\<close> (the objects created stay, for reuse).\<close>

theorem addRoute_delRoute_roundtrip:
  assumes "healthy f d" and "fp_globalVR f = Some v" and "dev_wf d"
    and "find (route_matches d cfg) (routes_of d v) = None"
    and "find (\<lambda>i. if_hw i = cfg_fo_interface cfg) (dev_ifaces d) = Some i"
    and "ipv4_network (cfg_route cfg) = Inr x"
    and "feed_step (mk_id ''dep'' (dev_deploys d)) (dev_feed d (dev_clock d)) = Inr True"
    and "feed_step (mk_id ''dep'' (Suc (dev_deploys d))) (dev_feed d (Suc (dev_clock d))) = Inr True"
  shows "\<exists>d1 d2. addRoute f cfg d = Some (Inr True, d1) \<and> delRoute f cfg d1 = Some (Inr (Some True), d2)
           \<and> dev_routes d2 = dev_routes d"
proof -
  obtain r d1 where a: "addRoute f cfg d = Some (Inr True, d1)" and h1: "healthy f d1" and w1: "dev_wf d1"
    and rd: "dev_routes d1 = dev_routes d @ [(v, r)]" and fd: "find (route_matches d1 cfg) (routes_of d1 v) = Some r"
    and fr: "sr_id r \<notin> set (map (\<lambda>(v, r). sr_id r) (dev_routes d))"
    and dd: "dev_deploys d1 = Suc (dev_deploys d)" and dc: "dev_clock d1 = Suc (dev_clock d)"
    and df: "dev_feed d1 = dev_feed d"
    by (rule addRoute_effect [OF assms(1-7)])
  have fe1: "feed_step (mk_id ''dep'' (dev_deploys d1)) (dev_feed d1 (dev_clock d1)) = Inr True"
    using assms(8) by (simp add: dd dc df)
  have del: "delRoute f cfg d1 =
      Some (Inr (Some True), tick ((drop_route d1 v (sr_id r))\<lparr>dev_deploys := Suc (dev_deploys d1)\<rparr>))"
    using delRoute_removes [OF h1 _ assms(2) fd fe1] w1 by (simp add: dev_wf_def)
  have "filter (\<lambda>(v', r'). \<not> (v' = v \<and> sr_id r' = sr_id r)) (dev_routes d) = dev_routes d"
    using fr by (force simp: filter_id_conv image_iff)
  then have "dev_routes (tick ((drop_route d1 v (sr_id r))\<lparr>dev_deploys := Suc (dev_deploys d1)\<rparr>)) = dev_routes d"
    by (simp add: tick_def drop_route_def rd)
  with a del show ?thesis by blast
qed
section \<open>Witnesses\<close>

lemmas done_defs = done_device_def done_feed_def deploy_demo_defs mk_id_def dec_str_0 dec_str_1

lemma done_device_hyps:
  "healthy demo_fp done_device" "fp_globalVR demo_fp = Some ''vr1''" "dev_wf done_device"
  "find (route_matches done_device demo_config) (routes_of done_device ''vr1'') = None"
  "find (\<lambda>i. if_hw i = cfg_fo_interface demo_config) (dev_ifaces done_device) =
     Some \<lparr>if_id = ''if1'', if_name = ''outside2'', if_hw = ''GigabitEthernet0/1''\<rparr>"
  "ipv4_network (cfg_route demo_config) = Inr (0x0A0A0000, 0xFFFF0000)"
  "feed_step (mk_id ''dep'' (dev_deploys done_device)) (dev_feed done_device (dev_clock done_device)) = Inr True"
  "feed_step (mk_id ''dep'' (Suc (dev_deploys done_device))) (dev_feed done_device (Suc (dev_clock done_device))) = Inr True"
  by (simp_all add: done_defs healthy_def known_vr_def dev_wf_def names_unique_def ids_fresh_def routes_wf_def
      obj_ids_def routes_of_def ip_eval cong: bind_r_weak_cong sum.case_cong_weak)
lemma addRoute_idempotent_witness:
  "healthy demo_fp done_device \<and> fp_globalVR demo_fp = Some ''vr1'' \<and> dev_wf done_device \<and>
   find (route_matches done_device demo_config) (routes_of done_device ''vr1'') = None \<and>
   find (\<lambda>i. if_hw i = cfg_fo_interface demo_config) (dev_ifaces done_device) =
     Some \<lparr>if_id = ''if1'', if_name = ''outside2'', if_hw = ''GigabitEthernet0/1''\<rparr> \<and>
   ipv4_network (cfg_route demo_config) = Inr (0x0A0A0000, 0xFFFF0000) \<and>
   feed_step (mk_id ''dep'' (dev_deploys done_device)) (dev_feed done_device (dev_clock done_device)) = Inr True \<and>
   (\<exists>d1. addRoute demo_fp demo_config done_device = Some (Inr True, d1) \<and>
         addRoute demo_fp demo_config d1 = Some (Inr False, d1) \<and>
         length (routes_of d1 ''vr1'') = Suc (length (routes_of done_device ''vr1'')) \<and> dev_wf d1)"
  using addRoute_idempotent [OF done_device_hyps(1-7)] done_device_hyps(1-7) by blast

lemma addRoute_delRoute_roundtrip_witness:
  "healthy demo_fp done_device \<and> fp_globalVR demo_fp = Some ''vr1'' \<and> dev_wf done_device \<and>
   find (route_matches done_device demo_config) (routes_of done_device ''vr1'') = None \<and>
   find (\<lambda>i. if_hw i = cfg_fo_interface demo_config) (dev_ifaces done_device) =
     Some \<lparr>if_id = ''if1'', if_name = ''outside2'', if_hw = ''GigabitEthernet0/1''\<rparr> \<and>
   ipv4_network (cfg_route demo_config) = Inr (0x0A0A0000, 0xFFFF0000) \<and>
   feed_step (mk_id ''dep'' (dev_deploys done_device)) (dev_feed done_device (dev_clock done_device)) = Inr True \<and>
   feed_step (mk_id ''dep'' (Suc (dev_deploys done_device))) (dev_feed done_device (Suc (dev_clock done_device)))
     = Inr True \<and>
   (\<exists>d1 d2. addRoute demo_fp demo_config done_device = Some (Inr True, d1) \<and>
         delRoute demo_fp demo_config d1 = Some (Inr (Some True), d2) \<and> dev_routes d2 = dev_routes done_device)"
  using addRoute_delRoute_roundtrip [OF done_device_hyps] done_device_hyps by blast

lemma delRoute_absent_witness:
  "healthy demo_fp done_device \<and> routes_wf done_device \<and> fp_globalVR demo_fp = Some ''vr1'' \<and>
   find (route_matches done_device demo_config) (routes_of done_device ''vr1'') = None \<and>
   delRoute demo_fp demo_config done_device = Some (Inr (Some False), done_device)"
proof -
  have w: "routes_wf done_device" using done_device_hyps(3) by (simp add: dev_wf_def)
  show ?thesis
    using delRoute_absent [OF done_device_hyps(1) w done_device_hyps(2,4)] done_device_hyps(1,2,4) w by blast
qed

lemma addRoute_no_interface_witness:
  "healthy demo_fp done_device \<and> routes_wf done_device \<and> fp_globalVR demo_fp = Some ''vr1'' \<and>
   find (route_matches done_device (demo_config\<lparr>cfg_fo_interface := ''GigabitEthernet0/9''\<rparr>))
     (routes_of done_device ''vr1'') = None \<and>
   find (\<lambda>i. if_hw i = cfg_fo_interface (demo_config\<lparr>cfg_fo_interface := ''GigabitEthernet0/9''\<rparr>))
     (dev_ifaces done_device) = None \<and>
   addRoute demo_fp (demo_config\<lparr>cfg_fo_interface := ''GigabitEthernet0/9''\<rparr>) done_device
     = Some (Inl TypeError, done_device)"
proof -
  have r: "routes_wf done_device" using done_device_hyps(3) by (simp add: dev_wf_def)
  have n: "find (route_matches done_device (demo_config\<lparr>cfg_fo_interface := ''GigabitEthernet0/9''\<rparr>))
     (routes_of done_device ''vr1'') = None" by (simp add: done_defs routes_of_def)
  have i: "find (\<lambda>i. if_hw i = cfg_fo_interface (demo_config\<lparr>cfg_fo_interface := ''GigabitEthernet0/9''\<rparr>))
     (dev_ifaces done_device) = None" by (simp add: done_defs)
  show ?thesis using addRoute_no_interface [OF done_device_hyps(1) r done_device_hyps(2) n i]
      done_device_hyps(1,2) r n i by simp
qed

end
