(* ===== verification/Monitor.thy ===== *)
theory Monitor
  imports Prelude Complex_Main "HOL-Library.Sublist"
begin

text \<open>
  The Health Monitor of \<open>src/pathmonitor.py\<close>: \<open>doPing\<close> (lines 19--36) runs the probe batch,
  \<open>calculateLoss\<close> (39--51) counts the packets whose text has no \<open>"Reply from"\<close>, and
  \<open>checkMetrics\<close> (54--61) compares latency and loss with the thresholds. The options the
  module loads (lines 8--16) are a \<open>monitor_cfg\<close> record. The probe itself (\<open>pythonping\<close>,
  raw sockets) is the input: either the \<open>PermissionError\<close> it raises without privilege, or
  the packets' texts and the average round-trip time. The packet list is any list, not tied
  to \<open>PING_COUNT\<close> (which \<open>pythonping\<close> returns exactly), so lemmas about the loss
  state how many packets they assume. Python's floats are modelled as exact
  rationals: \<open>100 * lost / PING_COUNT\<close> is the rational quotient, not its rounding.
\<close>

record monitor_cfg =
  mc_target :: string
  mc_count :: int
  mc_max_latency :: rat
  mc_max_loss :: rat

record ping_result =
  pr_packets :: "string list"
  pr_rtt_avg :: rat

datatype probe = PermissionDenied | Probed ping_result

section \<open>Operations\<close>

text \<open>\<open>"Reply from" in str(packet)\<close>.\<close>

definition is_reply :: "string \<Rightarrow> bool" where
  "is_reply p \<longleftrightarrow> sublist ''Reply from'' p"

text \<open>The loop \<open>for packet in result: ... lost += 1\<close>.\<close>

fun count_lost :: "nat \<Rightarrow> string list \<Rightarrow> nat" where
  "count_lost lost [] = lost"
| "count_lost lost (p # ps) = count_lost (if is_reply p then lost else lost + 1) ps"

definition calculateLoss :: "monitor_cfg \<Rightarrow> ping_result \<Rightarrow> py_error + rat" where
  "calculateLoss mc result =
     (let lost = count_lost 0 (pr_packets result) in
      if lost \<noteq> 0 then
        (if mc_count mc = 0 then Inl ZeroDivisionError
         else Inr (100 * of_nat lost / of_int (mc_count mc)))
      else Inr 0)"

definition checkMetrics :: "monitor_cfg \<Rightarrow> rat \<Rightarrow> rat \<Rightarrow> bool" where
  "checkMetrics mc response loss \<longleftrightarrow> response \<ge> mc_max_latency mc \<or> loss \<ge> mc_max_loss mc"

text \<open>\<open>sys.exit(0)\<close> on \<open>PermissionError\<close>; otherwise \<open>(result.rtt_avg_ms, loss)\<close>.\<close>

definition doPing :: "monitor_cfg \<Rightarrow> probe \<Rightarrow> py_error + rat \<times> rat" where
  "doPing mc pr =
     (case pr of
        PermissionDenied \<Rightarrow> Inl (SystemExit 0)
      | Probed result \<Rightarrow> bind_r (calculateLoss mc result) (\<lambda>loss. Inr (pr_rtt_avg result, loss)))"

text \<open>The thresholds and probe count of the spec's examples (section 8).\<close>

definition spec_monitor :: monitor_cfg where
  "spec_monitor = \<lparr>mc_target = ''8.8.8.8'', mc_count = 10, mc_max_latency = 100, mc_max_loss = 20\<rparr>"

section \<open>Lemmas\<close>

lemma count_lost_eq: "count_lost n ps = n + length (filter (\<lambda>p. \<not> is_reply p) ps)"
  by (induction ps arbitrary: n) simp_all

lemma reply_is_reply: "is_reply ''Reply from 8.8.8.8, 2 bytes in 15.0ms''"
  by code_simp

lemma timeout_not_reply: "\<not> is_reply ''Request timed out''"
  by code_simp

text \<open>C14: The packet loop of \<open>calculateLoss\<close> counts exactly the packets that are not
  replies: it is equivalent to filtering the non-replies and taking the length.\<close>

theorem count_lost_filter: "count_lost 0 ps = length (filter (\<lambda>p. \<not> is_reply p) ps)"
  by (simp add: count_lost_eq)

lemma calculateLoss_eq:
  "0 < mc_count mc \<Longrightarrow>
   calculateLoss mc r = Inr (100 * of_nat (length (filter (\<lambda>p. \<not> is_reply p) (pr_packets r))) / of_int (mc_count mc))"
  by (simp add: calculateLoss_def count_lost_eq Let_def)

text \<open>C9: With a positive probe count and at most that many packets, \<open>calculateLoss\<close>
  returns a percentage between 0 and 100.\<close>

theorem calculateLoss_bounds:
  assumes "0 < mc_count mc" and "int (length (pr_packets r)) \<le> mc_count mc"
  shows "\<exists>l. calculateLoss mc r = Inr l \<and> 0 \<le> l \<and> l \<le> 100"
proof -
  let ?k = "length (filter (\<lambda>p. \<not> is_reply p) (pr_packets r))"
  have "?k \<le> length (pr_packets r)" by (rule length_filter_le)
  then have "int ?k \<le> mc_count mc" using assms(2) by linarith
  then have "of_nat ?k \<le> (of_int (mc_count mc) :: rat)"
    by (metis of_int_le_iff of_int_of_nat_eq)
  then have "100 * of_nat ?k / of_int (mc_count mc) \<le> (100 :: rat)"
    using assms(1) by (simp add: divide_le_eq)
  moreover have "0 \<le> 100 * of_nat ?k / (of_int (mc_count mc) :: rat)"
    using assms(1) by simp
  ultimately show ?thesis using calculateLoss_eq [OF assms(1)] by blast
qed

text \<open>C8: The thresholds are inclusive (spec sections 4.5 and 8): latency exactly at the
  maximum is unhealthy, one below both maxima is healthy.\<close>

theorem checkMetrics_boundary:
  "checkMetrics mc (mc_max_latency mc) 0 \<and> \<not> checkMetrics mc (mc_max_latency mc - 1) (mc_max_loss mc - 1)"
  by (simp add: checkMetrics_def)

lemma calculateLoss_bounds_witness:
  "0 < mc_count spec_monitor \<and> int (length (pr_packets \<lparr>pr_packets = [''Request timed out''], pr_rtt_avg = 0\<rparr>))
     \<le> mc_count spec_monitor \<and>
   (\<exists>l. calculateLoss spec_monitor \<lparr>pr_packets = [''Request timed out''], pr_rtt_avg = 0\<rparr> = Inr l \<and> 0 \<le> l \<and> l \<le> 100)"
proof -
  have a: "0 < mc_count spec_monitor" and b: "int (length (pr_packets \<lparr>pr_packets = [''Request timed out''], pr_rtt_avg = 0\<rparr>))
     \<le> mc_count spec_monitor"
    by (simp_all add: spec_monitor_def)
  show ?thesis using calculateLoss_bounds [OF a b] a b by blast
qed

end
