(* ===== verification/Controller.thy ===== *)
theory Controller
  imports Reconcile Monitor
begin

text \<open>
  The Failover Controller, \<open>run\<close> in \<open>src/pathmonitor.py\<close> (lines 64--81): one monitoring
  cycle samples the path, classifies it, logs in to the device (\<open>firepower.FirePower()\<close>)
  and calls \<open>addRoute\<close> when the sample is unhealthy, \<open>delRoute\<close> otherwise; the results are
  only printed. The mode of the spec's state machine (section 4.6) is not stored: it is read
  from the device, \<open>FAILOVER\<close> when a route matching the configuration exists. Cycles are
  the steps of an inductive reachability relation \<open>reach\<close>, with the deployment feed changed by
  the environment between them; \<open>ctrl_inv\<close> is its invariant, and each operation a cycle may
  call (\<open>addRoute\<close>, \<open>delRoute\<close>, and the deployment they end with) preserves it on every
  path that returns.
\<close>

section \<open>One cycle\<close>

definition run :: "monitor_cfg \<Rightarrow> config \<Rightarrow> probe \<Rightarrow> (device, unit) pact" where
  "run mc cfg pr = bind_pact (lift (doPing mc pr)) (\<lambda>(response, loss).
     (let failover = checkMetrics mc response loss in
      bind_pact (FirePower cfg) (\<lambda>fw.
        if failover then bind_pp (addRoute fw cfg) (\<lambda>result. total (ok ()))
        else bind_pp (delRoute fw cfg) (\<lambda>result. total (ok ())))))"

section \<open>The mode of the state machine\<close>

datatype mode = PRIMARY | FAILOVER

definition mode_of :: "config \<Rightarrow> string \<Rightarrow> device \<Rightarrow> mode" where
  "mode_of cfg v d = (if find (route_matches d cfg) (routes_of d v) = None then PRIMARY else FAILOVER)"

text \<open>A device the configured credentials log in to, that answers every request, and whose
  first virtual router is the Global one; the session the login then yields.\<close>

definition fdm_ok :: "config \<Rightarrow> device \<Rightarrow> bool" where
  "fdm_ok cfg d \<longleftrightarrow> dev_user d = cfg_username cfg \<and> dev_password d = cfg_password cfg \<and>
     (\<forall>m u. \<not> dev_fail d m u) \<and>
     (case dev_vrouters d of vr # _ \<Rightarrow> vr_name vr = ''Global'' | [] \<Rightarrow> False)"

definition session_of :: "device \<Rightarrow> fp" where
  "session_of d = \<lparr>fp_token = JStr (dev_token d), fp_globalVR = Some (vr_id (hd (dev_vrouters d)))\<rparr>"

text \<open>At most one route matches the configuration.\<close>

definition single_backup :: "config \<Rightarrow> string \<Rightarrow> device \<Rightarrow> bool" where
  "single_backup cfg v d \<longleftrightarrow> length (filter (route_matches d cfg) (routes_of d v)) \<le> 1"

text \<open>The controller's invariant: the login succeeds, the device is well formed, and at most
  one backup route is installed in the Global virtual router.\<close>

definition ctrl_inv :: "config \<Rightarrow> device \<Rightarrow> bool" where
  "ctrl_inv cfg d \<longleftrightarrow> fdm_ok cfg d \<and> dev_wf d \<and> single_backup cfg (vr_id (hd (dev_vrouters d))) d"

section \<open>Runs of the controller\<close>

text \<open>The states the device passes through while an external scheduler invokes \<open>run()\<close>
  (\<open>if __name__ == "__main__": run()\<close>) one cycle at a time (spec section 5): from a state of
  the invariant, any interleaving of completed cycles (whatever the probe shows and whatever
  each cycle returns, exceptions included) and of changes by the environment to the deployment
  feed and the clock.\<close>

inductive reach :: "monitor_cfg \<Rightarrow> config \<Rightarrow> device \<Rightarrow> bool" for mc cfg where
  reach_start: "ctrl_inv cfg d \<Longrightarrow> reach mc cfg d"
| reach_cycle: "reach mc cfg d \<Longrightarrow> run mc cfg pr d = Some (r, d') \<Longrightarrow> reach mc cfg d'"
| reach_env: "reach mc cfg d \<Longrightarrow> reach mc cfg (d\<lparr>dev_feed := fe, dev_clock := c\<rparr>)"

section \<open>Lemmas\<close>

lemma FirePower_ok: "fdm_ok cfg d \<Longrightarrow> FirePower cfg d = (Inr (session_of d), d)"
  by (auto simp: fdm_ok_def FirePower_def authRequest_def http_served token_req_def oauth_data_def
      str_at_def item_def act_simps getGlobalVR_def getData_def items_def vr_json_def session_of_def
      split: list.splits)

lemma fdm_ok_healthy: "fdm_ok cfg d \<Longrightarrow> healthy (session_of d) d"
  by (auto simp: fdm_ok_def healthy_def session_of_def known_vr_def split: list.splits)

lemma run_sample:
  "doPing mc pr = Inr (response, loss) \<Longrightarrow> fdm_ok cfg d \<Longrightarrow>
   run mc cfg pr d = (if checkMetrics mc response loss
     then bind_pp (addRoute (session_of d) cfg) (\<lambda>result. total (ok ())) d
     else bind_pp (delRoute (session_of d) cfg) (\<lambda>result. total (ok ())) d)"
  by (simp add: run_def FirePower_ok)

lemma FirePower_not_first:
  assumes "dev_user d = cfg_username cfg" "dev_password d = cfg_password cfg" "\<forall>m u. \<not> dev_fail d m u"
    and "dev_vrouters d = vr # vrs" "vr_name vr \<noteq> ''Global''"
  shows "FirePower cfg d = (Inr \<lparr>fp_token = JStr (dev_token d), fp_globalVR = None\<rparr>, d)"
  using assms
  by (simp add: FirePower_def authRequest_def http_served token_req_def oauth_data_def str_at_def item_def
      act_simps getGlobalVR_def getData_def items_def vr_json_def)

lemma bind_pp_total_ok:
  "bind_pp m (\<lambda>x. total (ok y)) s = Some (r, s') \<Longrightarrow> \<exists>r0. m s = Some (r0, s')"
  by (auto simp: bind_pp_def split: option.splits prod.splits sum.splits)

lemma route_matches_stable: "stable_fields d d' \<Longrightarrow> route_matches d' cfg = route_matches d cfg"
  by (rule ext, rule route_matches_objects) (simp add: stable_fields_def)

lemma ctrl_inv_stable:
  assumes st: "stable_fields d d'"
  shows "ctrl_inv cfg d' = ctrl_inv cfg d"
proof -
  have "fdm_ok cfg d' = fdm_ok cfg d" using st by (simp add: fdm_ok_def stable_fields_def)
  moreover have "dev_wf d' = dev_wf d" by (rule dev_wf_cong) (use st in \<open>simp_all add: stable_fields_def\<close>)
  moreover have "single_backup cfg (vr_id (hd (dev_vrouters d'))) d' = single_backup cfg (vr_id (hd (dev_vrouters d))) d"
    using st by (simp add: single_backup_def route_matches_stable [OF st] routes_of_def stable_fields_def)
  ultimately show ?thesis by (simp add: ctrl_inv_def)
qed

lemma ctrl_inv_healthy: "ctrl_inv cfg d \<Longrightarrow> healthy (session_of d) d"
  unfolding ctrl_inv_def by (blast intro: fdm_ok_healthy)

lemma ctrl_inv_deploy:
  assumes "ctrl_inv cfg d" and "bind_pp (deployPolicy f) (\<lambda>b. total (ok (h b))) d = Some (r, d')"
  shows "ctrl_inv cfg d'"
proof -
  obtain r0 where "deployPolicy f d = Some (r0, d')"
    using assms(2) by (auto simp: bind_pp_def split: option.splits prod.splits sum.splits)
  then have "stable_fields d d'" using deployPolicy_frame by fastforce
  with assms(1) show ?thesis by (simp add: ctrl_inv_stable)
qed

lemma ctrl_inv_parts:
  assumes "ctrl_inv cfg d"
  shows "healthy (session_of d) d" "fp_globalVR (session_of d) = Some (vr_id (hd (dev_vrouters d)))"
    "dev_wf d" "routes_wf d" "fdm_ok cfg d" "single_backup cfg (vr_id (hd (dev_vrouters d))) d"
  using assms ctrl_inv_healthy [OF assms] by (simp_all add: session_of_def ctrl_inv_def dev_wf_def)

lemma delRoute_clears:
  assumes h: "healthy f d" and rw: "routes_wf d" and v: "fp_globalVR f = Some v"
    and sb: "single_backup cfg v d" and r: "find (route_matches d cfg) (routes_of d v) = Some r"
    and fe: "feed_step (mk_id ''dep'' (dev_deploys d)) (dev_feed d (dev_clock d)) = Inr True"
  shows "\<exists>d'. delRoute f cfg d = Some (Inr (Some True), d') \<and> find (route_matches d' cfg) (routes_of d' v) = None"
proof -
  let ?d' = "tick ((drop_route d v (sr_id r))\<lparr>dev_deploys := Suc (dev_deploys d)\<rparr>)"
  have same: "route_matches ?d' cfg = route_matches d cfg"
    by (rule ext, rule route_matches_objects) (simp add: tick_def drop_route_def)
  have "routes_of ?d' v = filter (\<lambda>r'. sr_id r' \<noteq> sr_id r) (routes_of d v)"
    using routes_of_drop_route [of d v "sr_id r"] by (simp add: tick_def routes_of_def drop_route_def)
  moreover have "\<forall>r' \<in> set (routes_of d v). route_matches d cfg r' \<longrightarrow> r' = r"
    using find_unique [of "route_matches d cfg" "routes_of d v" r] sb r by (auto simp: single_backup_def)
  ultimately have "find (route_matches ?d' cfg) (routes_of ?d' v) = None"
    by (auto simp: same find_None_iff)
  then show ?thesis using delRoute_removes [OF h rw v r fe] by blast
qed

lemma addRoute_inv:
  assumes ci: "ctrl_inv cfg d" and a: "addRoute (session_of d) cfg d = Some (r, d')"
  shows "ctrl_inv cfg d'"
proof -
  let ?f = "session_of d" and ?v = "vr_id (hd (dev_vrouters d))"
  note p = ctrl_inv_parts [OF ci]
  have ai: "answers ?f d [(GET, U_Interfaces)]" using p(1) by (rule healthy_answers)
  show ?thesis
  proof (cases "find (route_matches d cfg) (routes_of d ?v)")
    case (Some r0)
    then show ?thesis using a addRoute_present [OF p(1) p(4) p(2) Some] ci by simp
  next
    case None
    have dr: "doesRouteExist ?f cfg d = (Inr None, d)"
      using doesRouteExist_eq [OF p(1) p(4) p(2)] None by simp
    show ?thesis
    proof (cases "find (\<lambda>i. if_hw i = cfg_fo_interface cfg) (dev_ifaces d)")
      case None
      then show ?thesis
        using a ci by (simp add: addRoute_def dr createRouteObject_no_interface [OF ai])
    next
      case (Some i)
      show ?thesis
      proof (cases "ipv4_network (cfg_route cfg)")
        case (Inl e)
        then show ?thesis
          using a ci by (simp add: addRoute_def dr createRouteObject_bad_route [OF ai Some])
      next
        case (Inr x)
        obtain nob gob d2 where e: "obj_ext d d2" and wf2: "dev_wf d2"
          and nm: "nob \<in> set (dev_objects d2)" "no_name nob = network_name (cfg_route cfg)"
          and gm: "gob \<in> set (dev_objects d2)" "no_name gob = ''gateway_'' @ cfg_gateway cfg"
          and ad: "addRoute ?f cfg d = bind_pp (deployPolicy ?f) (\<lambda>deployed. total (ok (deployed = True)))
             (add_route d2 ?v (\<lambda>k. backup_route k i nob gob))"
          by (rule addRoute_posts [OF p(1) p(2) p(3) None Some Inr])
        let ?d3 = "add_route d2 ?v (\<lambda>k. backup_route k i nob gob)"
        note b = backup_added [OF p(3) None e wf2 nm gm, where i = i]
        have "ctrl_inv cfg ?d3"
          using p(5) b(1) b(3) by (simp add: ctrl_inv_def fdm_ok_def single_backup_def add_route_def
              obj_ext_frame [OF e])
        then show ?thesis using a ad by (auto intro: ctrl_inv_deploy)
      qed
    qed
  qed
qed

lemma delRoute_inv:
  assumes ci: "ctrl_inv cfg d" and a: "delRoute (session_of d) cfg d = Some (r, d')"
  shows "ctrl_inv cfg d'"
proof -
  let ?f = "session_of d" and ?v = "vr_id (hd (dev_vrouters d))"
  note p = ctrl_inv_parts [OF ci]
  show ?thesis
  proof (cases "find (route_matches d cfg) (routes_of d ?v)")
    case None
    then show ?thesis using a ci by (simp add: delRoute_def doesRouteExist_eq [OF p(1) p(4) p(2)])
  next
    case (Some r0)
    let ?d1 = "drop_route d ?v (sr_id r0)"
    have rm: "route_matches ?d1 cfg = route_matches d cfg"
      by (rule ext, rule route_matches_objects) (simp add: drop_route_def)
    have "length (filter (route_matches d cfg) (filter (\<lambda>r. sr_id r \<noteq> sr_id r0) (routes_of d ?v)))
          \<le> length (filter (route_matches d cfg) (routes_of d ?v))"
      by (rule length_filter_filter_le)
    then have "single_backup cfg ?v ?d1"
      using p(6) by (simp add: single_backup_def rm routes_of_drop_route)
    then have "ctrl_inv cfg ?d1"
      using p(5) dev_wf_drop_route [OF p(3)] by (simp add: ctrl_inv_def fdm_ok_def drop_route_def)
    then show ?thesis
      using a delRoute_deletes [OF p(1) p(4) p(2) Some] by (auto intro: ctrl_inv_deploy)
  qed
qed

lemma run_inv:
  assumes ci: "ctrl_inv cfg d" and a: "run mc cfg pr d = Some (r, d')"
  shows "ctrl_inv cfg d'"
proof (cases "doPing mc pr")
  case (Inl e)
  then show ?thesis using a ci by (simp add: run_def)
next
  case (Inr s)
  obtain response loss where s: "s = (response, loss)" by fastforce
  have "fdm_ok cfg d" using ci by (simp add: ctrl_inv_def)
  then have rs: "run mc cfg pr d = (if checkMetrics mc response loss
      then bind_pp (addRoute (session_of d) cfg) (\<lambda>result. total (ok ())) d
      else bind_pp (delRoute (session_of d) cfg) (\<lambda>result. total (ok ())) d)"
    using run_sample [OF Inr [unfolded s]] by simp
  show ?thesis
  proof (cases "checkMetrics mc response loss")
    case True
    then obtain r0 where "addRoute (session_of d) cfg d = Some (r0, d')"
      using a rs by (auto dest: bind_pp_total_ok)
    then show ?thesis by (rule addRoute_inv [OF ci])
  next
    case False
    then obtain r0 where "delRoute (session_of d) cfg d = Some (r0, d')"
      using a rs by (auto dest: bind_pp_total_ok)
    then show ?thesis by (rule delRoute_inv [OF ci])
  qed
qed

lemma ctrl_inv_env: "ctrl_inv cfg (d\<lparr>dev_feed := fe, dev_clock := c\<rparr>) = ctrl_inv cfg d"
proof -
  have "dev_wf (d\<lparr>dev_feed := fe, dev_clock := c\<rparr>) = dev_wf d" by (rule dev_wf_cong) simp_all
  moreover have "route_matches (d\<lparr>dev_feed := fe, dev_clock := c\<rparr>) cfg = route_matches d cfg"
    by (rule ext, rule route_matches_objects) simp
  ultimately show ?thesis by (simp add: ctrl_inv_def fdm_ok_def single_backup_def routes_of_def)
qed

lemma reach_inv: "reach mc cfg d \<Longrightarrow> ctrl_inv cfg d"
  by (induction rule: reach.induct) (auto intro: run_inv simp: ctrl_inv_env)

lemma done_ctrl_inv: "ctrl_inv demo_config done_device"
  using done_device_hyps(3) by (simp add: ctrl_inv_def fdm_ok_def single_backup_def done_defs routes_of_def)

lemma doPing_lossy:
  "doPing spec_monitor (Probed \<lparr>pr_packets = replicate 4 ''Reply from 8.8.8.8, 2 bytes in 15.0ms''
       @ replicate 6 ''Request timed out'', pr_rtt_avg = 15\<rparr>) = Inr (15, 60)"
  by (simp add: doPing_def calculateLoss_def spec_monitor_def reply_is_reply timeout_not_reply numeral_eq_Suc)

section \<open>Properties\<close>

text \<open>C1: The controller is level-triggered (spec section 4.6): on a device the configured
  credentials log in to, well formed and with at most one backup route, where the backup
  interface exists, the route parses and the deployment is confirmed, one cycle returns and
  leaves the device in FAILOVER mode (a matching route present) exactly when the sample is
  unhealthy, in PRIMARY mode otherwise, whatever the mode before.\<close>

theorem run_level_triggered:
  assumes ok: "fdm_ok cfg d" and wf: "dev_wf d" and sb: "single_backup cfg (vr_id (hd (dev_vrouters d))) d"
    and i: "find (\<lambda>i. if_hw i = cfg_fo_interface cfg) (dev_ifaces d) = Some i"
    and x: "ipv4_network (cfg_route cfg) = Inr x"
    and fe: "feed_step (mk_id ''dep'' (dev_deploys d)) (dev_feed d (dev_clock d)) = Inr True"
    and s: "doPing mc pr = Inr (response, loss)"
  shows "\<exists>d'. run mc cfg pr d = Some (Inr (), d') \<and>
           mode_of cfg (vr_id (hd (dev_vrouters d))) d' = (if checkMetrics mc response loss then FAILOVER else PRIMARY)"
proof -
  let ?f = "session_of d" and ?v = "vr_id (hd (dev_vrouters d))"
  have h: "healthy ?f d" using ok by (rule fdm_ok_healthy)
  have v: "fp_globalVR ?f = Some ?v" by (simp add: session_of_def)
  have rw: "routes_wf d" using wf by (simp add: dev_wf_def)
  show ?thesis
  proof (cases "checkMetrics mc response loss")
    case True
    show ?thesis
    proof (cases "find (route_matches d cfg) (routes_of d ?v)")
      case None
      obtain r d1 where a: "addRoute ?f cfg d = Some (Inr True, d1)"
        and fd: "find (route_matches d1 cfg) (routes_of d1 ?v) = Some r"
        by (rule addRoute_effect [OF h v wf None i x fe])
      then show ?thesis using True run_sample [OF s ok] by (simp add: mode_of_def)
    next
      case (Some r)
      have "run mc cfg pr d = Some (Inr (), d)"
        using True run_sample [OF s ok] addRoute_present [OF h rw v Some] by (simp add: bind_pp_def)
      with True Some show ?thesis by (simp add: mode_of_def)
    qed
  next
    case False
    show ?thesis
    proof (cases "find (route_matches d cfg) (routes_of d ?v)")
      case None
      then show ?thesis using False run_sample [OF s ok]
        by (simp add: mode_of_def delRoute_def doesRouteExist_eq [OF h rw v])
    next
      case (Some r)
      obtain d' where "delRoute ?f cfg d = Some (Inr (Some True), d')"
        and "find (route_matches d' cfg) (routes_of d' ?v) = None"
        using delRoute_clears [OF h rw v sb Some fe] by blast
      then show ?thesis using False run_sample [OF s ok] by (simp add: mode_of_def)
    qed
  qed
qed

lemma run_level_triggered_witness:
  "fdm_ok demo_config done_device \<and> dev_wf done_device \<and>
   single_backup demo_config (vr_id (hd (dev_vrouters done_device))) done_device \<and>
   find (\<lambda>i. if_hw i = cfg_fo_interface demo_config) (dev_ifaces done_device) =
     Some \<lparr>if_id = ''if1'', if_name = ''outside2'', if_hw = ''GigabitEthernet0/1''\<rparr> \<and>
   ipv4_network (cfg_route demo_config) = Inr (0x0A0A0000, 0xFFFF0000) \<and>
   feed_step (mk_id ''dep'' (dev_deploys done_device)) (dev_feed done_device (dev_clock done_device)) = Inr True \<and>
   doPing spec_monitor (Probed \<lparr>pr_packets = replicate 4 ''Reply from 8.8.8.8, 2 bytes in 15.0ms''
       @ replicate 6 ''Request timed out'', pr_rtt_avg = 15\<rparr>) = Inr (15, 60) \<and>
   (\<exists>d'. run spec_monitor demo_config (Probed \<lparr>pr_packets = replicate 4 ''Reply from 8.8.8.8, 2 bytes in 15.0ms''
       @ replicate 6 ''Request timed out'', pr_rtt_avg = 15\<rparr>) done_device = Some (Inr (), d') \<and>
     mode_of demo_config (vr_id (hd (dev_vrouters done_device))) d' = FAILOVER)"
proof -
  have ok: "fdm_ok demo_config done_device" and sb: "single_backup demo_config (vr_id (hd (dev_vrouters done_device))) done_device"
    using done_ctrl_inv by (simp_all add: ctrl_inv_def)
  have c: "checkMetrics spec_monitor 15 60" by (simp add: checkMetrics_def spec_monitor_def)
  show ?thesis
    using run_level_triggered [OF ok done_device_hyps(3) sb done_device_hyps(5) done_device_hyps(6)
        done_device_hyps(7) doPing_lossy] ok sb c done_device_hyps(3,5,6,7) doPing_lossy
    by simp
qed

text \<open>C15: Without the privilege to open a raw socket, \<open>doPing\<close> calls \<open>sys.exit(0)\<close>: the
  cycle ends the process with the success status, and the device is untouched.\<close>

theorem run_permission_denied: "run mc cfg PermissionDenied d = Some (Inl (SystemExit 0), d)"
  by (simp add: run_def doPing_def)

text \<open>C17: \<open>getGlobalVR\<close> inspects only the first virtual router and leaves
  \<open>self.globalVR\<close> unset when it is not named Global; the first use of the attribute in
  the cycle, the URL concatenation of \<open>getRoutes\<close> (\<open>src/firepower.py\<close> line 268) called by
  \<open>doesRouteExist\<close>, raises \<open>AttributeError\<close>, and the route is neither added nor removed.\<close>

theorem run_global_not_first:
  assumes "dev_user d = cfg_username cfg" "dev_password d = cfg_password cfg" "\<forall>m u. \<not> dev_fail d m u"
    and "dev_vrouters d = vr # vrs" "vr_name vr \<noteq> ''Global''"
    and "doPing mc pr = Inr (response, loss)"
  shows "run mc cfg pr d = Some (Inl AttributeError, d)"
  using assms(6) FirePower_not_first [OF assms(1-5)]
  by (simp add: run_def addRoute_def delRoute_def doesRouteExist_def getRoutes_def globalVR_def act_simps)

lemma run_global_not_first_witness:
  "dev_user (demo_device\<lparr>dev_vrouters := [\<lparr>vr_id = ''vr0'', vr_name = ''Management''\<rparr>, \<lparr>vr_id = ''vr1'', vr_name = ''Global''\<rparr>]\<rparr>)
     = cfg_username demo_config \<and>
   dev_password (demo_device\<lparr>dev_vrouters := [\<lparr>vr_id = ''vr0'', vr_name = ''Management''\<rparr>, \<lparr>vr_id = ''vr1'', vr_name = ''Global''\<rparr>]\<rparr>)
     = cfg_password demo_config \<and>
   (\<forall>m u. \<not> dev_fail (demo_device\<lparr>dev_vrouters := [\<lparr>vr_id = ''vr0'', vr_name = ''Management''\<rparr>, \<lparr>vr_id = ''vr1'', vr_name = ''Global''\<rparr>]\<rparr>) m u) \<and>
   vr_name \<lparr>vr_id = ''vr0'', vr_name = ''Management''\<rparr> \<noteq> ''Global'' \<and>
   run spec_monitor demo_config (Probed \<lparr>pr_packets = replicate 4 ''Reply from 8.8.8.8, 2 bytes in 15.0ms''
       @ replicate 6 ''Request timed out'', pr_rtt_avg = 15\<rparr>)
     (demo_device\<lparr>dev_vrouters := [\<lparr>vr_id = ''vr0'', vr_name = ''Management''\<rparr>, \<lparr>vr_id = ''vr1'', vr_name = ''Global''\<rparr>]\<rparr>)
   = Some (Inl AttributeError,
       demo_device\<lparr>dev_vrouters := [\<lparr>vr_id = ''vr0'', vr_name = ''Management''\<rparr>, \<lparr>vr_id = ''vr1'', vr_name = ''Global''\<rparr>]\<rparr>)"
proof -
  let ?d = "demo_device\<lparr>dev_vrouters := [\<lparr>vr_id = ''vr0'', vr_name = ''Management''\<rparr>, \<lparr>vr_id = ''vr1'', vr_name = ''Global''\<rparr>]\<rparr>"
  have a: "dev_user ?d = cfg_username demo_config" "dev_password ?d = cfg_password demo_config"
    "\<forall>m u. \<not> dev_fail ?d m u"
    "dev_vrouters ?d = \<lparr>vr_id = ''vr0'', vr_name = ''Management''\<rparr> # [\<lparr>vr_id = ''vr1'', vr_name = ''Global''\<rparr>]"
    "vr_name \<lparr>vr_id = ''vr0'', vr_name = ''Management''\<rparr> \<noteq> ''Global''"
    by (simp_all add: demo_device_def demo_config_def)
  show ?thesis using run_global_not_first [OF a doPing_lossy] a by simp
qed

text \<open>C16: With a wrong password the login answer has no \<open>access_token\<close>; \<open>authRequest\<close>
  returns \<open>None\<close> and the header string concatenation raises \<open>TypeError\<close>, with no
  request to the device that changes it.\<close>

theorem run_bad_credentials:
  assumes "dev_password d \<noteq> cfg_password cfg" "\<forall>m u. \<not> dev_fail d m u"
    and "doPing mc pr = Inr (response, loss)"
  shows "run mc cfg pr d = Some (Inl TypeError, d)"
  using assms
  by (simp add: run_def FirePower_def authRequest_def http_served token_req_def oauth_data_def str_at_def
      item_def act_simps getGlobalVR_def getData_def)

lemma run_bad_credentials_witness:
  "dev_password (demo_device\<lparr>dev_password := ''wrong''\<rparr>) \<noteq> cfg_password demo_config \<and>
   (\<forall>m u. \<not> dev_fail (demo_device\<lparr>dev_password := ''wrong''\<rparr>) m u) \<and>
   run spec_monitor demo_config (Probed \<lparr>pr_packets = replicate 4 ''Reply from 8.8.8.8, 2 bytes in 15.0ms''
       @ replicate 6 ''Request timed out'', pr_rtt_avg = 15\<rparr>) (demo_device\<lparr>dev_password := ''wrong''\<rparr>)
   = Some (Inl TypeError, demo_device\<lparr>dev_password := ''wrong''\<rparr>)"
proof -
  have a: "dev_password (demo_device\<lparr>dev_password := ''wrong''\<rparr>) \<noteq> cfg_password demo_config"
    "\<forall>m u. \<not> dev_fail (demo_device\<lparr>dev_password := ''wrong''\<rparr>) m u"
    by (simp_all add: demo_device_def demo_config_def)
  show ?thesis using run_bad_credentials [OF a doPing_lossy] a by simp
qed

text \<open>C2: In every state a run of the controller reaches, through any interleaving of cycles
  and of environment changes to the deployment feed and the clock, the device stays well
  formed and holds at most one backup route matching the configuration. The runs start in a
  state of \<open>ctrl_inv\<close>: the configured credentials log in, the device answers every request
  (no injected server failure), Global is its first virtual router, the device is well
  formed and holds at most one matching route.\<close>

theorem reach_single_backup:
  assumes "reach mc cfg d"
  shows "length (filter (route_matches d cfg) (routes_of d (vr_id (hd (dev_vrouters d))))) \<le> 1 \<and> dev_wf d"
  using reach_inv [OF assms] by (simp add: ctrl_inv_def single_backup_def)

lemma reach_single_backup_witness:
  "reach spec_monitor demo_config done_device \<and>
   length (filter (route_matches done_device demo_config)
     (routes_of done_device (vr_id (hd (dev_vrouters done_device))))) \<le> 1 \<and> dev_wf done_device"
proof -
  have r: "reach spec_monitor demo_config done_device" by (rule reach_start [OF done_ctrl_inv])
  show ?thesis using reach_single_backup [OF r] r by simp
qed

end
