(* ===== verification/Spec2Isabelle.thy ===== *)
theory Spec2Isabelle
  imports Controller
begin

text \<open>
  \<^bold>\<open>A verification library for fpwr-route-failover.\<close>

  The program watches the primary internet path of a Cisco Firepower firewall and installs
  or withdraws a backup static route through the firewall's management REST API (FDM).
  \<open>src/pathmonitor.py\<close> probes a destination (\<open>doPing\<close>, \<open>calculateLoss\<close>), classifies the
  sample (\<open>checkMetrics\<close>) and, in \<open>run\<close>, logs in through \<open>firepower.FirePower()\<close> and calls
  \<open>addRoute\<close> when the path is unhealthy and \<open>delRoute\<close> when it is healthy.
  \<open>src/firepower.py\<close> implements those two operations: it looks the route up
  (\<open>doesRouteExist\<close>), creates or reuses the network and gateway objects
  (\<open>createNetworkObject\<close>), builds and posts the route (\<open>createRouteObject\<close>), deletes it,
  and waits for the configuration deployment (\<open>deployPolicy\<close>).

  \<^bold>\<open>Theories and what they model.\<close>
  \<^item> \<open>Prelude\<close>: the Python exceptions as the datatype \<open>py_error\<close>. Effects are explicit state
    passing over the remote device: \<open>('s,'a) act\<close> returns \<open>error + value\<close> with the device
    after the call, so an exception never undoes a remote change. \<open>('s,'a) pact\<close> is the
    option version, for code that may never return. The theory also holds the combinators
    (\<open>bind_act\<close>, \<open>catch_act\<close> for \<open>try/except\<close>, \<open>bind_pact\<close>, \<open>bind_pp\<close>), \<open>str.split\<close>,
    decimal strings, and the shared list lemmas.
  \<^item> \<open>Json\<close>: JSON values with Python's subscript, iteration, truthiness and \<open>str.split\<close>
    semantics, including the exception each misuse raises.
  \<^item> \<open>Remote\<close>: the FDM device as the environment: its objects, routes, virtual routers,
    interfaces, deployment feed and clock, and the function \<open>http\<close> that serves a request.
    It is modelled from the spec (section 6), not from repository code.
  \<^item> \<open>Session\<close>: the module options (\<open>config\<close>), the \<open>FirePower\<close> object's \<open>token\<close> and
    \<open>globalVR\<close>, \<open>authRequest\<close>, \<open>getGlobalVR\<close>, and the helpers \<open>getData\<close>, \<open>postData\<close>
    and \<open>deleteData\<close> (\<open>firepower.py\<close> 11--68, 272--316).
  \<^item> \<open>Deploy\<close>: \<open>deployPolicy\<close> (127--154). Its \<open>while deployed is False\<close> loop is the
    \<open>partial_function (option)\<close> \<open>deploy_loop\<close>, so running forever is the value \<open>None\<close>.
    Beside it is \<open>deploy_bounded\<close>, the waiter with at most \<open>n\<close> polls that the spec requires
    (4.4): its fuel is the spec's retry bound, and it is a specification, not a fuel
    approximation of the code.
  \<^item> \<open>IPv4\<close>: the part of Python's \<open>ipaddress.IPv4Network\<close> (strict) and \<open>str()\<close> of
    addresses that \<open>createNetwork\<close> uses, over \<open>32 word\<close>. This is library code, so it is
    not mapped to repository lines.
  \<^item> \<open>Objects\<close>: \<open>getNetworkObject\<close>, \<open>getDuplicateObject\<close>, \<open>createNetworkObject\<close> (the
    \<open>except KeyError\<close> path for FDM's duplicate-name answer), \<open>createGateway\<close> and
    \<open>createNetwork\<close> (173--209, 238--263).
  \<^item> \<open>RouteBuilder\<close>: \<open>getFailoverInterface\<close> and \<open>createRouteObject\<close> (185--192, 211--236).
  \<^item> \<open>Routes\<close>: \<open>getRoutes\<close>, \<open>doesRouteExist\<close> with its loop \<open>scan_routes\<close>, \<open>addRoute\<close> and
    \<open>delRoute\<close> (70--171, 265--270), with the abstract matching rule \<open>route_matches\<close>.
  \<^item> \<open>Reconcile\<close>: the device invariant \<open>dev_wf\<close> (unique object names, fresh ids,
    well-formed objects, routes referring to existing objects) and what \<open>addRoute\<close> and
    \<open>delRoute\<close> do to the route table.
  \<^item> \<open>Monitor\<close>: \<open>pathmonitor.py\<close> 8--61. The options are a \<open>monitor_cfg\<close> record. The
    probe outcome is the input \<open>probe\<close>: either \<open>PermissionError\<close>, or the packets' texts
    and the average round-trip time. \<open>calculateLoss\<close> has its packet loop \<open>count_lost\<close>;
    \<open>checkMetrics\<close> and \<open>doPing\<close> follow.
  \<^item> \<open>Controller\<close>: \<open>run\<close> (\<open>pathmonitor.py\<close> 64--81) composes the monitor, the login and
    the reconciler. The spec's PRIMARY/FAILOVER mode is read from the device
    (\<open>mode_of\<close>). The cycles an external scheduler invokes one at a time are the inductive
    relation \<open>reach\<close>, whose invariant is \<open>ctrl_inv\<close>.

  \<^bold>\<open>What the lemmas show.\<close>
  \<^item> Functional behaviour of each operation on every branch, exceptions included:
    \<open>createNetworkObject\<close> for fresh and duplicate names; \<open>doesRouteExist\<close> refining
    \<open>route_matches\<close>; \<open>addRoute\<close> idempotent; \<open>addRoute\<close> then \<open>delRoute\<close> restoring the
    route table; the poll loop returning after exactly \<open>m+1\<close> polls.
  \<^item> Non-termination: \<open>deployPolicy\<close> never returns when no poll is decisive.
  \<^item> Refinement: the spec's bounded waiter against the code's loop.
  \<^item> Invariants: \<open>dev_wf\<close> is preserved by object creation and by \<open>addRoute\<close> and
    \<open>delRoute\<close>. \<open>ctrl_inv\<close> holds in every state the controller reaches from a state of
    \<open>ctrl_inv\<close>, so its own cycles never install a second backup route. The start states
    need a working login, a device that answers every request, and Global as the first
    virtual router.
  \<^item> Naming: \<open>createNetwork\<close> on two prefixes of one network address resolves both to
    the first object, so the device keeps the first netmask.
  \<^item> The level-triggered state machine: one cycle leaves the device in FAILOVER mode
    exactly when the sample is unhealthy.
  \<^item> Bounds: the loss percentage lies in [0, 100]; the thresholds are inclusive.
  \<^item> Equivalence: the packet loop against a filter.
  \<^item> Round trips: the network value parses back through \<open>IPv4Network\<close>.
  \<^item> Error paths: the \<open>TypeError\<close>, \<open>AttributeError\<close> and
    \<open>SystemExit 0\<close> that the code raises where the spec expects other failures.
  Each claim with hypotheses has a witness at a concrete device (\<open>demo_device\<close>, \<open>done_device\<close>),
  evaluated by \<open>simp\<close>.

  \<^bold>\<open>Not modelled.\<close>
  \<^item> The HTTP transport (\<open>requests\<close>, TLS, status codes other than the device's answers),
    \<open>pythonping\<close>'s raw sockets, \<open>sleep\<close>, printing, and the reading of
    \<open>options.json\<close> (its values are the records' fields).
  \<^item> Python's floats are exact rationals, so rounding is not modelled.
  \<^item> The probe's packet list is any list: it is not tied to \<open>PING_COUNT\<close>, although
    \<open>pythonping\<close> returns exactly that many responses. The bounds on the loss assume at
    most \<open>PING_COUNT\<close> packets.
  \<^item> Concurrent cycles are not modelled: the spec (section 5) runs one invocation at a time.
  \<^item> The device is modelled from the spec's description of the API, not from a real
    device's behaviour beyond it.
\<close>

end
